theory Spec2Isabelle
  imports Main
begin

section \<open>MultiDeferred: the one-shot broadcast primitive\<close>

text \<open>
  \<^verbatim>\<open>MultiDeferred\<close> (sandbox.py, lines 30-55) hands out a new Deferred on every
  \<^verbatim>\<open>get()\<close> and fires all of them together on \<^verbatim>\<open>callback(result)\<close>.

  A Deferred is an object; here it is its identity (a number, the position at which it
  was created) together with the sequence of results its own \<^verbatim>\<open>callback\<close> has been
  invoked with, kept in \<open>md_issued\<close>. The sentinel \<^verbatim>\<open>NOT_FIRED\<close> is \<open>None\<close>, so a
  result that is Python's \<^verbatim>\<open>None\<close> still counts as fired.

  \<open>md_calls\<close> is not an attribute of the class: it records the results that
  \<^verbatim>\<open>callback\<close> was called with, in order, so that a statement can count the fires.
\<close>

record 'a multi_deferred =
  md_result :: "'a option"
  md_deferreds :: "nat list"
  md_issued :: "'a list list"
  md_calls :: "'a list"

definition MultiDeferred_init :: "'a multi_deferred" where
  "MultiDeferred_init =
     \<lparr>md_result = None, md_deferreds = [], md_issued = [], md_calls = []\<rparr>"

definition MultiDeferred_fired :: "'a multi_deferred \<Rightarrow> bool" where
  "MultiDeferred_fired m = (md_result m \<noteq> None)"

definition Deferred_callback :: "'a \<Rightarrow> nat \<Rightarrow> 'a list list \<Rightarrow> 'a list list" where
  "Deferred_callback r d ds = ds[d := ds ! d @ [r]]"

definition MultiDeferred_callback :: "'a \<Rightarrow> 'a multi_deferred \<Rightarrow> 'a multi_deferred" where
  "MultiDeferred_callback r m =
     m\<lparr>md_result := Some r,
       md_issued := fold (Deferred_callback r) (md_deferreds m) (md_issued m),
       md_deferreds := [],
       md_calls := md_calls m @ [r]\<rparr>"

definition MultiDeferred_get :: "'a multi_deferred \<Rightarrow> nat \<times> 'a multi_deferred" where
  "MultiDeferred_get m =
     (let d = length (md_issued m) in
      case md_result m of
        Some r \<Rightarrow> (d, m\<lparr>md_issued := md_issued m @ [[r]]\<rparr>)
      | None \<Rightarrow> (d, m\<lparr>md_issued := md_issued m @ [[]],
                        md_deferreds := md_deferreds m @ [d]\<rparr>))"

text \<open>A history of calls made on one MultiDeferred.\<close>

datatype 'a md_call = Get | Callback 'a

fun md_step :: "'a md_call \<Rightarrow> 'a multi_deferred \<Rightarrow> 'a multi_deferred" where
  "md_step Get m = snd (MultiDeferred_get m)"
| "md_step (Callback r) m = MultiDeferred_callback r m"

definition md_run :: "'a md_call list \<Rightarrow> 'a multi_deferred \<Rightarrow> 'a multi_deferred" where
  "md_run calls m = fold md_step calls m"

fun is_Callback :: "'a md_call \<Rightarrow> bool" where
  "is_Callback Get = False"
| "is_Callback (Callback r) = True"

section \<open>Python values, exceptions and commands\<close>

text \<open>
  An exception is kept as its message, the one argument it was raised with. In Python 2
  that message is a byte string (\<^verbatim>\<open>str\<close>) or a \<^verbatim>\<open>unicode\<close> object, and the two behave
  differently under \<^verbatim>\<open>str(e)\<close> and \<^verbatim>\<open>unicode(e)\<close>: \<open>PyException m\<close> is an exception whose
  message is the byte string \<open>m\<close>, \<open>PyUnicodeException m\<close> one whose message is the
  \<^verbatim>\<open>unicode\<close> object \<open>m\<close> (code points below 256). \<open>exc_message\<close> is the text of the message
  whatever its type.
\<close>

datatype py_exception = PyException string | PyUnicodeException string

fun exc_message :: "py_exception \<Rightarrow> string" where
  "exc_message (PyException m) = m"
| "exc_message (PyUnicodeException m) = m"

definition quote :: "string \<Rightarrow> string" where
  "quote s = [CHR 0x27] @ s @ [CHR 0x27]"

text \<open>Numbers as \<^verbatim>\<open>%d\<close> and \<^verbatim>\<open>%02x\<close> print them.\<close>

definition digit_char :: "nat \<Rightarrow> char" where
  "digit_char d = char_of (48 + d)"

fun show_nat :: "nat \<Rightarrow> string" where
  "show_nat n =
     (if n < 10 then [digit_char n] else show_nat (n div 10) @ [digit_char (n mod 10)])"

definition hex_digit :: "nat \<Rightarrow> char" where
  "hex_digit d = (if d < 10 then char_of (48 + d) else char_of (87 + d))"

definition hex_byte :: "char \<Rightarrow> string" where
  "hex_byte c = [hex_digit (of_char c div 16), hex_digit (of_char c mod 16)]"

text \<open>
  \<^verbatim>\<open>str(e)\<close> (line 566) gives a byte-string message as it is and encodes a \<^verbatim>\<open>unicode\<close>
  message with the default codec, ASCII; \<^verbatim>\<open>unicode(e)\<close> (lines 341 and 571) gives a
  \<^verbatim>\<open>unicode\<close> message as it is and decodes a byte-string message with that codec. The
  codec raises at the first character outside ASCII: \<^verbatim>\<open>UnicodeEncodeError\<close> names the
  run of such characters that starts there (the character itself when the run is one
  character long), \<^verbatim>\<open>UnicodeDecodeError\<close> names the byte.
\<close>

definition is_ascii_char :: "char \<Rightarrow> bool" where
  "is_ascii_char c = ((of_char c :: nat) < 128)"

definition is_ascii :: "string \<Rightarrow> bool" where
  "is_ascii s = list_all is_ascii_char s"

definition non_ascii_start :: "string \<Rightarrow> nat" where
  "non_ascii_start s = length (takeWhile is_ascii_char s)"

definition non_ascii_run :: "string \<Rightarrow> string" where
  "non_ascii_run s = takeWhile (\<lambda>c. \<not> is_ascii_char c) (dropWhile is_ascii_char s)"

definition UnicodeEncodeError :: "string \<Rightarrow> py_exception" where
  "UnicodeEncodeError s =
     PyException
       (quote ''ascii'' @ '' codec can'' @ [CHR 0x27] @ ''t encode '' @
        (case non_ascii_run s of
           [c] \<Rightarrow>
             ''character u'' @ quote ([CHR 0x5C, CHR ''x''] @ hex_byte c) @
             '' in position '' @ show_nat (non_ascii_start s)
         | run \<Rightarrow>
             ''characters in position '' @ show_nat (non_ascii_start s) @ ''-'' @
             show_nat (non_ascii_start s + length run - 1)) @
        '': ordinal not in range(128)'')"

definition UnicodeDecodeError :: "string \<Rightarrow> py_exception" where
  "UnicodeDecodeError s =
     PyException
       (quote ''ascii'' @ '' codec can'' @ [CHR 0x27] @ ''t decode byte 0x'' @
        (case non_ascii_run s of [] \<Rightarrow> [] | c # cs \<Rightarrow> hex_byte c) @
        '' in position '' @ show_nat (non_ascii_start s) @ '': ordinal not in range(128)'')"

fun exc_str :: "py_exception \<Rightarrow> py_exception + string" where
  "exc_str (PyException m) = Inr m"
| "exc_str (PyUnicodeException m) = (if is_ascii m then Inr m else Inl (UnicodeEncodeError m))"

fun exc_unicode :: "py_exception \<Rightarrow> py_exception + string" where
  "exc_unicode (PyException m) = (if is_ascii m then Inr m else Inl (UnicodeDecodeError m))"
| "exc_unicode (PyUnicodeException m) = Inr m"

text \<open>
  A value is what a field of a command can hold: a JSON value (a float is a pair
  mantissa, binary exponent; no arithmetic is done on it here) or, for the field
  \<^verbatim>\<open>exception\<close> of a line that failed to parse, an exception object.
\<close>

datatype pyval =
    PNone
  | PBool bool
  | PInt int
  | PFloat int int
  | PStr string
  | PList "pyval list"
  | PDict "(string \<times> pyval) list"
  | PExc py_exception

fun type_name :: "pyval \<Rightarrow> string" where
  "type_name PNone = ''NoneType''"
| "type_name (PBool b) = ''bool''"
| "type_name (PInt i) = ''int''"
| "type_name (PFloat m e) = ''float''"
| "type_name (PStr s) = ''unicode''"
| "type_name (PList xs) = ''list''"
| "type_name (PDict kvs) = ''dict''"
| "type_name (PExc e) = ''instance''"

text \<open>
  A command is a \<^verbatim>\<open>Message\<close>: a dictionary of fields (its payload). \<^verbatim>\<open>command[k]\<close>
  raises KeyError on a missing field, \<^verbatim>\<open>command.get(k, default)\<close> does not.
\<close>

type_synonym command = "string \<rightharpoonup> pyval"

definition KeyError :: "string \<Rightarrow> py_exception" where
  "KeyError k = PyException (quote k)"

definition getitem :: "command \<Rightarrow> string \<Rightarrow> py_exception + pyval" where
  "getitem command k = (case command k of None \<Rightarrow> Inl (KeyError k) | Some v \<Rightarrow> Inr v)"

definition command_get :: "command \<Rightarrow> string \<Rightarrow> pyval \<Rightarrow> pyval" where
  "command_get command k dflt = (case command k of None \<Rightarrow> dflt | Some v \<Rightarrow> v)"

definition setdefault :: "string \<Rightarrow> pyval \<Rightarrow> command \<Rightarrow> command" where
  "setdefault k v payload = (case payload k of None \<Rightarrow> payload(k \<mapsto> v) | Some old \<Rightarrow> payload)"

text \<open>
  \<^verbatim>\<open>SandboxCommand.process_fields\<close> (lines 583-588): the three mandatory fields get
  their defaults; \<open>new_id\<close> is what \<^verbatim>\<open>generate_id()\<close> returned for this construction.
\<close>

definition process_fields :: "string \<Rightarrow> command \<Rightarrow> command" where
  "process_fields new_id payload =
     setdefault ''reply'' (PBool False)
       (setdefault ''cmd_id'' (PStr new_id)
         (setdefault ''cmd'' (PStr ''unknown'') payload))"

text \<open>
  What the module takes from outside this file, as parameters:
  \<^item> \<open>from_json\<close>: \<^verbatim>\<open>SandboxCommand.from_json\<close>, inherited from \<^verbatim>\<open>vumi.message.Message\<close>;
    it raises on a line that is not the JSON of a valid command;
  \<^item> \<open>uuid4_hex\<close>: the \<open>n\<close>-th identifier drawn from \<^verbatim>\<open>uuid4().get_hex()\<close>;
  \<^item> \<open>json_dumps\<close>, \<open>json_loads\<close>: the standard library's JSON codec;
  \<^item> \<open>py_repr\<close>, \<open>command_repr\<close>: \<^verbatim>\<open>%r\<close> of a value and of a command.
\<close>

record externals =
  from_json :: "string \<Rightarrow> py_exception + command"
  uuid4_hex :: "nat \<Rightarrow> string"
  json_dumps :: "pyval \<Rightarrow> py_exception + string"
  json_loads :: "string \<Rightarrow> py_exception + pyval"
  py_repr :: "pyval \<Rightarrow> string"
  command_repr :: "command \<Rightarrow> string"

section \<open>The world a sandbox run acts on\<close>

text \<open>
  Everything a run does outside the protocol object is an event appended to \<open>trace\<close>:
  \<^item> \<open>SignalProcess n\<close>: \<^verbatim>\<open>transport.signalProcess(n)\<close>;
  \<^item> \<open>TransportWrite c\<close>: \<^verbatim>\<open>transport.write(c.to_json())\<close> followed by
    \<^verbatim>\<open>transport.write("\n")\<close>, one line on the child's stdin;
  \<^item> \<open>LogMsg msg level\<close>: \<^verbatim>\<open>vumi.log.msg(msg, logLevel=level)\<close>;
  \<^item> \<open>LogError e\<close>: \<^verbatim>\<open>vumi.log.error\<close> for the failure \<open>e\<close>, the system log.

  \<open>transport_pid\<close> is \<^verbatim>\<open>transport.pid\<close> (None once the child is gone),
  \<open>logging_resource\<close> the name of the logging resource \<^verbatim>\<open>SandboxApi.__init__\<close> resolved
  (None for the fall-back to Twisted logging), \<open>redis\<close> the backing key/value store and
  \<open>uuid_draws\<close> the number of identifiers generated so far.
\<close>

datatype event =
    SignalProcess string
  | TransportWrite command
  | LogMsg string int
  | LogError py_exception

record world =
  sandbox_id :: string
  transport_pid :: "nat option"
  logging_resource :: "string option"
  redis :: "string \<rightharpoonup> string"
  uuid_draws :: nat
  trace :: "event list"

definition logging_ERROR :: int where
  "logging_ERROR = 40"

definition emit :: "event \<Rightarrow> world \<Rightarrow> world" where
  "emit e w = w\<lparr>trace := trace w @ [e]\<rparr>"

text \<open>\<^verbatim>\<open>SandboxProtocol.kill\<close> (lines 110-113), also reached as \<^verbatim>\<open>api.sandbox_kill()\<close>.\<close>

definition kill :: "world \<Rightarrow> world" where
  "kill w = (if transport_pid w \<noteq> None then emit (SignalProcess ''KILL'') w else w)"

text \<open>\<^verbatim>\<open>SandboxProtocol.send\<close> (lines 115-118), also reached as \<^verbatim>\<open>api.sandbox_send\<close>.\<close>

definition send :: "command \<Rightarrow> world \<Rightarrow> world" where
  "send command w = emit (TransportWrite command) w"

text \<open>\<^verbatim>\<open>LoggingResource.log\<close> (lines 390-399) and \<^verbatim>\<open>SandboxApi.log\<close> (lines 542-548).\<close>

definition LoggingResource_log :: "string \<Rightarrow> int \<Rightarrow> world \<Rightarrow> world" where
  "LoggingResource_log msg level w = emit (LogMsg msg level) w"

definition api_log :: "string \<Rightarrow> int \<Rightarrow> world \<Rightarrow> world" where
  "api_log msg level w =
     (case logging_resource w of
        None \<Rightarrow> emit (LogMsg msg level) w
      | Some r \<Rightarrow> LoggingResource_log msg level w)"

text \<open>
  Constructing a \<^verbatim>\<open>SandboxCommand(**fields)\<close>: \<^verbatim>\<open>generate_id()\<close> is called at every
  construction, whether or not its value ends up in the command.
\<close>

definition SandboxCommand :: "externals \<Rightarrow> command \<Rightarrow> world \<Rightarrow> command \<times> world" where
  "SandboxCommand env payload w =
     (process_fields (uuid4_hex env (uuid_draws w)) payload,
      w\<lparr>uuid_draws := Suc (uuid_draws w)\<rparr>)"

section \<open>Resources\<close>

text \<open>
  A handler either raises or returns (a reply, or None for no reply); it does so at
  once (\<open>Some\<close>) or its Deferred has not fired yet when it hands control back (\<open>None\<close>).
  A resource is its name and its \<^verbatim>\<open>handle_<cmd>\<close> methods, looked up by \<^verbatim>\<open><cmd>\<close>.
\<close>

datatype handler_result = Raised py_exception | Returned "command option"

type_synonym handler = "command \<Rightarrow> world \<Rightarrow> handler_result option \<times> world"

record resource =
  res_name :: string
  res_handlers :: "string \<rightharpoonup> handler"

text \<open>\<^verbatim>\<open>SandboxResource.reply\<close> (lines 247-249).\<close>

definition reply ::
  "externals \<Rightarrow> command \<Rightarrow> command \<Rightarrow> world \<Rightarrow> (py_exception + command) \<times> world" where
  "reply env command kwargs w =
     (case getitem command ''cmd'' of
        Inl e \<Rightarrow> (Inl e, w)
      | Inr c \<Rightarrow>
          (case getitem command ''cmd_id'' of
             Inl e \<Rightarrow> (Inl e, w)
           | Inr i \<Rightarrow>
               (let (r, w') = SandboxCommand env
                      (kwargs(''cmd'' \<mapsto> c, ''reply'' \<mapsto> PBool True, ''cmd_id'' \<mapsto> i)) w
                in (Inr r, w'))))"

text \<open>What a handler hands back when it ends in \<^verbatim>\<open>return self.reply(...)\<close>.\<close>

definition return_reply ::
  "(py_exception + command) \<times> world \<Rightarrow> handler_result option \<times> world" where
  "return_reply rw =
     (case rw of
        (Inl e, w) \<Rightarrow> (Some (Raised e), w)
      | (Inr r, w) \<Rightarrow> (Some (Returned (Some r)), w))"

text \<open>\<^verbatim>\<open>SandboxResource.unknown_request\<close> (lines 256-261): log first, then kill.\<close>

definition unknown_request_msg ::
  "externals \<Rightarrow> string \<Rightarrow> pyval \<Rightarrow> string \<Rightarrow> command \<Rightarrow> string" where
  "unknown_request_msg env name c sid command =
     ''Resource '' @ name @ '' received unknown command '' @ py_repr env c @
     '' from sandbox '' @ py_repr env (PStr sid) @
     ''. Killing sandbox. [Full command: '' @ command_repr env command @ '']''"

definition unknown_request :: "externals \<Rightarrow> resource \<Rightarrow> handler" where
  "unknown_request env res command w =
     (case getitem command ''cmd'' of
        Inl e \<Rightarrow> (Some (Raised e), w)
      | Inr c \<Rightarrow>
          (let w1 = api_log (unknown_request_msg env (res_name res) c (sandbox_id w) command)
                      logging_ERROR w;
               w2 = kill w1
           in (Some (Returned None), w2)))"

text \<open>
  \<^verbatim>\<open>SandboxResource.dispatch_request\<close> (lines 251-254): the handler is the attribute
  \<^verbatim>\<open>handle_<cmd>\<close>, and \<^verbatim>\<open>unknown_request\<close> when there is none.
\<close>

definition SandboxResource_dispatch_request :: "externals \<Rightarrow> resource \<Rightarrow> handler" where
  "SandboxResource_dispatch_request env res command w =
     (case getitem command ''cmd'' of
        Inl e \<Rightarrow> (Some (Raised e), w)
      | Inr c \<Rightarrow>
          (case (case c of PStr name \<Rightarrow> res_handlers res name | _ \<Rightarrow> None) of
             Some handler \<Rightarrow> handler command w
           | None \<Rightarrow> unknown_request env res command w))"

definition fallback_resource :: resource where
  "fallback_resource = \<lparr>res_name = ''fallback'', res_handlers = Map.empty\<rparr>"

section \<open>The backing key/value store\<close>

text \<open>
  Modelled from the spec: the key/value backing store behind \<^verbatim>\<open>self.redis\<close>
  (\<^verbatim>\<open>vumi.persist.txredis_manager.TxRedisManager\<close>, not part of this file). The store
  maps keys to strings; \<^verbatim>\<open>incr\<close> reads the stored string as a decimal integer (a missing
  key counts as 0), adds the amount, stores the sum in decimal and returns it, and raises
  when the stored string or the amount is not an integer. The store's 64-bit range is
  not modelled.
\<close>

definition digit_val :: "char \<Rightarrow> nat option" where
  "digit_val c =
     (let k = (of_char c :: nat) in if 48 \<le> k \<and> k \<le> 57 then Some (k - 48) else None)"

definition show_int :: "int \<Rightarrow> string" where
  "show_int i = (if i < 0 then CHR ''-'' # show_nat (nat (- i)) else show_nat (nat i))"

fun parse_digits :: "nat \<Rightarrow> string \<Rightarrow> nat option" where
  "parse_digits acc [] = Some acc"
| "parse_digits acc (c # cs) =
     (case digit_val c of None \<Rightarrow> None | Some d \<Rightarrow> parse_digits (10 * acc + d) cs)"

text \<open>Digits only, at least one, and no leading zero except for the string 0 itself.\<close>

definition parse_nat :: "string \<Rightarrow> nat option" where
  "parse_nat s =
     (case s of
        [] \<Rightarrow> None
      | c # cs \<Rightarrow> if c = CHR ''0'' \<and> cs \<noteq> [] then None else parse_digits 0 s)"

definition parse_int :: "string \<Rightarrow> int option" where
  "parse_int s =
     (case s of
        [] \<Rightarrow> None
      | c # cs \<Rightarrow>
          if c = CHR ''-''
          then (case parse_nat cs of
                  None \<Rightarrow> None
                | Some n \<Rightarrow> if n = 0 then None else Some (- int n))
          else map_option int (parse_nat s))"

definition redis_exists :: "string \<Rightarrow> world \<Rightarrow> bool" where
  "redis_exists key w = (redis w key \<noteq> None)"

definition redis_get :: "string \<Rightarrow> world \<Rightarrow> string option" where
  "redis_get key w = redis w key"

definition redis_set :: "string \<Rightarrow> string \<Rightarrow> world \<Rightarrow> world" where
  "redis_set key v w = w\<lparr>redis := (redis w)(key \<mapsto> v)\<rparr>"

definition redis_delete :: "string \<Rightarrow> world \<Rightarrow> int \<times> world" where
  "redis_delete key w =
     (if redis w key \<noteq> None then (1, w\<lparr>redis := (redis w)(key := None)\<rparr>) else (0, w))"

definition not_an_integer :: py_exception where
  "not_an_integer = PyException ''value is not an integer or out of range''"

text \<open>The integer the store reads at a key: 0 for a missing key, none for a string that
  is not a decimal integer.\<close>

definition stored_int :: "world \<Rightarrow> string \<Rightarrow> int option" where
  "stored_int w key = (case redis w key of None \<Rightarrow> Some 0 | Some v \<Rightarrow> parse_int v)"

definition redis_incr :: "string \<Rightarrow> pyval \<Rightarrow> world \<Rightarrow> (py_exception + int) \<times> world" where
  "redis_incr key amount w =
     (case amount of
        PInt a \<Rightarrow>
          (case stored_int w key of
             None \<Rightarrow> (Inl not_an_integer, w)
           | Some n \<Rightarrow> (Inr (n + a), w\<lparr>redis := (redis w)(key \<mapsto> show_int (n + a))\<rparr>))
      | _ \<Rightarrow> (Inl not_an_integer, w))"

section \<open>The key/value resource\<close>

text \<open>\<^verbatim>\<open>"#".join(parts)\<close>.\<close>

fun join_hash :: "string list \<Rightarrow> string" where
  "join_hash [] = []"
| "join_hash [x] = x"
| "join_hash (x # y # ys) = x @ ''#'' @ join_hash (y # ys)"

text \<open>\<^verbatim>\<open>RedisResource._count_key\<close> and \<^verbatim>\<open>_sandboxed_key\<close> (lines 285-289). Joining raises
  TypeError when the key is not a string, as for a command with no \<^verbatim>\<open>key\<close> field.\<close>

definition count_key :: "string \<Rightarrow> string" where
  "count_key sid = join_hash [''count'', sid]"

definition join_TypeError :: "nat \<Rightarrow> pyval \<Rightarrow> py_exception" where
  "join_TypeError i v =
     PyException (''sequence item '' @ show_nat i @ '': expected string, '' @
                  type_name v @ '' found'')"

definition sandboxed_key :: "string \<Rightarrow> pyval \<Rightarrow> py_exception + string" where
  "sandboxed_key sid key =
     (case key of
        PStr k \<Rightarrow> Inr (join_hash [''sandboxes'', sid, k])
      | _ \<Rightarrow> Inl (join_TypeError 2 key))"

text \<open>\<^verbatim>\<open>RedisResource._too_many_keys\<close> (lines 291-293).\<close>

definition too_many_keys ::
  "externals \<Rightarrow> command \<Rightarrow> world \<Rightarrow> (py_exception + command) \<times> world" where
  "too_many_keys env command w =
     reply env command [''success'' \<mapsto> PBool False, ''reason'' \<mapsto> PStr ''Too many keys''] w"

text \<open>\<^verbatim>\<open>RedisResource.check_keys\<close> (lines 295-303).\<close>

definition check_keys :: "int \<Rightarrow> string \<Rightarrow> string \<Rightarrow> world \<Rightarrow> (py_exception + bool) \<times> world" where
  "check_keys keys_per_user sid key w =
     (if redis_exists key w then (Inr True, w)
      else
        (case redis_incr (count_key sid) (PInt 1) w of
           (Inl e, w1) \<Rightarrow> (Inl e, w1)
         | (Inr n, w1) \<Rightarrow>
             if n > keys_per_user
             then (case redis_incr (count_key sid) (PInt (- 1)) w1 of
                     (Inl e, w2) \<Rightarrow> (Inl e, w2)
                   | (Inr m, w2) \<Rightarrow> (Inr False, w2))
             else (Inr True, w1)))"

text \<open>\<^verbatim>\<open>RedisResource.handle_set\<close> (lines 305-312).\<close>

definition handle_set :: "externals \<Rightarrow> int \<Rightarrow> handler" where
  "handle_set env keys_per_user command w =
     (case sandboxed_key (sandbox_id w) (command_get command ''key'' PNone) of
        Inl e \<Rightarrow> (Some (Raised e), w)
      | Inr key \<Rightarrow>
          (case check_keys keys_per_user (sandbox_id w) key w of
             (Inl e, w1) \<Rightarrow> (Some (Raised e), w1)
           | (Inr False, w1) \<Rightarrow> return_reply (too_many_keys env command w1)
           | (Inr True, w1) \<Rightarrow>
               (case json_dumps env (command_get command ''value'' PNone) of
                  Inl e \<Rightarrow> (Some (Raised e), w1)
                | Inr dumped \<Rightarrow>
                    return_reply
                      (reply env command [''success'' \<mapsto> PBool True]
                         (redis_set key dumped w1)))))"

text \<open>\<^verbatim>\<open>RedisResource.handle_get\<close> (lines 314-320).\<close>

definition handle_get :: "externals \<Rightarrow> handler" where
  "handle_get env command w =
     (case sandboxed_key (sandbox_id w) (command_get command ''key'' PNone) of
        Inl e \<Rightarrow> (Some (Raised e), w)
      | Inr key \<Rightarrow>
          (case redis_get key w of
             None \<Rightarrow>
               return_reply
                 (reply env command [''success'' \<mapsto> PBool True, ''value'' \<mapsto> PNone] w)
           | Some raw_value \<Rightarrow>
               (case json_loads env raw_value of
                  Inl e \<Rightarrow> (Some (Raised e), w)
                | Inr v \<Rightarrow>
                    return_reply
                      (reply env command [''success'' \<mapsto> PBool True, ''value'' \<mapsto> v] w))))"

text \<open>\<^verbatim>\<open>RedisResource.handle_delete\<close> (lines 322-330).\<close>

definition handle_delete :: "externals \<Rightarrow> handler" where
  "handle_delete env command w =
     (case sandboxed_key (sandbox_id w) (command_get command ''key'' PNone) of
        Inl e \<Rightarrow> (Some (Raised e), w)
      | Inr key \<Rightarrow>
          (let (n, w1) = redis_delete key w;
               existed = (n \<noteq> 0)
           in if existed
              then (case redis_incr (count_key (sandbox_id w1)) (PInt (- 1)) w1 of
                      (Inl e, w2) \<Rightarrow> (Some (Raised e), w2)
                    | (Inr m, w2) \<Rightarrow>
                        return_reply
                          (reply env command
                             [''success'' \<mapsto> PBool True, ''existed'' \<mapsto> PBool existed] w2))
              else return_reply
                     (reply env command
                        [''success'' \<mapsto> PBool True, ''existed'' \<mapsto> PBool existed] w1)))"

text \<open>\<^verbatim>\<open>RedisResource.handle_incr\<close> (lines 332-342). The \<^verbatim>\<open>except\<close> block calls
  \<^verbatim>\<open>unicode(e)\<close>; an exception raised there leaves the handler.\<close>

definition handle_incr :: "externals \<Rightarrow> int \<Rightarrow> handler" where
  "handle_incr env keys_per_user command w =
     (case sandboxed_key (sandbox_id w) (command_get command ''key'' PNone) of
        Inl e \<Rightarrow> (Some (Raised e), w)
      | Inr key \<Rightarrow>
          (case check_keys keys_per_user (sandbox_id w) key w of
             (Inl e, w1) \<Rightarrow> (Some (Raised e), w1)
           | (Inr False, w1) \<Rightarrow> return_reply (too_many_keys env command w1)
           | (Inr True, w1) \<Rightarrow>
               (let amount = command_get command ''amount'' (PInt 1) in
                case redis_incr key amount w1 of
                  (Inl e, w2) \<Rightarrow>
                    (case exc_unicode e of
                       Inl ue \<Rightarrow> (Some (Raised ue), w2)
                     | Inr reason \<Rightarrow>
                         return_reply
                           (reply env command
                              [''success'' \<mapsto> PBool False, ''reason'' \<mapsto> PStr reason] w2))
                | (Inr v, w2) \<Rightarrow>
                    return_reply
                      (reply env command
                         [''value'' \<mapsto> PInt v, ''success'' \<mapsto> PBool True] w2))))"

text \<open>The resource object: \<^verbatim>\<open>RedisResource(name, app_worker, config)\<close> after \<^verbatim>\<open>setup()\<close>,
  with \<^verbatim>\<open>keys_per_user\<close> read from its configuration (default 100).\<close>

definition RedisResource :: "externals \<Rightarrow> string \<Rightarrow> int \<Rightarrow> resource" where
  "RedisResource env name keys_per_user =
     \<lparr>res_name = name,
      res_handlers =
        [''set'' \<mapsto> handle_set env keys_per_user,
         ''get'' \<mapsto> handle_get env,
         ''delete'' \<mapsto> handle_delete env,
         ''incr'' \<mapsto> handle_incr env keys_per_user]\<rparr>"

text \<open>\<^verbatim>\<open>SandboxCommand.validate_fields\<close> (lines 590-596): the three mandatory fields are
  present. Every command that \<^verbatim>\<open>from_json\<close> or the constructor returns passes it.\<close>

definition validate_fields :: "command \<Rightarrow> bool" where
  "validate_fields command =
     (command ''cmd'' \<noteq> None \<and> command ''cmd_id'' \<noteq> None \<and> command ''reply'' \<noteq> None)"

text \<open>A field of the reply a handler returned; none when it raised, returned no reply or
  has not finished.\<close>

fun reply_field :: "string \<Rightarrow> handler_result option \<Rightarrow> pyval option" where
  "reply_field k (Some (Returned (Some r))) = r k"
| "reply_field k other = None"

text \<open>A handler run on a list of commands, one after the other: the results, and the world
  it leaves.\<close>

fun handle_all :: "handler \<Rightarrow> command list \<Rightarrow> world \<Rightarrow> handler_result option list \<times> world" where
  "handle_all h [] w = ([], w)"
| "handle_all h (c # cs) w =
     (case h c w of (r, w1) \<Rightarrow> (case handle_all h cs w1 of (rs, w2) \<Rightarrow> (r # rs, w2)))"

text \<open>The key a command names, when it names one by a string.\<close>

definition command_key :: "command \<Rightarrow> string option" where
  "command_key command = (case command ''key'' of Some (PStr k) \<Rightarrow> Some k | _ \<Rightarrow> None)"

definition dumps_ok :: "externals \<Rightarrow> command \<Rightarrow> bool" where
  "dumps_ok env command =
     (case json_dumps env (command_get command ''value'' PNone) of Inl e \<Rightarrow> False | Inr s \<Rightarrow> True)"

section \<open>SandboxApi.dispatch_request\<close>

text \<open>
  \<^verbatim>\<open>SandboxApi.dispatch_request\<close> (lines 550-575) is a generator with one \<^verbatim>\<open>yield\<close>: the
  call of the resource. When the resource's Deferred has already fired, the generator runs
  to its end at once; otherwise it is suspended there, and runs to its end when that
  Deferred fires. \<open>dispatch_resume\<close> is the code from the \<^verbatim>\<open>yield\<close> on, with the local
  variables the generator holds; its value is how the Deferred of \<^verbatim>\<open>dispatch_request\<close>
  settles. Nothing guards the \<^verbatim>\<open>except\<close> block (lines 560-571): an exception raised
  there, by \<^verbatim>\<open>str(e)\<close>, by \<^verbatim>\<open>command['cmd_id']\<close> or by \<^verbatim>\<open>unicode(e)\<close>, leaves the
  generator, and the Deferred fails with it.
\<close>

datatype outcome = Succeeded | Failed py_exception

datatype dispatch = Settled outcome | Suspended string string string command

text \<open>\<^verbatim>\<open>s.partition('.')\<close>.\<close>

definition partition_dot :: "string \<Rightarrow> string \<times> string \<times> string" where
  "partition_dot s =
     (if CHR ''.'' \<in> set s
      then (takeWhile (\<lambda>c. c \<noteq> CHR ''.'') s, ''.'', tl (dropWhile (\<lambda>c. c \<noteq> CHR ''.'') s))
      else (s, '''', ''''))"

definition partition_AttributeError :: "pyval \<Rightarrow> py_exception" where
  "partition_AttributeError v =
     PyException (quote (type_name v) @ '' object has no attribute '' @ quote ''partition'')"

definition dispatch_resume ::
  "externals \<Rightarrow> string \<Rightarrow> string \<Rightarrow> string \<Rightarrow> command \<Rightarrow> handler_result \<Rightarrow> world
     \<Rightarrow> outcome \<times> world" where
  "dispatch_resume env resource_name sep rest command result w =
     (case result of
        Returned None \<Rightarrow> (Succeeded, w)
      | Returned (Some r) \<Rightarrow>
          (Succeeded, send (r(''cmd'' \<mapsto> PStr (resource_name @ sep @ rest))) w)
      | Raised e \<Rightarrow>
          (let w1 = emit (LogError e) w
           in case exc_str e of
                Inl ue \<Rightarrow> (Failed ue, w1)
              | Inr msg \<Rightarrow>
                  (let w2 = api_log msg logging_ERROR w1
                   in case getitem command ''cmd_id'' of
                        Inl ke \<Rightarrow> (Failed ke, w2)
                      | Inr cmd_id \<Rightarrow>
                          (case exc_unicode e of
                             Inl ue \<Rightarrow> (Failed ue, w2)
                           | Inr reason \<Rightarrow>
                               (let (r, w3) = SandboxCommand env
                                      [''reply'' \<mapsto> PBool True, ''cmd_id'' \<mapsto> cmd_id,
                                       ''success'' \<mapsto> PBool False,
                                       ''reason'' \<mapsto> PStr reason] w2
                                in (Succeeded,
                                    send (r(''cmd'' \<mapsto> PStr (resource_name @ sep @ rest)))
                                      w3))))))"

text \<open>Lines 552-554: the command name splits at its first dot into the resource name and
  the rest; a name without a dot is all rest, for the resource named by the empty string.\<close>

definition split_cmd :: "string \<Rightarrow> string \<times> string \<times> string" where
  "split_cmd c =
     (let (resource_name, sep, rest) = partition_dot c
      in if sep = [] then ('''', sep, resource_name) else (resource_name, sep, rest))"

text \<open>\<^verbatim>\<open>self.resources.resources.get(resource_name, self.fallback_resource)\<close>.\<close>

definition get_resource :: "(string \<rightharpoonup> resource) \<Rightarrow> string \<Rightarrow> resource" where
  "get_resource resources resource_name =
     (case resources resource_name of None \<Rightarrow> fallback_resource | Some r \<Rightarrow> r)"

definition dispatch_request ::
  "externals \<Rightarrow> (string \<rightharpoonup> resource) \<Rightarrow> command \<Rightarrow> world \<Rightarrow> dispatch \<times> world" where
  "dispatch_request env resources command w =
     (case getitem command ''cmd'' of
        Inl e \<Rightarrow> (Settled (Failed e), w)
      | Inr (PStr c) \<Rightarrow>
          (let (resource_name, sep, rest) = split_cmd c;
               command1 = command(''cmd'' \<mapsto> PStr rest);
               res = get_resource resources resource_name
           in case SandboxResource_dispatch_request env res command1 w of
                (None, w1) \<Rightarrow> (Suspended resource_name sep rest command1, w1)
              | (Some result, w1) \<Rightarrow>
                  (let (out, w2) = dispatch_resume env resource_name sep rest command1 result w1
                   in (Settled out, w2)))
      | Inr v \<Rightarrow> (Settled (Failed (partition_AttributeError v)), w))"

section \<open>SandboxProtocol\<close>

text \<open>
  The protocol object (lines 62-193). An entry of \<open>pending_requests\<close> is the Deferred
  that \<^verbatim>\<open>api.dispatch_request\<close> returned, with the line it was made from;
  \<open>requests_done\<close> is the \<^verbatim>\<open>DeferredList\<close> that \<^verbatim>\<open>processEnded\<close> creates: the number of
  Deferreds it watches and the \<^verbatim>\<open>result\<close> its last callback will hand to \<^verbatim>\<open>_done\<close>.
  \<open>wld\<close> is the world the run acts on.
\<close>

datatype started_result = StartedProtocol | StartFailure string

datatype process_reason = ProcessDone int | ProcessTerminated "int option" "int option"

datatype run_result = ExitStatus int | FailureReason process_reason

record task =
  task_line :: string
  task_dispatch :: dispatch

record protocol =
  recv_limit :: int
  recv_bytes :: int
  chunk :: string
  error_chunk :: string
  pending_requests :: "task list"
  p_started :: "started_result multi_deferred"
  p_done :: "run_result multi_deferred"
  timeout_active :: bool
  requests_done :: "(nat \<times> run_result) option"
  wld :: world

text \<open>\<^verbatim>\<open>SandboxProtocol.__init__\<close> (lines 80-96), for a child that is about to be spawned.\<close>

definition SandboxProtocol_init :: "string \<Rightarrow> int \<Rightarrow> world \<Rightarrow> protocol" where
  "SandboxProtocol_init sid limit w =
     \<lparr>recv_limit = limit, recv_bytes = 0, chunk = [], error_chunk = [],
      pending_requests = [], p_started = MultiDeferred_init, p_done = MultiDeferred_init,
      timeout_active = True, requests_done = None, wld = w\<lparr>sandbox_id := sid\<rparr>\<rparr>"

text \<open>\<^verbatim>\<open>SandboxProtocol.check_recv\<close> (lines 120-129): kill first, then log.\<close>

definition recv_limit_msg :: "externals \<Rightarrow> string \<Rightarrow> string" where
  "recv_limit_msg env sid =
     ''Sandbox '' @ py_repr env (PStr sid) @
     '' killed for producing too much data on stderr and stdout.''"

definition check_recv :: "externals \<Rightarrow> nat \<Rightarrow> protocol \<Rightarrow> bool \<times> protocol" where
  "check_recv env nbytes p =
     (let p1 = p\<lparr>recv_bytes := recv_bytes p + int nbytes\<rparr> in
      if recv_bytes p1 \<le> recv_limit p1 then (True, p1)
      else (False,
            p1\<lparr>wld := api_log (recv_limit_msg env (sandbox_id (wld p1))) logging_ERROR
                       (kill (wld p1))\<rparr>))"

text \<open>\<^verbatim>\<open>data.split("\n")\<close>: the pieces between newlines, always at least one.\<close>

fun split_nl :: "string \<Rightarrow> string list" where
  "split_nl [] = [[]]"
| "split_nl (c # cs) =
     (if c = CHR 0x0A then [] # split_nl cs
      else (case split_nl cs of [] \<Rightarrow> [[c]] | l # ls \<Rightarrow> (c # l) # ls))"

text \<open>\<^verbatim>\<open>SandboxProtocol._process_data\<close> (lines 134-139).\<close>

definition process_data ::
  "externals \<Rightarrow> string \<Rightarrow> string \<Rightarrow> protocol \<Rightarrow> string list \<times> protocol" where
  "process_data env carry data p =
     (case check_recv env (length data) p of
        (False, p1) \<Rightarrow> ([[]], p1)
      | (True, p1) \<Rightarrow>
          (case split_nl data of
             [] \<Rightarrow> ([carry], p1)
           | l # ls \<Rightarrow> ((carry @ l) # ls, p1)))"

text \<open>\<^verbatim>\<open>SandboxProtocol._parse_command\<close> (lines 141-145).\<close>

definition parse_command :: "externals \<Rightarrow> string \<Rightarrow> world \<Rightarrow> command \<times> world" where
  "parse_command env line w =
     (case from_json env line of
        Inr command \<Rightarrow> (command, w)
      | Inl e \<Rightarrow>
          SandboxCommand env
            [''cmd'' \<mapsto> PStr ''unknown'', ''line'' \<mapsto> PStr line, ''exception'' \<mapsto> PExc e] w)"

text \<open>The body of the loop of \<^verbatim>\<open>outReceived\<close>: parse, dispatch, append the Deferred.\<close>

definition dispatch_line ::
  "externals \<Rightarrow> (string \<rightharpoonup> resource) \<Rightarrow> string \<Rightarrow> protocol \<Rightarrow> protocol" where
  "dispatch_line env resources line p =
     (let (command, w1) = parse_command env line (wld p);
          (d, w2) = dispatch_request env resources command w1
      in p\<lparr>wld := w2,
           pending_requests := pending_requests p @ [\<lparr>task_line = line, task_dispatch = d\<rparr>]\<rparr>)"

text \<open>\<^verbatim>\<open>outReceived\<close> and \<^verbatim>\<open>outConnectionLost\<close> (lines 147-158).\<close>

definition outReceived ::
  "externals \<Rightarrow> (string \<rightharpoonup> resource) \<Rightarrow> string \<Rightarrow> protocol \<Rightarrow> protocol" where
  "outReceived env resources data p =
     (let (lines, p1) = process_data env (chunk p) data p;
          p2 = fold (dispatch_line env resources) (butlast lines) p1
      in p2\<lparr>chunk := last lines\<rparr>)"

definition outConnectionLost ::
  "externals \<Rightarrow> (string \<rightharpoonup> resource) \<Rightarrow> protocol \<Rightarrow> protocol" where
  "outConnectionLost env resources p =
     (if chunk p \<noteq> [] then dispatch_line env resources (chunk p) (p\<lparr>chunk := []\<rparr>) else p)"

text \<open>\<^verbatim>\<open>errReceived\<close> and \<^verbatim>\<open>errConnectionLost\<close> (lines 160-169).\<close>

definition log_line :: "string \<Rightarrow> protocol \<Rightarrow> protocol" where
  "log_line line p = p\<lparr>wld := api_log line logging_ERROR (wld p)\<rparr>"

definition errReceived :: "externals \<Rightarrow> string \<Rightarrow> protocol \<Rightarrow> protocol" where
  "errReceived env data p =
     (let (lines, p1) = process_data env (error_chunk p) data p;
          p2 = fold log_line (butlast lines) p1
      in p2\<lparr>error_chunk := last lines\<rparr>)"

definition errConnectionLost :: "protocol \<Rightarrow> protocol" where
  "errConnectionLost p =
     (if error_chunk p \<noteq> [] then (log_line (error_chunk p) p)\<lparr>error_chunk := []\<rparr> else p)"

text \<open>\<^verbatim>\<open>connectionMade\<close> (lines 131-132) and the accessors \<^verbatim>\<open>done()\<close>, \<^verbatim>\<open>started()\<close>.\<close>

definition connectionMade :: "protocol \<Rightarrow> protocol" where
  "connectionMade p = p\<lparr>p_started := MultiDeferred_callback StartedProtocol (p_started p)\<rparr>"

definition SandboxProtocol_done :: "protocol \<Rightarrow> nat \<times> protocol" where
  "SandboxProtocol_done p = (let (d, m) = MultiDeferred_get (p_done p) in (d, p\<lparr>p_done := m\<rparr>))"

definition SandboxProtocol_started :: "protocol \<Rightarrow> nat \<times> protocol" where
  "SandboxProtocol_started p = (let (d, m) = MultiDeferred_get (p_started p) in (d, p\<lparr>p_started := m\<rparr>))"

text \<open>\<^verbatim>\<open>_process_request_results\<close> (lines 171-179), over the results of the settled
  Deferreds in list order. \<^verbatim>\<open>getErrorMessage()\<close> is Twisted's: the message of the
  exception, for the exceptions a dispatch fails with (KeyError, AttributeError and the
  two Unicode errors above, all with byte-string messages).\<close>

fun process_request_results :: "outcome list \<Rightarrow> world \<Rightarrow> world" where
  "process_request_results [] w = w"
| "process_request_results (Succeeded # rs) w = process_request_results rs w"
| "process_request_results (Failed e # rs) w =
     process_request_results rs (api_log (exc_message e) logging_ERROR (emit (LogError e) w))"

fun settled :: "task \<Rightarrow> bool" where
  "settled t = (case task_dispatch t of Settled out \<Rightarrow> True | Suspended n s r c \<Rightarrow> False)"

fun task_outcome :: "task \<Rightarrow> outcome option" where
  "task_outcome t = (case task_dispatch t of Settled out \<Rightarrow> Some out | Suspended n s r c \<Rightarrow> None)"

text \<open>
  A \<^verbatim>\<open>DeferredList\<close> over the first \<open>n\<close> pending requests fires when all of them have
  settled (at once when they already have, or when there are none); its two callbacks
  then run in order: \<^verbatim>\<open>_process_request_results\<close>, then \<^verbatim>\<open>_done.callback(result)\<close>.
\<close>

definition requests_settled :: "nat \<Rightarrow> protocol \<Rightarrow> bool" where
  "requests_settled n p = list_all settled (take n (pending_requests p))"

definition requests_done_callbacks :: "nat \<Rightarrow> run_result \<Rightarrow> protocol \<Rightarrow> protocol" where
  "requests_done_callbacks n result p =
     p\<lparr>wld := process_request_results
                (List.map_filter task_outcome (take n (pending_requests p))) (wld p),
       p_done := MultiDeferred_callback result (p_done p)\<rparr>"

text \<open>\<^verbatim>\<open>SandboxProtocol.processEnded\<close> (lines 181-193). What \<^verbatim>\<open>done\<close> is to deliver
  (lines 184-187) is the exit status of a process that ended normally (\<^verbatim>\<open>ProcessDone\<close>),
  and the reason itself otherwise.\<close>

definition exit_result :: "process_reason \<Rightarrow> run_result" where
  "exit_result reason =
     (case reason of
        ProcessDone status \<Rightarrow> ExitStatus status
      | ProcessTerminated code sig \<Rightarrow> FailureReason reason)"

definition processEnded :: "process_reason \<Rightarrow> protocol \<Rightarrow> protocol" where
  "processEnded reason p =
     (let p1 = (if timeout_active p then p\<lparr>timeout_active := False\<rparr> else p);
          result = exit_result reason;
          p2 = (if \<not> MultiDeferred_fired (p_started p1)
                then p1\<lparr>p_started := MultiDeferred_callback
                                        (StartFailure ''Process failed to start.'')
                                        (p_started p1)\<rparr>
                else p1);
          n = length (pending_requests p2);
          p3 = p2\<lparr>requests_done := Some (n, result)\<rparr>
      in if requests_settled n p3 then requests_done_callbacks n result p3 else p3)"

text \<open>
  The Deferred of the resource call of pending request \<open>i\<close> fires with \<open>result\<close>: the
  suspended \<^verbatim>\<open>dispatch_request\<close> runs to its end, its own Deferred settles, and the
  \<^verbatim>\<open>DeferredList\<close>, when it watches this request and this was the last one it waited
  for, fires. A Deferred fires once: nothing happens for a request that has settled.
\<close>

definition resource_fired :: "externals \<Rightarrow> nat \<Rightarrow> handler_result \<Rightarrow> protocol \<Rightarrow> protocol" where
  "resource_fired env i result p =
     (if i < length (pending_requests p)
      then (case task_dispatch (pending_requests p ! i) of
              Settled out \<Rightarrow> p
            | Suspended resource_name sep rest command \<Rightarrow>
                (let (out, w1) = dispatch_resume env resource_name sep rest command result (wld p);
                     p1 = p\<lparr>wld := w1,
                            pending_requests := (pending_requests p)
                              [i := (pending_requests p ! i)\<lparr>task_dispatch := Settled out\<rparr>]\<rparr>
                 in case requests_done p1 of
                      None \<Rightarrow> p1
                    | Some (n, res) \<Rightarrow>
                        if i < n \<and> requests_settled n p1
                        then requests_done_callbacks n res p1
                        else p1))
      else p)"

text \<open>What can happen to a protocol object during a run, and a run as a list of events.\<close>

datatype protocol_event =
    ConnectionMade
  | OutReceived string
  | ErrReceived string
  | OutConnectionLost
  | ErrConnectionLost
  | ResourceFired nat handler_result
  | DoneRequested
  | TimeoutExpired
  | ProcessEnded process_reason

fun protocol_step ::
  "externals \<Rightarrow> (string \<rightharpoonup> resource) \<Rightarrow> protocol_event \<Rightarrow> protocol \<Rightarrow> protocol" where
  "protocol_step env resources ConnectionMade p = connectionMade p"
| "protocol_step env resources (OutReceived data) p = outReceived env resources data p"
| "protocol_step env resources (ErrReceived data) p = errReceived env data p"
| "protocol_step env resources OutConnectionLost p = outConnectionLost env resources p"
| "protocol_step env resources ErrConnectionLost p = errConnectionLost p"
| "protocol_step env resources (ResourceFired i result) p = resource_fired env i result p"
| "protocol_step env resources DoneRequested p = snd (SandboxProtocol_done p)"
| "protocol_step env resources TimeoutExpired p =
     (if timeout_active p then p\<lparr>timeout_active := False, wld := kill (wld p)\<rparr> else p)"
| "protocol_step env resources (ProcessEnded reason) p = processEnded reason p"

definition protocol_run ::
  "externals \<Rightarrow> (string \<rightharpoonup> resource) \<Rightarrow> protocol_event list \<Rightarrow> protocol \<Rightarrow> protocol" where
  "protocol_run env resources events p = fold (protocol_step env resources) events p"

fun is_ProcessEnded :: "protocol_event \<Rightarrow> bool" where
  "is_ProcessEnded (ProcessEnded reason) = True"
| "is_ProcessEnded e = False"



text \<open>
  Stream demultiplexing in the words of the specification: prepend the carry to the
  chunk, split at newline; all pieces but the last are the complete lines, the last is
  the new carry.
\<close>

definition demux_lines :: "string \<Rightarrow> string \<Rightarrow> string list" where
  "demux_lines carry data = butlast (split_nl (carry @ data))"

definition demux_carry :: "string \<Rightarrow> string \<Rightarrow> string" where
  "demux_carry carry data = last (split_nl (carry @ data))"

text \<open>The carry buffers hold no newline: what is left of a line still being received.\<close>

definition carries_ok :: "protocol \<Rightarrow> bool" where
  "carries_ok p = (CHR 0x0A \<notin> set (chunk p) \<and> CHR 0x0A \<notin> set (error_chunk p))"

text \<open>
  The two states a MultiDeferred is in during a run: nobody has fired it and every
  Deferred it handed out is waiting, with nothing received; or it was fired once, with
  \<open>r\<close>, and every Deferred it handed out has received \<open>r\<close>, once.
\<close>

definition md_waiting :: "'a multi_deferred \<Rightarrow> bool" where
  "md_waiting m =
     (m = \<lparr>md_result = None, md_deferreds = [0..<length (md_issued m)],
           md_issued = replicate (length (md_issued m)) [], md_calls = []\<rparr>)"

definition md_delivered :: "'a \<Rightarrow> 'a multi_deferred \<Rightarrow> bool" where
  "md_delivered r m =
     (m = \<lparr>md_result = Some r, md_deferreds = [],
           md_issued = replicate (length (md_issued m)) [r], md_calls = [r]\<rparr>)"

text \<open>
  The two phases of a run as far as \<^verbatim>\<open>done\<close> is concerned. Before the process ends
  there is no \<^verbatim>\<open>DeferredList\<close> and \<^verbatim>\<open>done\<close> waits. After it ended, with \<open>n\<close> requests
  pending at that moment and \<open>result\<close> to deliver, \<^verbatim>\<open>done\<close> has delivered \<open>result\<close> if
  these \<open>n\<close> requests have all settled, and waits if not.
\<close>

definition running :: "protocol \<Rightarrow> bool" where
  "running p = (requests_done p = None \<and> md_waiting (p_done p))"

definition draining :: "nat \<Rightarrow> run_result \<Rightarrow> protocol \<Rightarrow> bool" where
  "draining n result p =
     (requests_done p = Some (n, result) \<and> n \<le> length (pending_requests p) \<and>
      (if requests_settled n p then md_delivered result (p_done p) else md_waiting (p_done p)))"

section \<open>A concrete environment\<close>

text \<open>
  An instance of the external parameters, for evaluating the model on concrete runs:
  a parser that knows the line \<^verbatim>\<open>{"cmd": "kv.get", "cmd_id": "A", "reply": false, "key": "k"}\<close>
  and raises on every other line, the JSON codec on null, booleans and integers (this
  instance raises on the rest), and a world with a live child, an empty store and
  Twisted logging.
\<close>

definition dq :: "string \<Rightarrow> string" where
  "dq s = [CHR 0x22] @ s @ [CHR 0x22]"

definition example_line :: string where
  "example_line =
     ''{'' @ dq ''cmd'' @ '': '' @ dq ''kv.get'' @ '', '' @ dq ''cmd_id'' @ '': '' @ dq ''A'' @
     '', '' @ dq ''reply'' @ '': false, '' @ dq ''key'' @ '': '' @ dq ''k'' @ ''}''"

definition example_command :: command where
  "example_command =
     [''cmd'' \<mapsto> PStr ''kv.get'', ''cmd_id'' \<mapsto> PStr ''A'', ''reply'' \<mapsto> PBool False,
      ''key'' \<mapsto> PStr ''k'']"

definition example_dumps :: "pyval \<Rightarrow> py_exception + string" where
  "example_dumps v =
     (case v of
        PNone \<Rightarrow> Inr ''null''
      | PBool b \<Rightarrow> Inr (if b then ''true'' else ''false'')
      | PInt i \<Rightarrow> Inr (show_int i)
      | _ \<Rightarrow> Inl (PyException ''is not JSON serializable''))"

definition example_loads :: "string \<Rightarrow> py_exception + pyval" where
  "example_loads s =
     (if s = ''null'' then Inr PNone
      else if s = ''true'' then Inr (PBool True)
      else if s = ''false'' then Inr (PBool False)
      else (case parse_int s of
              Some i \<Rightarrow> Inr (PInt i)
            | None \<Rightarrow> Inl (PyException ''No JSON object could be decoded'')))"

definition example_repr :: "pyval \<Rightarrow> string" where
  "example_repr v =
     (case v of
        PStr s \<Rightarrow> CHR ''u'' # quote s
      | PInt i \<Rightarrow> show_int i
      | PNone \<Rightarrow> ''None''
      | _ \<Rightarrow> ''<object>'')"

definition example_env :: externals where
  "example_env =
     \<lparr>from_json = (\<lambda>line. if line = example_line then Inr example_command
                         else Inl (PyException ''No JSON object could be decoded'')),
      uuid4_hex = (\<lambda>n. ''uuid'' @ show_nat n),
      json_dumps = example_dumps,
      json_loads = example_loads,
      py_repr = example_repr,
      command_repr = (\<lambda>c. ''<Message>'')\<rparr>"

definition example_world :: world where
  "example_world =
     \<lparr>sandbox_id = ''sandbox1'', transport_pid = Some 4242, logging_resource = None,
      redis = Map.empty, uuid_draws = 0, trace = []\<rparr>"

text \<open>A \<^verbatim>\<open>kv.set\<close> command as the resource receives it: key \<open>k\<close>, integer value \<open>v\<close>.\<close>

definition example_set :: "string \<Rightarrow> int \<Rightarrow> command" where
  "example_set k v =
     [''cmd'' \<mapsto> PStr ''set'', ''cmd_id'' \<mapsto> PStr k, ''reply'' \<mapsto> PBool False,
      ''key'' \<mapsto> PStr k, ''value'' \<mapsto> PInt v]"

text \<open>A \<^verbatim>\<open>kv.get\<close>, \<^verbatim>\<open>kv.delete\<close> or \<^verbatim>\<open>kv.incr\<close> command as the resource receives it: the
  operation \<open>name\<close> on key \<open>k\<close>, with no other field.\<close>

definition example_op :: "string \<Rightarrow> string \<Rightarrow> command" where
  "example_op name k =
     [''cmd'' \<mapsto> PStr name, ''cmd_id'' \<mapsto> PStr k, ''reply'' \<mapsto> PBool False,
      ''key'' \<mapsto> PStr k]"

text \<open>A resource whose \<^verbatim>\<open>handle_get\<close> returns a Deferred that has not fired, as
  \<^verbatim>\<open>HttpClientResource\<close> does while its request is in flight.\<close>

definition example_slow_resource :: resource where
  "example_slow_resource =
     \<lparr>res_name = ''kv'', res_handlers = [''get'' \<mapsto> (\<lambda>command w. (None, w))]\<rparr>"

text \<open>A resource whose \<^verbatim>\<open>handle_get\<close> raises the exception \<open>e\<close>.\<close>

definition example_raising_resource :: "py_exception \<Rightarrow> resource" where
  "example_raising_resource e =
     \<lparr>res_name = ''kv'', res_handlers = [''get'' \<mapsto> (\<lambda>command w. (Some (Raised e), w))]\<rparr>"

section \<open>Properties of MultiDeferred\<close>

lemma md_run_Nil [simp]: "md_run [] m = m"
  by (simp add: md_run_def)

lemma md_run_Cons [simp]: "md_run (c # cs) m = md_run cs (md_step c m)"
  by (simp add: md_run_def)

lemma md_run_append [simp]: "md_run (cs @ ds) m = md_run ds (md_run cs m)"
  by (simp add: md_run_def)

lemma fired_step: "MultiDeferred_fired (md_step c m) = (is_Callback c \<or> MultiDeferred_fired m)"
  by (cases c)
     (auto simp: MultiDeferred_fired_def MultiDeferred_get_def MultiDeferred_callback_def
           Let_def split: option.splits)

lemma fired_run:
  "MultiDeferred_fired (md_run calls m) = (list_ex is_Callback calls \<or> MultiDeferred_fired m)"
  by (induction calls arbitrary: m) (auto simp: fired_step)

text \<open>Before any fire, every Deferred handed out is waiting and has received nothing.\<close>

lemma gets_unfired:
  "md_run (replicate k Get) (MultiDeferred_init :: 'a multi_deferred) =
     \<lparr>md_result = None, md_deferreds = [0..<k], md_issued = replicate k [], md_calls = []\<rparr>"
proof (induction k)
  case 0
  show ?case by (simp add: MultiDeferred_init_def)
next
  case (Suc k)
  have "replicate (Suc k) (Get :: 'a md_call) = replicate k Get @ [Get]"
    by (simp add: replicate_append_same)
  then have "md_run (replicate (Suc k) Get) (MultiDeferred_init :: 'a multi_deferred) =
        md_step Get (md_run (replicate k Get) MultiDeferred_init)"
    by (simp only: md_run_append md_run_Cons md_run_Nil)
  then show ?case
    by (simp add: Suc MultiDeferred_get_def replicate_append_same)
qed

lemma fold_Deferred_callback:
  "k \<le> length xs \<Longrightarrow> \<forall>i < k. xs ! i = [] \<Longrightarrow>
   fold (Deferred_callback r) [0..<k] xs = replicate k [r] @ drop k xs"
proof (induction k)
  case 0
  then show ?case by simp
next
  case (Suc k)
  have k: "k < length xs" using Suc.prems(1) by simp
  have IH: "fold (Deferred_callback r) [0..<k] xs = replicate k [r] @ drop k xs"
    using Suc.prems by (intro Suc.IH) simp_all
  have at: "xs ! k = []" using Suc.prems(2) by simp
  have split: "drop k xs = [] # drop (Suc k) xs"
    using k at Cons_nth_drop_Suc [of k xs] by simp
  have "fold (Deferred_callback r) [0..<Suc k] xs =
        Deferred_callback r k (replicate k [r] @ [] # drop (Suc k) xs)"
    by (simp add: IH split)
  also have "\<dots> = replicate k [r] @ [r] # drop (Suc k) xs"
    by (simp add: Deferred_callback_def list_update_append nth_append)
  also have "\<dots> = replicate (Suc k) [r] @ drop (Suc k) xs"
    by (simp add: replicate_app_Cons_same)
  finally show ?case .
qed

lemma callback_after_gets:
  "md_run (replicate k Get @ [Callback r]) MultiDeferred_init =
     \<lparr>md_result = Some r, md_deferreds = [], md_issued = replicate k [r], md_calls = [r]\<rparr>"
proof -
  have "fold (Deferred_callback r) [0..<k] (replicate k []) =
        replicate k [r] @ drop k (replicate k [])"
    by (rule fold_Deferred_callback) simp_all
  then have "fold (Deferred_callback r) [0..<k] (replicate k []) = replicate k [r]"
    by simp
  then show ?thesis
    by (simp add: gets_unfired MultiDeferred_callback_def)
qed

lemma gets_fired:
  "md_run (replicate j Get)
     \<lparr>md_result = Some r, md_deferreds = [], md_issued = xs, md_calls = cs\<rparr> =
     \<lparr>md_result = Some r, md_deferreds = [], md_issued = xs @ replicate j [r], md_calls = cs\<rparr>"
proof (induction j arbitrary: xs)
  case 0
  show ?case by simp
next
  case (Suc j)
  show ?case
    by (simp add: MultiDeferred_get_def Suc replicate_app_Cons_same)
qed

text \<open>
  C9. One-shot broadcast. From a fresh MultiDeferred, take \<open>k\<close> waiters, fire with
  \<open>r\<close>, then take \<open>j\<close> more waiters:
  \<^item> each of the \<open>k\<close> waiters obtained before the fire has been called back exactly
    once, with \<open>r\<close>;
  \<^item> each waiter obtained after the fire is complete, with the same \<open>r\<close>, in the very
    state its \<^verbatim>\<open>get()\<close> returns (the \<open>i\<close>-th of them is Deferred number \<open>k + i\<close>);
  \<^item> no Deferred is left waiting after the fire;
  \<^item> after any history of calls, \<^verbatim>\<open>fired()\<close> is true exactly when the history
    contains a \<^verbatim>\<open>callback\<close>.
\<close>

theorem MultiDeferred_broadcast:
  "md_issued (md_run (replicate k Get @ [Callback r] @ replicate j Get) MultiDeferred_init)
     = replicate (k + j) [r]
   \<and> fst (MultiDeferred_get (md_run (replicate k Get @ [Callback r] @ replicate i Get)
            MultiDeferred_init)) = k + i
   \<and> md_issued (snd (MultiDeferred_get (md_run (replicate k Get @ [Callback r] @ replicate i Get)
            MultiDeferred_init))) ! (k + i) = [r]
   \<and> md_deferreds (md_run (replicate k Get @ [Callback r] @ replicate j Get)
            MultiDeferred_init) = []
   \<and> MultiDeferred_fired (md_run calls MultiDeferred_init) = list_ex is_Callback calls"
proof -
  have run: "\<And>n. md_run (replicate k Get @ [Callback r] @ replicate n Get) MultiDeferred_init =
      \<lparr>md_result = Some r, md_deferreds = [], md_issued = replicate k [r] @ replicate n [r],
       md_calls = [r]\<rparr>"
    using callback_after_gets [of k r] gets_fired [of _ r "replicate k [r]" "[r]"]
    by (simp del: md_run_append add: md_run_append [symmetric])
       (simp add: md_run_append)
  have a: "md_issued (md_run (replicate k Get @ [Callback r] @ replicate j Get)
             MultiDeferred_init) = replicate (k + j) [r]"
    by (simp only: run) (simp add: replicate_add)
  have b: "fst (MultiDeferred_get (md_run (replicate k Get @ [Callback r] @ replicate i Get)
            MultiDeferred_init)) = k + i"
    by (simp only: run) (simp add: MultiDeferred_get_def)
  have c: "md_issued (snd (MultiDeferred_get
            (md_run (replicate k Get @ [Callback r] @ replicate i Get) MultiDeferred_init)))
            ! (k + i) = [r]"
    by (simp only: run) (simp add: MultiDeferred_get_def nth_append)
  have d: "md_deferreds (md_run (replicate k Get @ [Callback r] @ replicate j Get)
            MultiDeferred_init) = []"
    by (simp only: run) simp
  have e: "MultiDeferred_fired (md_run calls MultiDeferred_init) = list_ex is_Callback calls"
    by (simp add: fired_run) (simp add: MultiDeferred_fired_def MultiDeferred_init_def)
  from a b c d e show ?thesis by blast
qed

section \<open>Basic facts about the world and the stream functions\<close>

lemma trace_emit [simp]: "trace (emit e w) = trace w @ [e]"
  by (simp add: emit_def)

lemma trace_api_log [simp]: "trace (api_log msg level w) = trace w @ [LogMsg msg level]"
  by (simp add: api_log_def LoggingResource_log_def emit_def split: option.splits)

lemma trace_kill:
  "trace (kill w) = trace w @ (if transport_pid w = None then [] else [SignalProcess ''KILL''])"
  by (simp add: kill_def emit_def)

lemma sandbox_id_kill [simp]: "sandbox_id (kill w) = sandbox_id w"
  by (simp add: kill_def emit_def)

lemma split_nl_nonempty [simp]: "split_nl s \<noteq> []"
  by (induction s) (auto split: list.splits)

lemma split_nl_carry:
  "CHR 0x0A \<notin> set carry \<Longrightarrow>
   split_nl (carry @ data) = (carry @ hd (split_nl data)) # tl (split_nl data)"
  by (induction carry) (auto split: list.splits)

lemma last_split_nl [simp]: "CHR 0x0A \<notin> set (last (split_nl s))"
  by (induction s) (auto split: list.splits)

subsection \<open>check_recv\<close>


lemma check_recv_within:
  "recv_bytes p + int n \<le> recv_limit p \<Longrightarrow>
   check_recv env n p = (True, p\<lparr>recv_bytes := recv_bytes p + int n\<rparr>)"
  by (simp add: check_recv_def Let_def)

lemma check_recv_over:
  "recv_limit p < recv_bytes p + int n \<Longrightarrow>
   check_recv env n p =
     (False, p\<lparr>recv_bytes := recv_bytes p + int n,
               wld := api_log (recv_limit_msg env (sandbox_id (wld p))) logging_ERROR
                        (kill (wld p))\<rparr>)"
  by (simp add: check_recv_def Let_def)


lemma check_recv_recv_limit: "recv_limit (snd (check_recv env n p)) = recv_limit p"
  by (simp add: check_recv_def Let_def)


subsection \<open>process_data\<close>

lemma process_data_within:
  "recv_bytes p + int (length data) \<le> recv_limit p \<Longrightarrow>
   process_data env carry data p =
     ((carry @ hd (split_nl data)) # tl (split_nl data),
      p\<lparr>recv_bytes := recv_bytes p + int (length data)\<rparr>)"
  by (cases "split_nl data") (simp_all add: process_data_def check_recv_within)

lemma process_data_over:
  "recv_limit p < recv_bytes p + int (length data) \<Longrightarrow>
   process_data env carry data p =
     ([[]], p\<lparr>recv_bytes := recv_bytes p + int (length data),
               wld := api_log (recv_limit_msg env (sandbox_id (wld p))) logging_ERROR
                        (kill (wld p))\<rparr>)"
  by (simp add: process_data_def check_recv_over)



subsection \<open>dispatch_line and the loops\<close>

lemma dispatch_line_fields:
  "recv_bytes (dispatch_line env resources line p) = recv_bytes p"
  "recv_limit (dispatch_line env resources line p) = recv_limit p"
  "chunk (dispatch_line env resources line p) = chunk p"
  "error_chunk (dispatch_line env resources line p) = error_chunk p"
  "p_done (dispatch_line env resources line p) = p_done p"
  "p_started (dispatch_line env resources line p) = p_started p"
  "requests_done (dispatch_line env resources line p) = requests_done p"
  "timeout_active (dispatch_line env resources line p) = timeout_active p"
  by (simp_all add: dispatch_line_def split_def Let_def)

lemma dispatch_line_pending:
  "map task_line (pending_requests (dispatch_line env resources line p)) =
     map task_line (pending_requests p) @ [line]"
  by (simp add: dispatch_line_def split_def Let_def)

lemma fold_dispatch_line_fields:
  "recv_bytes (fold (dispatch_line env resources) ls p) = recv_bytes p"
  "recv_limit (fold (dispatch_line env resources) ls p) = recv_limit p"
  "chunk (fold (dispatch_line env resources) ls p) = chunk p"
  "error_chunk (fold (dispatch_line env resources) ls p) = error_chunk p"
  "p_done (fold (dispatch_line env resources) ls p) = p_done p"
  "p_started (fold (dispatch_line env resources) ls p) = p_started p"
  "requests_done (fold (dispatch_line env resources) ls p) = requests_done p"
  "timeout_active (fold (dispatch_line env resources) ls p) = timeout_active p"
  by (induction ls arbitrary: p) (simp_all add: dispatch_line_fields)

lemma fold_dispatch_line_pending:
  "map task_line (pending_requests (fold (dispatch_line env resources) ls p)) =
     map task_line (pending_requests p) @ ls"
  by (induction ls arbitrary: p) (simp_all add: dispatch_line_pending)

lemma fold_log_line:
  "fold log_line ls p = p\<lparr>wld := fold (\<lambda>l. api_log l logging_ERROR) ls (wld p)\<rparr>"
  by (induction ls arbitrary: p) (simp_all add: log_line_def)

lemma fold_api_log_trace:
  "trace (fold (\<lambda>l. api_log l level) ls w) = trace w @ map (\<lambda>l. LogMsg l level) ls"
  by (induction ls arbitrary: w) simp_all

section \<open>Byte accounting and stream demultiplexing\<close>

subsection \<open>outReceived / errReceived\<close>

lemma outReceived_over:
  assumes "recv_limit p < recv_bytes p + int (length data)"
  shows "outReceived env resources data p =
     p\<lparr>recv_bytes := recv_bytes p + int (length data),
       wld := api_log (recv_limit_msg env (sandbox_id (wld p))) logging_ERROR (kill (wld p)),
       chunk := []\<rparr>"
  using assms by (simp add: outReceived_def process_data_over)

lemma errReceived_over:
  assumes "recv_limit p < recv_bytes p + int (length data)"
  shows "errReceived env data p =
     p\<lparr>recv_bytes := recv_bytes p + int (length data),
       wld := api_log (recv_limit_msg env (sandbox_id (wld p))) logging_ERROR (kill (wld p)),
       error_chunk := []\<rparr>"
  using assms by (simp add: errReceived_def process_data_over)

lemma outReceived_within:
  assumes "recv_bytes p + int (length data) \<le> recv_limit p" "CHR 0x0A \<notin> set (chunk p)"
  shows "outReceived env resources data p =
     (fold (dispatch_line env resources) (demux_lines (chunk p) data)
        (p\<lparr>recv_bytes := recv_bytes p + int (length data)\<rparr>))
     \<lparr>chunk := demux_carry (chunk p) data\<rparr>"
  using assms
  by (simp add: outReceived_def process_data_within demux_lines_def demux_carry_def
        split_nl_carry)

lemma errReceived_within:
  assumes "recv_bytes p + int (length data) \<le> recv_limit p" "CHR 0x0A \<notin> set (error_chunk p)"
  shows "errReceived env data p =
     (fold log_line (demux_lines (error_chunk p) data)
        (p\<lparr>recv_bytes := recv_bytes p + int (length data)\<rparr>))
     \<lparr>error_chunk := demux_carry (error_chunk p) data\<rparr>"
  using assms
  by (simp add: errReceived_def process_data_within demux_lines_def demux_carry_def
        split_nl_carry)















lemma demux_carry_no_newline: "CHR 0x0A \<notin> set (demux_carry carry data)"
  by (simp add: demux_carry_def)

lemma outReceived_chunk_ok:
  assumes "CHR 0x0A \<notin> set (chunk p)"
  shows "CHR 0x0A \<notin> set (chunk (outReceived env resources data p))"
proof (cases "recv_bytes p + int (length data) \<le> recv_limit p")
  case True
  then show ?thesis using assms by (simp add: outReceived_within demux_carry_no_newline)
next
  case False
  then show ?thesis by (simp add: outReceived_over)
qed

lemma errReceived_chunk_ok:
  assumes "CHR 0x0A \<notin> set (error_chunk p)"
  shows "CHR 0x0A \<notin> set (error_chunk (errReceived env data p))"
proof (cases "recv_bytes p + int (length data) \<le> recv_limit p")
  case True
  then show ?thesis using assms by (simp add: errReceived_within demux_carry_no_newline)
next
  case False
  then show ?thesis by (simp add: errReceived_over)
qed

lemma outReceived_error_chunk:
  "error_chunk (outReceived env resources data p) = error_chunk p"
  by (cases "recv_bytes p + int (length data) \<le> recv_limit p")
     (simp_all add: outReceived_def process_data_within process_data_over
        fold_dispatch_line_fields)

lemma errReceived_chunk:
  "chunk (errReceived env data p) = chunk p"
  by (cases "recv_bytes p + int (length data) \<le> recv_limit p")
     (simp_all add: errReceived_def process_data_within process_data_over fold_log_line)

lemma requests_done_callbacks_chunks:
  "chunk (requests_done_callbacks n r p) = chunk p"
  "error_chunk (requests_done_callbacks n r p) = error_chunk p"
  by (simp_all add: requests_done_callbacks_def)

lemma resource_fired_chunks:
  "chunk (resource_fired env i result p) = chunk p"
  "error_chunk (resource_fired env i result p) = error_chunk p"
  by (simp_all add: resource_fired_def split_def Let_def requests_done_callbacks_chunks
        split: dispatch.splits option.splits)

lemma processEnded_chunks:
  "chunk (processEnded reason p) = chunk p"
  "error_chunk (processEnded reason p) = error_chunk p"
  by (simp_all add: processEnded_def Let_def requests_done_callbacks_chunks)

lemma protocol_step_carries_ok:
  "carries_ok p \<Longrightarrow> carries_ok (protocol_step env resources e p)"
  unfolding carries_ok_def
  by (cases e)
     (simp_all add: outReceived_chunk_ok outReceived_error_chunk errReceived_chunk_ok
        errReceived_chunk connectionMade_def outConnectionLost_def errConnectionLost_def
        dispatch_line_fields log_line_def resource_fired_chunks processEnded_chunks
        SandboxProtocol_done_def split_def Let_def)

lemma protocol_run_carries_ok:
  "carries_ok p \<Longrightarrow> carries_ok (protocol_run env resources events p)"
  unfolding protocol_run_def
  by (induction events arbitrary: p) (simp_all add: protocol_step_carries_ok)

lemma init_carries_ok: "carries_ok (SandboxProtocol_init sid limit w)"
  by (simp add: carries_ok_def SandboxProtocol_init_def)

text \<open>
  C7. A chunk whose length pushes the byte count past \<open>recv_limit\<close> is discarded. On
  stdout, the protocol afterwards differs from before only in the counter, in the carry
  (emptied) and in the world, where the kill (a KILL signal when the transport still has
  a pid) and then one log entry were appended: at level ERROR (40), with the text
  \<^verbatim>\<open>Sandbox <id> killed for producing too much data on stderr and stdout.\<close>, the
  sandbox id printed by \<^verbatim>\<open>%r\<close>. No request was dispatched, none was appended to the
  pending list. On stderr likewise, with no line logged.
\<close>

theorem over_budget_chunk_discarded:
  assumes "recv_limit p < recv_bytes p + int (length data)"
  shows "outReceived env resources data p =
           p\<lparr>recv_bytes := recv_bytes p + int (length data),
             wld := api_log
                      (''Sandbox '' @ py_repr env (PStr (sandbox_id (wld p))) @
                       '' killed for producing too much data on stderr and stdout.'')
                      40 (kill (wld p)),
             chunk := []\<rparr>
       \<and> pending_requests (outReceived env resources data p) = pending_requests p
       \<and> trace (wld (outReceived env resources data p)) =
           trace (wld p) @
           (if transport_pid (wld p) = None then [] else [SignalProcess ''KILL'']) @
           [LogMsg (''Sandbox '' @ py_repr env (PStr (sandbox_id (wld p))) @
                    '' killed for producing too much data on stderr and stdout.'') 40]
       \<and> errReceived env data p =
           p\<lparr>recv_bytes := recv_bytes p + int (length data),
             wld := api_log
                      (''Sandbox '' @ py_repr env (PStr (sandbox_id (wld p))) @
                       '' killed for producing too much data on stderr and stdout.'')
                      40 (kill (wld p)),
             error_chunk := []\<rparr>
       \<and> trace (wld (errReceived env data p)) =
           trace (wld p) @
           (if transport_pid (wld p) = None then [] else [SignalProcess ''KILL'']) @
           [LogMsg (''Sandbox '' @ py_repr env (PStr (sandbox_id (wld p))) @
                    '' killed for producing too much data on stderr and stdout.'') 40]"
proof -
  have ck: "check_recv env (length data) p =
      (False,
       p\<lparr>recv_bytes := recv_bytes p + int (length data),
         wld := api_log
                  (''Sandbox '' @ py_repr env (PStr (sandbox_id (wld p))) @
                   '' killed for producing too much data on stderr and stdout.'')
                  40 (kill (wld p))\<rparr>)"
    using assms by (simp add: check_recv_def Let_def recv_limit_msg_def logging_ERROR_def)
  have tr: "trace (kill (wld p)) =
      trace (wld p) @ (if transport_pid (wld p) = None then [] else [SignalProcess ''KILL''])"
    by (simp add: kill_def emit_def)
  show ?thesis
    by (simp add: outReceived_def errReceived_def process_data_def ck tr)
qed

theorem over_budget_chunk_discarded_witness:
  "outReceived example_env Map.empty (replicate 31 (CHR ''x'') @ [CHR 0x0A])
      (SandboxProtocol_init ''sandbox1'' 16 example_world) =
     (SandboxProtocol_init ''sandbox1'' 16 example_world)
       \<lparr>recv_bytes := 32,
        wld := example_world
          \<lparr>trace :=
             [SignalProcess ''KILL'',
              LogMsg (''Sandbox u'' @ [CHR 0x27] @ ''sandbox1'' @ [CHR 0x27] @
                      '' killed for producing too much data on stderr and stdout.'') 40]\<rparr>\<rparr>
   \<and> pending_requests (outReceived example_env Map.empty (replicate 31 (CHR ''x'') @ [CHR 0x0A])
      (SandboxProtocol_init ''sandbox1'' 16 example_world)) = []
   \<and> trace (wld (errReceived example_env (replicate 31 (CHR ''x'') @ [CHR 0x0A])
      (SandboxProtocol_init ''sandbox1'' 16 example_world))) =
     [SignalProcess ''KILL'',
      LogMsg (''Sandbox u'' @ [CHR 0x27] @ ''sandbox1'' @ [CHR 0x27] @
              '' killed for producing too much data on stderr and stdout.'') 40]"
proof -
  let ?p = "SandboxProtocol_init ''sandbox1'' 16 example_world"
  let ?data = "replicate 31 (CHR ''x'') @ [CHR 0x0A]"
  let ?msg = "''Sandbox '' @ py_repr example_env (PStr (sandbox_id (wld ?p))) @
      '' killed for producing too much data on stderr and stdout.''"
  have over: "recv_limit ?p < recv_bytes ?p + int (length ?data)"
    by (simp add: SandboxProtocol_init_def)
  note th0 = over_budget_chunk_discarded [OF over, of example_env Map.empty]
  from th0 have a: "outReceived example_env Map.empty ?data ?p =
      ?p\<lparr>recv_bytes := recv_bytes ?p + int (length ?data),
         wld := api_log ?msg 40 (kill (wld ?p)), chunk := []\<rparr>"
    by blast
  from th0 have b: "pending_requests (outReceived example_env Map.empty ?data ?p) =
      pending_requests ?p"
    by blast
  from th0 have c: "trace (wld (errReceived example_env ?data ?p)) =
      trace (wld ?p) @
      (if transport_pid (wld ?p) = None then [] else [SignalProcess ''KILL'']) @
      [LogMsg ?msg 40]"
    by blast
  have r: "py_repr example_env (PStr ''sandbox1'') = ''u'' @ [CHR 0x27] @ ''sandbox1'' @ [CHR 0x27]"
    by (simp add: example_env_def example_repr_def quote_def)
  show ?thesis
    by (simp only: a b c)
       (simp add: SandboxProtocol_init_def example_world_def r api_log_def kill_def emit_def)
qed

section \<open>Dispatching commands\<close>

lemma partition_dot_concat:
  "partition_dot s = (a, sep, b) \<Longrightarrow> a @ sep @ b = s"
proof (cases "CHR ''.'' \<in> set s")
  case True
  assume p: "partition_dot s = (a, sep, b)"
  from True have "dropWhile (\<lambda>c. c \<noteq> CHR ''.'') s \<noteq> []" by simp
  moreover from True have "hd (dropWhile (\<lambda>c. c \<noteq> CHR ''.'') s) = CHR ''.''"
    using hd_dropWhile [of "\<lambda>c. c \<noteq> CHR ''.''" s] by simp
  ultimately have "dropWhile (\<lambda>c. c \<noteq> CHR ''.'') s =
      CHR ''.'' # tl (dropWhile (\<lambda>c. c \<noteq> CHR ''.'') s)"
    by (cases "dropWhile (\<lambda>c. c \<noteq> CHR ''.'') s") simp_all
  then have "takeWhile (\<lambda>c. c \<noteq> CHR ''.'') s @ ''.'' @
      tl (dropWhile (\<lambda>c. c \<noteq> CHR ''.'') s) = s"
    using takeWhile_dropWhile_id [of "\<lambda>c. c \<noteq> CHR ''.''" s] by simp
  with p True show ?thesis by (simp add: partition_dot_def)
next
  case False
  assume "partition_dot s = (a, sep, b)"
  with False show ?thesis by (auto simp: partition_dot_def)
qed

lemma split_cmd_concat:
  assumes "split_cmd c = (resource_name, sep, rest)"
  shows "resource_name @ sep @ rest = c"
proof (cases "CHR ''.'' \<in> set c")
  case True
  then have "partition_dot c = (resource_name, sep, rest)"
    using assms by (simp add: split_cmd_def partition_dot_def)
  then show ?thesis by (rule partition_dot_concat)
next
  case False
  then show ?thesis using assms by (simp add: split_cmd_def partition_dot_def)
qed

lemma split_cmd_no_dot:
  "CHR ''.'' \<notin> set c \<Longrightarrow> split_cmd c = ('''', '''', c)"
  by (simp add: split_cmd_def partition_dot_def)

lemma process_fields_complete:
  "payload ''cmd'' = Some c \<Longrightarrow> payload ''cmd_id'' = Some i \<Longrightarrow> payload ''reply'' = Some r \<Longrightarrow>
   process_fields new_id payload = payload"
  by (simp add: process_fields_def setdefault_def)

lemma failure_reply_fields:
  "(process_fields new_id
      [''reply'' \<mapsto> PBool True, ''cmd_id'' \<mapsto> cmd_id,
       ''success'' \<mapsto> PBool False, ''reason'' \<mapsto> PStr m])(''cmd'' \<mapsto> PStr c) =
   [''reply'' \<mapsto> PBool True, ''cmd_id'' \<mapsto> cmd_id,
    ''success'' \<mapsto> PBool False, ''reason'' \<mapsto> PStr m, ''cmd'' \<mapsto> PStr c]"
  by (simp add: process_fields_def setdefault_def)

lemma exc_str_ascii: "is_ascii (exc_message e) \<Longrightarrow> exc_str e = Inr (exc_message e)"
  by (cases e) simp_all

lemma exc_unicode_ascii: "is_ascii (exc_message e) \<Longrightarrow> exc_unicode e = Inr (exc_message e)"
  by (cases e) simp_all

lemma exc_str_unicode_raise:
  "\<not> is_ascii (exc_message e) \<Longrightarrow>
   (\<exists>ue. exc_str e = Inl ue) \<or> (\<exists>ue. exc_unicode e = Inl ue)"
  by (cases e) simp_all

lemma dispatch_resume_Raised:
  assumes "command ''cmd_id'' = Some cmd_id" and "is_ascii (exc_message e)"
  shows "dispatch_resume env resource_name sep rest command (Raised e) w =
     (Succeeded,
      w\<lparr>uuid_draws := Suc (uuid_draws w),
        trace := trace w @
          [LogError e, LogMsg (exc_message e) logging_ERROR,
           TransportWrite
             [''reply'' \<mapsto> PBool True, ''cmd_id'' \<mapsto> cmd_id, ''success'' \<mapsto> PBool False,
              ''reason'' \<mapsto> PStr (exc_message e),
              ''cmd'' \<mapsto> PStr (resource_name @ sep @ rest)]]\<rparr>)"
  using assms
  by (simp add: dispatch_resume_def getitem_def SandboxCommand_def send_def emit_def
        api_log_def LoggingResource_log_def failure_reply_fields Let_def
        exc_str_ascii exc_unicode_ascii
        split: option.splits)

lemma dispatch_resume_str_raises:
  assumes "exc_str e = Inl ue"
  shows "dispatch_resume env resource_name sep rest command (Raised e) w =
     (Failed ue, w\<lparr>trace := trace w @ [LogError e]\<rparr>)"
  using assms by (simp add: dispatch_resume_def emit_def Let_def)

lemma dispatch_resume_unicode_raises:
  assumes "exc_str e = Inr msg" and "command ''cmd_id'' = Some cmd_id"
    and "exc_unicode e = Inl ue"
  shows "dispatch_resume env resource_name sep rest command (Raised e) w =
     (Failed ue, w\<lparr>trace := trace w @ [LogError e, LogMsg msg logging_ERROR]\<rparr>)"
  using assms
  by (simp add: dispatch_resume_def getitem_def emit_def api_log_def LoggingResource_log_def
        Let_def split: option.splits)

text \<open>
  What the \<^verbatim>\<open>except\<close> block of \<^verbatim>\<open>dispatch_request\<close> does for a handler exception \<open>e\<close>
  whose message is ASCII, on a command with a name and a \<^verbatim>\<open>cmd_id\<close>: the Deferred
  settles without a failure after the system log of the error (\<^verbatim>\<open>log.error()\<close>), the log
  of its message at ERROR level through the sandbox API, and one line written to the
  child: a command with \<^verbatim>\<open>reply\<close> true, \<^verbatim>\<open>success\<close> false, the message of \<open>e\<close> as
  \<^verbatim>\<open>reason\<close>, the \<^verbatim>\<open>cmd_id\<close> of the command it answers and the full command name restored.
\<close>

lemma ascii_handler_exception_replied:
  assumes "command ''cmd'' = Some (PStr c)" and "command ''cmd_id'' = Some cmd_id"
    and "split_cmd c = (resource_name, sep, rest)"
    and "SandboxResource_dispatch_request env (get_resource resources resource_name)
           (command(''cmd'' \<mapsto> PStr rest)) w = (Some (Raised e), w1)"
    and "is_ascii (exc_message e)"
  shows "dispatch_request env resources command w =
     (Settled Succeeded,
      w1\<lparr>uuid_draws := Suc (uuid_draws w1),
         trace := trace w1 @
           [LogError e, LogMsg (exc_message e) logging_ERROR,
            TransportWrite
              [''reply'' \<mapsto> PBool True, ''cmd_id'' \<mapsto> cmd_id, ''success'' \<mapsto> PBool False,
               ''reason'' \<mapsto> PStr (exc_message e), ''cmd'' \<mapsto> PStr c]]\<rparr>)"
proof -
  have id: "(command(''cmd'' \<mapsto> PStr rest)) ''cmd_id'' = Some cmd_id"
    using assms(2) by simp
  have name: "resource_name @ sep @ rest = c"
    using assms(3) by (rule split_cmd_concat)
  show ?thesis
    using assms(1,3,4) dispatch_resume_Raised [where command = "command(''cmd'' \<mapsto> PStr rest)"
        and cmd_id = cmd_id and env = env and resource_name = resource_name and sep = sep
        and rest = rest and e = e and w = w1, OF id assms(5)]
    by (simp add: dispatch_request_def getitem_def name)
qed

text \<open>
  C3. The \<^verbatim>\<open>except\<close> block of \<^verbatim>\<open>dispatch_request\<close> is itself not guarded, and it
  converts the exception twice: \<^verbatim>\<open>str(e)\<close> for the sandbox log and \<^verbatim>\<open>unicode(e)\<close> for
  the reply. The command \<^verbatim>\<open>kv.get\<close> with \<^verbatim>\<open>cmd_id\<close> \<^verbatim>\<open>A\<close> is dispatched to a resource whose
  handler raises.
  \<^item> The message is the \<^verbatim>\<open>unicode\<close> object \<^verbatim>\<open>u'\xe9'\<close>: \<^verbatim>\<open>str(e)\<close> raises
    \<^verbatim>\<open>UnicodeEncodeError\<close>, the Deferred of \<^verbatim>\<open>dispatch_request\<close> fails with it, and all
    that has happened is the system log: no sandbox log, no reply to the child.
  \<^item> The message is the byte string \<^verbatim>\<open>'\xc3\xa9'\<close>: the system log and the sandbox log
    are written, then \<^verbatim>\<open>unicode(e)\<close> raises \<^verbatim>\<open>UnicodeDecodeError\<close> and the Deferred
    fails with it: no reply to the child.
\<close>

theorem handler_exception_non_ascii_propagates:
  "dispatch_request example_env
      [''kv'' \<mapsto> example_raising_resource (PyUnicodeException [CHR 0xE9])]
      example_command example_world =
     (Settled (Failed (PyException
        (quote ''ascii'' @ '' codec can'' @ [CHR 0x27] @ ''t encode character u'' @
         quote ([CHR 0x5C] @ ''xe9'') @ '' in position 0: ordinal not in range(128)''))),
      example_world\<lparr>trace := [LogError (PyUnicodeException [CHR 0xE9])]\<rparr>)
   \<and> dispatch_request example_env
      [''kv'' \<mapsto> example_raising_resource (PyException [CHR 0xC3, CHR 0xA9])]
      example_command example_world =
     (Settled (Failed (PyException
        (quote ''ascii'' @ '' codec can'' @ [CHR 0x27] @ ''t decode byte 0xc3'' @
         '' in position 0: ordinal not in range(128)''))),
      example_world\<lparr>trace := [LogError (PyException [CHR 0xC3, CHR 0xA9]),
                               LogMsg [CHR 0xC3, CHR 0xA9] 40]\<rparr>)"
proof -
  have s: "split_cmd ''kv.get'' = (''kv'', ''.'', ''get'')"
    by (simp add: split_cmd_def partition_dot_def)
  have request: "dispatch_request example_env [''kv'' \<mapsto> example_raising_resource e]
      example_command example_world =
     (Settled (fst (dispatch_resume example_env ''kv'' ''.'' ''get''
                      (example_command(''cmd'' \<mapsto> PStr ''get'')) (Raised e) example_world)),
      snd (dispatch_resume example_env ''kv'' ''.'' ''get''
             (example_command(''cmd'' \<mapsto> PStr ''get'')) (Raised e) example_world))" for e
    by (simp add: dispatch_request_def getitem_def example_command_def s get_resource_def
          SandboxResource_dispatch_request_def example_raising_resource_def split_def
          Let_def)
  have id: "example_command ''cmd_id'' = Some (PStr ''A'')"
    by (simp add: example_command_def)
  have t: "trace example_world = []" "logging_resource example_world = None"
    by (simp_all add: example_world_def)
  have s1: "\<not> is_ascii [CHR 0xE9]" and u2: "\<not> is_ascii [CHR 0xC3, CHR 0xA9]"
    by (simp_all add: is_ascii_def is_ascii_char_def)
  have a: "dispatch_request example_env
      [''kv'' \<mapsto> example_raising_resource (PyUnicodeException [CHR 0xE9])]
      example_command example_world =
     (Settled (Failed (UnicodeEncodeError [CHR 0xE9])),
      example_world\<lparr>trace := [LogError (PyUnicodeException [CHR 0xE9])]\<rparr>)"
    by (simp add: request dispatch_resume_def s1 emit_def t)
  have b: "dispatch_request example_env
      [''kv'' \<mapsto> example_raising_resource (PyException [CHR 0xC3, CHR 0xA9])]
      example_command example_world =
     (Settled (Failed (UnicodeDecodeError [CHR 0xC3, CHR 0xA9])),
      example_world\<lparr>trace := [LogError (PyException [CHR 0xC3, CHR 0xA9]),
                               LogMsg [CHR 0xC3, CHR 0xA9] 40]\<rparr>)"
    by (simp add: request dispatch_resume_def u2 emit_def api_log_def t getitem_def id
          logging_ERROR_def Let_def)
  have ee: "UnicodeEncodeError [CHR 0xE9] =
     PyException
       (quote ''ascii'' @ '' codec can'' @ [CHR 0x27] @ ''t encode character u'' @
        quote ([CHR 0x5C] @ ''xe9'') @ '' in position 0: ordinal not in range(128)'')"
    by code_simp
  have de: "UnicodeDecodeError [CHR 0xC3, CHR 0xA9] =
     PyException
       (quote ''ascii'' @ '' codec can'' @ [CHR 0x27] @ ''t decode byte 0xc3'' @
        '' in position 0: ordinal not in range(128)'')"
    by code_simp
  show ?thesis
    by (simp only: a b ee de simp_thms)
qed

lemma parse_command_malformed:
  assumes "from_json env line = Inl e"
  shows "parse_command env line w =
     ([''cmd'' \<mapsto> PStr ''unknown'', ''line'' \<mapsto> PStr line, ''exception'' \<mapsto> PExc e,
       ''cmd_id'' \<mapsto> PStr (uuid4_hex env (uuid_draws w)), ''reply'' \<mapsto> PBool False],
      w\<lparr>uuid_draws := Suc (uuid_draws w)\<rparr>)"
  using assms
  by (simp add: parse_command_def SandboxCommand_def process_fields_def setdefault_def)

lemma dispatch_request_fallback:
  assumes "command ''cmd'' = Some (PStr c)" and "CHR ''.'' \<notin> set c"
    and "resources '''' = None"
  shows "dispatch_request env resources command w =
     (Settled Succeeded,
      kill (api_log (unknown_request_msg env ''fallback'' (PStr c) (sandbox_id w) command)
              logging_ERROR w))"
proof -
  have same: "command(''cmd'' \<mapsto> PStr c) = command"
    using assms(1) by (simp add: fun_upd_idem)
  show ?thesis
    using assms
    by (simp add: dispatch_request_def getitem_def split_cmd_no_dot get_resource_def
          SandboxResource_dispatch_request_def fallback_resource_def unknown_request_def
          dispatch_resume_def same Let_def)
qed

lemma trace_log_then_kill:
  "trace (kill (api_log msg level w)) =
     trace w @ [LogMsg msg level] @
     (if transport_pid w = None then [] else [SignalProcess ''KILL''])"
  by (simp add: trace_kill api_log_def LoggingResource_log_def emit_def split: option.splits)

text \<open>
  C4. A stdout line that \<^verbatim>\<open>from_json\<close> rejects parses to a command with \<^verbatim>\<open>cmd\<close>
  \<^verbatim>\<open>unknown\<close>, the line under \<^verbatim>\<open>line\<close>, the error under \<^verbatim>\<open>exception\<close>, a fresh \<^verbatim>\<open>cmd_id\<close>
  and \<^verbatim>\<open>reply\<close> false. Where no resource is registered under the empty name, its dispatch
  goes to the fallback resource, whose \<^verbatim>\<open>unknown_request\<close> logs at ERROR level through the
  sandbox API and then kills the child (a KILL signal when the transport still has a
  pid); nothing is written back, and the pending request it leaves has settled.
\<close>

theorem malformed_line_logged_and_killed:
  assumes "from_json env line = Inl e" and "resources '''' = None"
  shows "fst (parse_command env line w) =
           [''cmd'' \<mapsto> PStr ''unknown'', ''line'' \<mapsto> PStr line, ''exception'' \<mapsto> PExc e,
            ''cmd_id'' \<mapsto> PStr (uuid4_hex env (uuid_draws w)), ''reply'' \<mapsto> PBool False]
       \<and> dispatch_request env resources (fst (parse_command env line w))
             (snd (parse_command env line w)) =
           (Settled Succeeded,
            kill (api_log (unknown_request_msg env (res_name fallback_resource)
                             (PStr ''unknown'') (sandbox_id w) (fst (parse_command env line w)))
                    logging_ERROR (snd (parse_command env line w))))
       \<and> trace (snd (dispatch_request env resources (fst (parse_command env line w))
                       (snd (parse_command env line w)))) =
           trace w @
           [LogMsg (unknown_request_msg env ''fallback'' (PStr ''unknown'') (sandbox_id w)
                      (fst (parse_command env line w))) logging_ERROR] @
           (if transport_pid w = None then [] else [SignalProcess ''KILL''])
       \<and> pending_requests (dispatch_line env resources line p) =
           pending_requests p @ [\<lparr>task_line = line, task_dispatch = Settled Succeeded\<rparr>]"
proof -
  let ?command = "fst (parse_command env line w)"
  have pc: "\<And>w. parse_command env line w =
     ([''cmd'' \<mapsto> PStr ''unknown'', ''line'' \<mapsto> PStr line, ''exception'' \<mapsto> PExc e,
       ''cmd_id'' \<mapsto> PStr (uuid4_hex env (uuid_draws w)), ''reply'' \<mapsto> PBool False],
      w\<lparr>uuid_draws := Suc (uuid_draws w)\<rparr>)"
    using assms(1) by (rule parse_command_malformed)
  have cmd: "\<And>w. fst (parse_command env line w) ''cmd'' = Some (PStr ''unknown'')"
    by (simp add: pc)
  have nodot: "CHR ''.'' \<notin> set ''unknown''" by simp
  have disp: "\<And>w. dispatch_request env resources (fst (parse_command env line w))
             (snd (parse_command env line w)) =
           (Settled Succeeded,
            kill (api_log (unknown_request_msg env ''fallback''
                             (PStr ''unknown'') (sandbox_id (snd (parse_command env line w)))
                             (fst (parse_command env line w)))
                    logging_ERROR (snd (parse_command env line w))))"
    using cmd nodot assms(2)
    by (rule dispatch_request_fallback [where command = "fst (parse_command env line w)"
          and c = "''unknown''" and resources = resources and env = env
          and w = "snd (parse_command env line w)" for w])
  have sid: "sandbox_id (snd (parse_command env line w)) = sandbox_id w"
    by (simp add: pc)
  have a: "?command =
           [''cmd'' \<mapsto> PStr ''unknown'', ''line'' \<mapsto> PStr line, ''exception'' \<mapsto> PExc e,
            ''cmd_id'' \<mapsto> PStr (uuid4_hex env (uuid_draws w)), ''reply'' \<mapsto> PBool False]"
    by (simp add: pc)
  have b: "dispatch_request env resources ?command (snd (parse_command env line w)) =
           (Settled Succeeded,
            kill (api_log (unknown_request_msg env (res_name fallback_resource)
                             (PStr ''unknown'') (sandbox_id w) ?command)
                    logging_ERROR (snd (parse_command env line w))))"
    using disp [of w] by (simp add: sid fallback_resource_def)
  have c: "trace (snd (dispatch_request env resources ?command
                       (snd (parse_command env line w)))) =
           trace w @
           [LogMsg (unknown_request_msg env ''fallback'' (PStr ''unknown'') (sandbox_id w)
                      ?command) logging_ERROR] @
           (if transport_pid w = None then [] else [SignalProcess ''KILL''])"
    by (simp only: b snd_conv trace_log_then_kill) (simp add: pc fallback_resource_def)
  have d: "pending_requests (dispatch_line env resources line p) =
           pending_requests p @ [\<lparr>task_line = line, task_dispatch = Settled Succeeded\<rparr>]"
    using disp [of "wld p"] by (simp add: dispatch_line_def split_def Let_def)
  from a b c d show ?thesis by blast
qed

theorem malformed_line_logged_and_killed_witness:
  "fst (parse_command example_env ''not json'' example_world) =
      [''cmd'' \<mapsto> PStr ''unknown'', ''line'' \<mapsto> PStr ''not json'',
       ''exception'' \<mapsto> PExc (PyException ''No JSON object could be decoded''),
       ''cmd_id'' \<mapsto> PStr ''uuid0'', ''reply'' \<mapsto> PBool False]
   \<and> trace (snd (dispatch_request example_env [''kv'' \<mapsto> RedisResource example_env ''kv'' 100]
        (fst (parse_command example_env ''not json'' example_world))
        (snd (parse_command example_env ''not json'' example_world)))) =
      [LogMsg (unknown_request_msg example_env ''fallback'' (PStr ''unknown'') ''sandbox1''
                 (fst (parse_command example_env ''not json'' example_world))) logging_ERROR,
       SignalProcess ''KILL'']"
proof -
  have a: "from_json example_env ''not json'' = Inl (PyException ''No JSON object could be decoded'')"
    by (simp add: example_env_def example_line_def dq_def)
  have b: "[''kv'' \<mapsto> RedisResource example_env ''kv'' 100] '''' = None"
    by simp
  note th0 = malformed_line_logged_and_killed [where env = example_env and line = "''not json''"
      and e = "PyException ''No JSON object could be decoded''"
      and resources = "[''kv'' \<mapsto> RedisResource example_env ''kv'' 100]"
      and w = example_world, OF a b]
  from th0 have c: "fst (parse_command example_env ''not json'' example_world) =
      [''cmd'' \<mapsto> PStr ''unknown'', ''line'' \<mapsto> PStr ''not json'',
       ''exception'' \<mapsto> PExc (PyException ''No JSON object could be decoded''),
       ''cmd_id'' \<mapsto> PStr (uuid4_hex example_env (uuid_draws example_world)),
       ''reply'' \<mapsto> PBool False]"
    by blast
  from th0 have d: "trace (snd (dispatch_request example_env
        [''kv'' \<mapsto> RedisResource example_env ''kv'' 100]
        (fst (parse_command example_env ''not json'' example_world))
        (snd (parse_command example_env ''not json'' example_world)))) =
      trace example_world @
      [LogMsg (unknown_request_msg example_env ''fallback'' (PStr ''unknown'')
                 (sandbox_id example_world)
                 (fst (parse_command example_env ''not json'' example_world))) logging_ERROR] @
      (if transport_pid example_world = None then [] else [SignalProcess ''KILL''])"
    by blast
  have u: "uuid4_hex example_env (uuid_draws example_world) = ''uuid0''"
    by code_simp
  have w: "trace example_world = []" "sandbox_id example_world = ''sandbox1''"
     "transport_pid example_world = Some 4242"
    by (simp_all add: example_world_def)
  show ?thesis
    by (simp only: d) (simp add: c u w)
qed

section \<open>The store reads back the integers it writes\<close>

declare show_nat.simps [simp del]

lemma digit_val_digit_char: "d < 10 \<Longrightarrow> digit_val (digit_char d) = Some d"
  by (simp add: digit_val_def digit_char_def Let_def)

lemma digit_char_0: "digit_char 0 = CHR ''0''"
  by code_simp

lemma digit_char_zero: "d < 10 \<Longrightarrow> (digit_char d = CHR ''0'') = (d = 0)"
proof
  assume d: "d < 10" and "digit_char d = CHR ''0''"
  then have "digit_val (digit_char d) = digit_val (digit_char 0)"
    by (simp add: digit_char_0)
  then show "d = 0" using d by (simp add: digit_val_digit_char)
next
  assume "d = 0"
  then show "digit_char d = CHR ''0''" by (simp add: digit_char_0)
qed

lemma digit_char_not_minus: "d < 10 \<Longrightarrow> digit_char d \<noteq> CHR ''-''"
proof
  assume d: "d < 10" and "digit_char d = CHR ''-''"
  then have "digit_val (digit_char d) = digit_val (CHR ''-'')" by simp
  then show False using d by (simp add: digit_val_digit_char) (simp add: digit_val_def)
qed

lemma parse_digits_snoc:
  "parse_digits acc (xs @ [c]) =
     (case parse_digits acc xs of
        None \<Rightarrow> None
      | Some a \<Rightarrow> (case digit_val c of None \<Rightarrow> None | Some d \<Rightarrow> Some (10 * a + d)))"
  by (induction xs arbitrary: acc) (auto split: option.splits)

lemma parse_digits_show_nat: "parse_digits 0 (show_nat n) = Some n"
proof (induction n rule: show_nat.induct)
  case (1 n)
  show ?case
  proof (cases "n < 10")
    case True
    then show ?thesis by (simp add: show_nat.simps [of n] digit_val_digit_char)
  next
    case False
    then have "parse_digits 0 (show_nat (n div 10)) = Some (n div 10)" by (rule "1.IH")
    then show ?thesis using False
      by (simp add: show_nat.simps [of n] parse_digits_snoc digit_val_digit_char)
  qed
qed

lemma show_nat_nonempty: "show_nat n \<noteq> []"
  by (simp add: show_nat.simps [of n])

lemma show_nat_hd:
  "\<exists>d cs. show_nat n = digit_char d # cs \<and> d < 10 \<and> (d = 0 \<longrightarrow> n = 0 \<and> cs = [])"
proof (induction n rule: show_nat.induct)
  case (1 n)
  show ?case
  proof (cases "n < 10")
    case True
    then have "show_nat n = digit_char n # [] \<and> n < 10 \<and> (n = 0 \<longrightarrow> n = 0 \<and> [] = ([] :: string))"
      by (simp add: show_nat.simps [of n])
    then show ?thesis by blast
  next
    case False
    from "1.IH" [OF False] obtain d cs where
      h: "show_nat (n div 10) = digit_char d # cs" "d < 10" "d = 0 \<longrightarrow> n div 10 = 0 \<and> cs = []"
      by blast
    from False have "n div 10 \<noteq> 0" by simp
    with h have "d \<noteq> 0" by blast
    with h False have "show_nat n = digit_char d # (cs @ [digit_char (n mod 10)]) \<and> d < 10 \<and>
        (d = 0 \<longrightarrow> n = 0 \<and> cs @ [digit_char (n mod 10)] = [])"
      by (simp add: show_nat.simps [of n])
    then show ?thesis by blast
  qed
qed

lemma parse_nat_show_nat: "parse_nat (show_nat n) = Some n"
proof -
  obtain d cs where h: "show_nat n = digit_char d # cs" "d < 10" "d = 0 \<longrightarrow> n = 0 \<and> cs = []"
    using show_nat_hd by blast
  have "\<not> (digit_char d = CHR ''0'' \<and> cs \<noteq> [])"
  proof (cases "d = 0")
    case True
    then show ?thesis using h(3) by simp
  next
    case False
    then show ?thesis using h(2) by (simp add: digit_char_zero)
  qed
  then have "parse_nat (show_nat n) = parse_digits 0 (show_nat n)"
    using h(1) by (auto simp: parse_nat_def)
  then show ?thesis by (simp add: parse_digits_show_nat)
qed

lemma parse_int_show_int: "parse_int (show_int i) = Some i"
proof (cases "i < 0")
  case True
  then show ?thesis by (simp add: show_int_def parse_int_def parse_nat_show_nat)
next
  case False
  obtain d cs where h: "show_nat (nat i) = digit_char d # cs" "d < 10"
    using show_nat_hd by blast
  have "parse_int (show_nat (nat i)) = map_option int (parse_nat (show_nat (nat i)))"
    using h by (simp add: parse_int_def digit_char_not_minus)
  then show ?thesis using False by (simp add: show_int_def parse_nat_show_nat)
qed

lemma stored_int_update:
  "stored_int (w\<lparr>redis := (redis w)(key \<mapsto> show_int n)\<rparr>) key = Some n"
  by (simp add: stored_int_def parse_int_show_int)

lemma stored_int_other:
  "key' \<noteq> key \<Longrightarrow> stored_int (w\<lparr>redis := (redis w)(key \<mapsto> v)\<rparr>) key' = stored_int w key'"
  by (simp add: stored_int_def)

lemma redis_incr_int:
  "stored_int w key = Some n \<Longrightarrow>
   redis_incr key (PInt a) w = (Inr (n + a), w\<lparr>redis := (redis w)(key \<mapsto> show_int (n + a))\<rparr>)"
  by (simp add: redis_incr_def)


lemma count_key_not_sandboxed [simp]:
  "count_key sid \<noteq> join_hash [''sandboxes'', sid', k]"
  "join_hash [''sandboxes'', sid', k] \<noteq> count_key sid"
  by (simp_all add: count_key_def)

lemma sandboxed_key_inj [simp]:
  "(join_hash [''sandboxes'', sid, k] = join_hash [''sandboxes'', sid, k']) = (k = k')"
  by simp

lemma check_keys_exists:
  "redis w key \<noteq> None \<Longrightarrow> check_keys kpu sid key w = (Inr True, w)"
  by (simp add: check_keys_def redis_exists_def)

lemma check_keys_new_ok:
  assumes "redis w key = None" "stored_int w (count_key sid) = Some n" "n + 1 \<le> kpu"
  shows "check_keys kpu sid key w =
     (Inr True, w\<lparr>redis := (redis w)(count_key sid \<mapsto> show_int (n + 1))\<rparr>)"
  using assms by (simp add: check_keys_def redis_exists_def redis_incr_int)

lemma check_keys_new_full:
  assumes "redis w key = None" "stored_int w (count_key sid) = Some n" "kpu < n + 1"
  shows "check_keys kpu sid key w =
     (Inr False, w\<lparr>redis := (redis w)(count_key sid \<mapsto> show_int n)\<rparr>)"
proof -
  let ?w1 = "w\<lparr>redis := (redis w)(count_key sid \<mapsto> show_int (n + 1))\<rparr>"
  have 1: "redis_incr (count_key sid) (PInt 1) w = (Inr (n + 1), ?w1)"
    using assms(2) by (rule redis_incr_int)
  have "stored_int ?w1 (count_key sid) = Some (n + 1)" by (rule stored_int_update)
  then have 2: "redis_incr (count_key sid) (PInt (- 1)) ?w1 =
      (Inr (n + 1 + - 1), ?w1\<lparr>redis := (redis ?w1)(count_key sid \<mapsto> show_int (n + 1 + - 1))\<rparr>)"
    by (rule redis_incr_int)
  show ?thesis using assms(1,3) by (simp add: check_keys_def redis_exists_def 1 2)
qed

lemma reply_valid:
  assumes "validate_fields command"
  shows "\<exists>c i. command ''cmd'' = Some c \<and> command ''cmd_id'' = Some i \<and>
     reply env command kwargs w =
       (Inr (kwargs(''cmd'' \<mapsto> c, ''reply'' \<mapsto> PBool True, ''cmd_id'' \<mapsto> i)),
        w\<lparr>uuid_draws := Suc (uuid_draws w)\<rparr>)"
  using assms
  by (auto simp: validate_fields_def reply_def getitem_def SandboxCommand_def
        process_fields_def setdefault_def)

lemma return_reply_valid:
  assumes "validate_fields command" "k \<noteq> ''cmd''" "k \<noteq> ''reply''" "k \<noteq> ''cmd_id''"
  shows "reply_field k (fst (return_reply (reply env command kwargs w))) = kwargs k"
    and "snd (return_reply (reply env command kwargs w)) = w\<lparr>uuid_draws := Suc (uuid_draws w)\<rparr>"
  using reply_valid [OF assms(1), of env kwargs w] assms(2-4)
  by (auto simp: return_reply_def)


subsection \<open>The exception of the store\<close>

lemma redis_incr_raises:
  "redis_incr key amount w = (Inl e, w') \<Longrightarrow> e = not_an_integer"
  by (auto simp: redis_incr_def split: pyval.splits option.splits)

lemma is_ascii_not_an_integer: "is_ascii (exc_message not_an_integer)"
  by code_simp

lemma exc_unicode_redis_incr:
  "redis_incr key amount w = (Inl e, w') \<Longrightarrow> exc_unicode e = Inr (exc_message e)"
  using redis_incr_raises [of key amount w e w'] is_ascii_not_an_integer
  by (simp add: exc_unicode_ascii)

text \<open>\<^verbatim>\<open>handle_incr\<close> with the \<^verbatim>\<open>unicode(e)\<close> of its \<^verbatim>\<open>except\<close> block resolved: the
  exception of the store has an ASCII message.\<close>

lemma handle_incr_unfold:
  "handle_incr env keys_per_user command w =
     (case sandboxed_key (sandbox_id w) (command_get command ''key'' PNone) of
        Inl e \<Rightarrow> (Some (Raised e), w)
      | Inr key \<Rightarrow>
          (case check_keys keys_per_user (sandbox_id w) key w of
             (Inl e, w1) \<Rightarrow> (Some (Raised e), w1)
           | (Inr False, w1) \<Rightarrow> return_reply (too_many_keys env command w1)
           | (Inr True, w1) \<Rightarrow>
               (case redis_incr key (command_get command ''amount'' (PInt 1)) w1 of
                  (Inl e, w2) \<Rightarrow>
                    return_reply
                      (reply env command
                         [''success'' \<mapsto> PBool False, ''reason'' \<mapsto> PStr (exc_message e)] w2)
                | (Inr v, w2) \<Rightarrow>
                    return_reply
                      (reply env command
                         [''value'' \<mapsto> PInt v, ''success'' \<mapsto> PBool True] w2))))"
  unfolding handle_incr_def Let_def
  by (auto split: sum.splits prod.splits bool.splits dest: exc_unicode_redis_incr)
section \<open>The key/value resource: quota\<close>

declare join_hash.simps [simp del]

lemma return_reply_world:
  "redis (snd (return_reply (reply env command kwargs w))) = redis w"
  "sandbox_id (snd (return_reply (reply env command kwargs w))) = sandbox_id w"
  by (simp_all add: return_reply_def reply_def getitem_def SandboxCommand_def split_def
        split: option.splits sum.splits)

lemma redis_incr_world:
  "sandbox_id (snd (redis_incr key amount w)) = sandbox_id w"
  "key' \<noteq> key \<Longrightarrow> redis (snd (redis_incr key amount w)) key' = redis w key'"
  by (simp_all add: redis_incr_def split: pyval.splits option.splits)

lemma command_key_Some:
  "command_key command = Some k \<Longrightarrow> command ''key'' = Some (PStr k)"
  by (simp add: command_key_def split: option.splits pyval.splits)

lemma handle_set_key:
  assumes "command_key command = Some k"
  shows "handle_set env kpu command w =
     (case check_keys kpu (sandbox_id w) (join_hash [''sandboxes'', sandbox_id w, k]) w of
        (Inl e, w1) \<Rightarrow> (Some (Raised e), w1)
      | (Inr False, w1) \<Rightarrow> return_reply (too_many_keys env command w1)
      | (Inr True, w1) \<Rightarrow>
          (case json_dumps env (command_get command ''value'' PNone) of
             Inl e \<Rightarrow> (Some (Raised e), w1)
           | Inr dumped \<Rightarrow>
               return_reply
                 (reply env command [''success'' \<mapsto> PBool True]
                    (redis_set (join_hash [''sandboxes'', sandbox_id w, k]) dumped w1))))"
  using command_key_Some [OF assms]
  by (simp add: handle_set_def sandboxed_key_def command_get_def)

lemma handle_incr_key:
  assumes "command_key command = Some k"
  shows "handle_incr env kpu command w =
     (case check_keys kpu (sandbox_id w) (join_hash [''sandboxes'', sandbox_id w, k]) w of
        (Inl e, w1) \<Rightarrow> (Some (Raised e), w1)
      | (Inr False, w1) \<Rightarrow> return_reply (too_many_keys env command w1)
      | (Inr True, w1) \<Rightarrow>
          (case redis_incr (join_hash [''sandboxes'', sandbox_id w, k])
                  (command_get command ''amount'' (PInt 1)) w1 of
             (Inl e, w2) \<Rightarrow>
               return_reply
                 (reply env command
                    [''success'' \<mapsto> PBool False, ''reason'' \<mapsto> PStr (exc_message e)] w2)
           | (Inr v, w2) \<Rightarrow>
               return_reply
                 (reply env command [''value'' \<mapsto> PInt v, ''success'' \<mapsto> PBool True] w2)))"
  using command_key_Some [OF assms]
  unfolding handle_incr_unfold
  by (simp add: sandboxed_key_def command_get_def)

text \<open>Writes to a key that exists.\<close>

lemma handle_set_existing:
  assumes "command_key command = Some k"
    and "redis w (join_hash [''sandboxes'', sandbox_id w, k]) \<noteq> None"
  shows "redis (snd (handle_set env kpu command w)) (count_key (sandbox_id w)) =
         redis w (count_key (sandbox_id w))"
  using assms(2)
  by (simp add: handle_set_key [OF assms(1)] check_keys_exists return_reply_world
        redis_set_def split: sum.splits)

lemma handle_incr_existing:
  assumes "command_key command = Some k"
    and "redis w (join_hash [''sandboxes'', sandbox_id w, k]) \<noteq> None"
  shows "redis (snd (handle_incr env kpu command w)) (count_key (sandbox_id w)) =
         redis w (count_key (sandbox_id w))"
proof -
  let ?key = "join_hash [''sandboxes'', sandbox_id w, k]"
  let ?amount = "command_get command ''amount'' (PInt 1)"
  have ck: "check_keys kpu (sandbox_id w) ?key w = (Inr True, w)"
    using assms(2) by (rule check_keys_exists)
  have r: "redis (snd (redis_incr ?key ?amount w)) (count_key (sandbox_id w)) =
           redis w (count_key (sandbox_id w))"
    by (rule redis_incr_world) simp
  obtain x w2 where i: "redis_incr ?key ?amount w = (x, w2)"
    by (cases "redis_incr ?key ?amount w") auto
  with r have "redis w2 (count_key (sandbox_id w)) = redis w (count_key (sandbox_id w))"
    by simp
  then show ?thesis
    by (simp add: handle_incr_key [OF assms(1)] ck i return_reply_world split: sum.splits)
qed

text \<open>Writes to a new key, with room left.\<close>

lemma handle_set_new_counter:
  assumes "command_key command = Some k"
    and "redis w (join_hash [''sandboxes'', sandbox_id w, k]) = None"
    and "stored_int w (count_key (sandbox_id w)) = Some n" and "n + 1 \<le> kpu"
  shows "stored_int (snd (handle_set env kpu command w)) (count_key (sandbox_id w)) = Some (n + 1)"
  using assms(2-4)
  by (simp add: handle_set_key [OF assms(1)] check_keys_new_ok stored_int_def
        return_reply_world redis_set_def parse_int_show_int split: sum.splits)

lemma handle_incr_new_counter:
  assumes "command_key command = Some k"
    and "redis w (join_hash [''sandboxes'', sandbox_id w, k]) = None"
    and "stored_int w (count_key (sandbox_id w)) = Some n" and "n + 1 \<le> kpu"
  shows "stored_int (snd (handle_incr env kpu command w)) (count_key (sandbox_id w)) = Some (n + 1)"
proof -
  let ?key = "join_hash [''sandboxes'', sandbox_id w, k]"
  let ?ck = "count_key (sandbox_id w)"
  let ?w1 = "w\<lparr>redis := (redis w)(?ck \<mapsto> show_int (n + 1))\<rparr>"
  let ?amount = "command_get command ''amount'' (PInt 1)"
  have ck: "check_keys kpu (sandbox_id w) ?key w = (Inr True, ?w1)"
    using assms(2-4) by (rule check_keys_new_ok)
  have r: "redis (snd (redis_incr ?key ?amount ?w1)) ?ck = redis ?w1 ?ck"
    by (rule redis_incr_world) simp
  obtain x w2 where i: "redis_incr ?key ?amount ?w1 = (x, w2)"
    by (cases "redis_incr ?key ?amount ?w1") auto
  with r have "redis w2 ?ck = Some (show_int (n + 1))" by simp
  then show ?thesis
    by (simp add: handle_incr_key [OF assms(1)] ck i return_reply_world stored_int_def
          parse_int_show_int split: sum.splits)
qed

text \<open>Writes to a new key, with the quota used up.\<close>

lemma too_many_keys_reply:
  assumes "validate_fields command"
  shows "reply_field ''success'' (fst (return_reply (too_many_keys env command w))) =
           Some (PBool False)"
    and "reply_field ''reason'' (fst (return_reply (too_many_keys env command w))) =
           Some (PStr ''Too many keys'')"
    and "redis (snd (return_reply (too_many_keys env command w))) = redis w"
  using assms
  by (simp_all add: too_many_keys_def return_reply_valid return_reply_world)

lemma handle_set_full:
  assumes "command_key command = Some k"
    and "redis w (join_hash [''sandboxes'', sandbox_id w, k]) = None"
    and "stored_int w (count_key (sandbox_id w)) = Some n" and "kpu < n + 1"
    and "validate_fields command"
  shows "reply_field ''success'' (fst (handle_set env kpu command w)) = Some (PBool False)"
    and "reply_field ''reason'' (fst (handle_set env kpu command w)) = Some (PStr ''Too many keys'')"
    and "stored_int (snd (handle_set env kpu command w)) (count_key (sandbox_id w)) = Some n"
    and "redis (snd (handle_set env kpu command w)) (join_hash [''sandboxes'', sandbox_id w, k]) = None"
  using assms(2-4)
  by (simp_all add: handle_set_key [OF assms(1)] check_keys_new_full
        too_many_keys_reply [OF assms(5)] stored_int_def parse_int_show_int)

lemma handle_incr_full:
  assumes "command_key command = Some k"
    and "redis w (join_hash [''sandboxes'', sandbox_id w, k]) = None"
    and "stored_int w (count_key (sandbox_id w)) = Some n" and "kpu < n + 1"
    and "validate_fields command"
  shows "reply_field ''success'' (fst (handle_incr env kpu command w)) = Some (PBool False)"
    and "reply_field ''reason'' (fst (handle_incr env kpu command w)) = Some (PStr ''Too many keys'')"
    and "stored_int (snd (handle_incr env kpu command w)) (count_key (sandbox_id w)) = Some n"
    and "redis (snd (handle_incr env kpu command w)) (join_hash [''sandboxes'', sandbox_id w, k]) = None"
  using assms(2-4)
  by (simp_all add: handle_incr_key [OF assms(1)] check_keys_new_full
        too_many_keys_reply [OF assms(5)] stored_int_def parse_int_show_int)

lemma handle_set_new_ok:
  assumes "command_key command = Some k"
    and "redis w (join_hash [''sandboxes'', sandbox_id w, k]) = None"
    and "stored_int w (count_key (sandbox_id w)) = Some n" and "n + 1 \<le> kpu"
    and "validate_fields command" and "dumps_ok env command"
  shows "reply_field ''success'' (fst (handle_set env kpu command w)) = Some (PBool True)"
    and "sandbox_id (snd (handle_set env kpu command w)) = sandbox_id w"
    and "stored_int (snd (handle_set env kpu command w)) (count_key (sandbox_id w)) = Some (n + 1)"
    and "key' \<noteq> join_hash [''sandboxes'', sandbox_id w, k] \<Longrightarrow> key' \<noteq> count_key (sandbox_id w) \<Longrightarrow>
         redis (snd (handle_set env kpu command w)) key' = redis w key'"
proof -
  obtain s where s: "json_dumps env (command_get command ''value'' PNone) = Inr s"
    using assms(6) by (auto simp: dumps_ok_def split: sum.splits)
  note unfold = handle_set_key [OF assms(1)] check_keys_new_ok [OF assms(2-4)] s
  show "reply_field ''success'' (fst (handle_set env kpu command w)) = Some (PBool True)"
    by (simp add: unfold return_reply_valid [OF assms(5)])
  show "sandbox_id (snd (handle_set env kpu command w)) = sandbox_id w"
    by (simp add: unfold return_reply_world redis_set_def)
  show "stored_int (snd (handle_set env kpu command w)) (count_key (sandbox_id w)) = Some (n + 1)"
    using assms(1-4) by (rule handle_set_new_counter)
  show "key' \<noteq> join_hash [''sandboxes'', sandbox_id w, k] \<Longrightarrow> key' \<noteq> count_key (sandbox_id w) \<Longrightarrow>
         redis (snd (handle_set env kpu command w)) key' = redis w key'"
    by (simp add: unfold return_reply_world redis_set_def)
qed

lemma sets_fill_quota:
  assumes "list_all validate_fields cmds" and "list_all (dumps_ok env) cmds"
    and "map command_key cmds = map Some ks" and "distinct ks"
    and "list_all (\<lambda>k. redis w (join_hash [''sandboxes'', sandbox_id w, k]) = None) ks"
    and "stored_int w (count_key (sandbox_id w)) = Some n"
    and "n + int (length cmds) \<le> kpu"
  shows "list_all (\<lambda>r. reply_field ''success'' r = Some (PBool True))
           (fst (handle_all (handle_set env kpu) cmds w))
       \<and> sandbox_id (snd (handle_all (handle_set env kpu) cmds w)) = sandbox_id w
       \<and> stored_int (snd (handle_all (handle_set env kpu) cmds w)) (count_key (sandbox_id w)) =
           Some (n + int (length cmds))
       \<and> (\<forall>k'. k' \<notin> set ks \<longrightarrow>
             redis (snd (handle_all (handle_set env kpu) cmds w))
               (join_hash [''sandboxes'', sandbox_id w, k']) =
             redis w (join_hash [''sandboxes'', sandbox_id w, k']))"
  using assms
proof (induction cmds arbitrary: ks w n)
  case Nil
  then show ?case by simp
next
  case (Cons c cs)
  from Cons.prems(3) obtain k ks' where ks: "ks = k # ks'" and ck: "command_key c = Some k"
    and rest: "map command_key cs = map Some ks'"
    by (cases ks) auto
  let ?w1 = "snd (handle_set env kpu c w)"
  let ?r = "fst (handle_set env kpu c w)"
  have fresh: "redis w (join_hash [''sandboxes'', sandbox_id w, k]) = None"
    using Cons.prems(5) ks by simp
  have room: "n + 1 \<le> kpu" using Cons.prems(7) by simp
  have vc: "validate_fields c" and dc: "dumps_ok env c"
    using Cons.prems(1,2) by simp_all
  note step = handle_set_new_ok [OF ck fresh Cons.prems(6) room vc dc]
  have sid: "sandbox_id ?w1 = sandbox_id w" by (rule step(2))
  have others: "\<And>k'. k' \<noteq> k \<Longrightarrow>
      redis ?w1 (join_hash [''sandboxes'', sandbox_id w, k']) =
      redis w (join_hash [''sandboxes'', sandbox_id w, k'])"
    by (rule step(4)) simp_all
  have p1: "list_all validate_fields cs" and p2: "list_all (dumps_ok env) cs"
    using Cons.prems(1,2) by simp_all
  have p4: "distinct ks'" and notin: "k \<notin> set ks'" using Cons.prems(4) ks by simp_all
  have p5: "list_all (\<lambda>k. redis ?w1 (join_hash [''sandboxes'', sandbox_id ?w1, k]) = None) ks'"
  proof -
    have "redis ?w1 (join_hash [''sandboxes'', sandbox_id w, ka]) = None" if "ka \<in> set ks'" for ka
    proof -
      from that notin have "ka \<noteq> k" by blast
      then have "redis ?w1 (join_hash [''sandboxes'', sandbox_id w, ka]) =
                 redis w (join_hash [''sandboxes'', sandbox_id w, ka])"
        by (rule others)
      also have "\<dots> = None" using Cons.prems(5) ks that by (simp add: list_all_iff)
      finally show ?thesis .
    qed
    then show ?thesis by (simp add: sid list_all_iff)
  qed
  have p6: "stored_int ?w1 (count_key (sandbox_id ?w1)) = Some (n + 1)"
    using step(3) by (simp add: sid)
  have p7: "n + 1 + int (length cs) \<le> kpu" using Cons.prems(7) by simp
  note IH = Cons.IH [OF p1 p2 rest p4 p5 p6 p7]
  have unfold: "handle_all (handle_set env kpu) (c # cs) w =
      (?r # fst (handle_all (handle_set env kpu) cs ?w1),
       snd (handle_all (handle_set env kpu) cs ?w1))"
    by (simp add: split_def)
  show ?case
    using IH step(1) others
    by (simp add: unfold ks sid add.assoc del: handle_all.simps)
qed

text \<open>
  C5. For a \<^verbatim>\<open>set\<close> or \<^verbatim>\<open>incr\<close> command naming the key \<open>k\<close>, in a world \<open>w\<close>:
  \<^item> when the key exists, the counter of the sandbox is left as it was;
  \<^item> when the key is new and the counter reads \<open>n\<close> with \<open>n + 1 \<le> keys_per_user\<close>, the
    counter reads \<open>n + 1\<close> afterwards;
  \<^item> when the key is new and \<open>n + 1\<close> exceeds \<open>keys_per_user\<close>, the reply has
    \<^verbatim>\<open>success\<close> false and \<^verbatim>\<open>reason\<close> "Too many keys", and the counter reads \<open>n\<close> again;
  \<^item> in particular, from a counter that reads 0, \<open>keys_per_user\<close> sets to distinct new
    keys all succeed, and the next set to a further new key fails in this way, the
    counter staying at \<open>keys_per_user\<close>.
\<close>

theorem key_quota:
  assumes "command_key command = Some k"
  shows
    "(redis w (join_hash [''sandboxes'', sandbox_id w, k]) \<noteq> None \<longrightarrow>
        redis (snd (handle_set env kpu command w)) (count_key (sandbox_id w)) =
          redis w (count_key (sandbox_id w))
      \<and> redis (snd (handle_incr env kpu command w)) (count_key (sandbox_id w)) =
          redis w (count_key (sandbox_id w)))
   \<and> (redis w (join_hash [''sandboxes'', sandbox_id w, k]) = None
      \<and> stored_int w (count_key (sandbox_id w)) = Some n \<and> n + 1 \<le> kpu \<longrightarrow>
        stored_int (snd (handle_set env kpu command w)) (count_key (sandbox_id w)) = Some (n + 1)
      \<and> stored_int (snd (handle_incr env kpu command w)) (count_key (sandbox_id w)) = Some (n + 1))
   \<and> (redis w (join_hash [''sandboxes'', sandbox_id w, k]) = None
      \<and> stored_int w (count_key (sandbox_id w)) = Some n \<and> kpu < n + 1
      \<and> validate_fields command \<longrightarrow>
        reply_field ''success'' (fst (handle_set env kpu command w)) = Some (PBool False)
      \<and> reply_field ''reason'' (fst (handle_set env kpu command w)) = Some (PStr ''Too many keys'')
      \<and> stored_int (snd (handle_set env kpu command w)) (count_key (sandbox_id w)) = Some n
      \<and> reply_field ''success'' (fst (handle_incr env kpu command w)) = Some (PBool False)
      \<and> reply_field ''reason'' (fst (handle_incr env kpu command w)) = Some (PStr ''Too many keys'')
      \<and> stored_int (snd (handle_incr env kpu command w)) (count_key (sandbox_id w)) = Some n)
   \<and> (list_all validate_fields (cmds @ [command]) \<and> list_all (dumps_ok env) cmds
      \<and> map command_key cmds = map Some ks \<and> distinct (ks @ [k])
      \<and> list_all (\<lambda>k. redis w (join_hash [''sandboxes'', sandbox_id w, k]) = None) (ks @ [k])
      \<and> stored_int w (count_key (sandbox_id w)) = Some 0 \<and> int (length cmds) = kpu \<longrightarrow>
        list_all (\<lambda>r. reply_field ''success'' r = Some (PBool True))
          (fst (handle_all (handle_set env kpu) cmds w))
      \<and> reply_field ''success''
          (fst (handle_set env kpu command (snd (handle_all (handle_set env kpu) cmds w)))) =
          Some (PBool False)
      \<and> reply_field ''reason''
          (fst (handle_set env kpu command (snd (handle_all (handle_set env kpu) cmds w)))) =
          Some (PStr ''Too many keys'')
      \<and> stored_int
          (snd (handle_set env kpu command (snd (handle_all (handle_set env kpu) cmds w))))
          (count_key (sandbox_id w)) = Some kpu)"
proof (intro conjI impI)
  assume "redis w (join_hash [''sandboxes'', sandbox_id w, k]) \<noteq> None"
  then show "redis (snd (handle_set env kpu command w)) (count_key (sandbox_id w)) =
      redis w (count_key (sandbox_id w))"
    and "redis (snd (handle_incr env kpu command w)) (count_key (sandbox_id w)) =
      redis w (count_key (sandbox_id w))"
    using assms by (simp_all add: handle_set_existing handle_incr_existing)
next
  assume "redis w (join_hash [''sandboxes'', sandbox_id w, k]) = None
      \<and> stored_int w (count_key (sandbox_id w)) = Some n \<and> n + 1 \<le> kpu"
  then show "stored_int (snd (handle_set env kpu command w)) (count_key (sandbox_id w)) = Some (n + 1)"
    and "stored_int (snd (handle_incr env kpu command w)) (count_key (sandbox_id w)) = Some (n + 1)"
    using assms by (simp_all add: handle_set_new_counter handle_incr_new_counter)
next
  assume a: "redis w (join_hash [''sandboxes'', sandbox_id w, k]) = None
      \<and> stored_int w (count_key (sandbox_id w)) = Some n \<and> kpu < n + 1
      \<and> validate_fields command"
  then have f: "redis w (join_hash [''sandboxes'', sandbox_id w, k]) = None"
    and c: "stored_int w (count_key (sandbox_id w)) = Some n" and full: "kpu < n + 1"
    and v: "validate_fields command"
    by simp_all
  note s = handle_set_full [OF assms f c full v] and i = handle_incr_full [OF assms f c full v]
  show "reply_field ''success'' (fst (handle_set env kpu command w)) = Some (PBool False)"
    by (rule s(1))
  show "reply_field ''reason'' (fst (handle_set env kpu command w)) = Some (PStr ''Too many keys'')"
    by (rule s(2))
  show "stored_int (snd (handle_set env kpu command w)) (count_key (sandbox_id w)) = Some n"
    by (rule s(3))
  show "reply_field ''success'' (fst (handle_incr env kpu command w)) = Some (PBool False)"
    by (rule i(1))
  show "reply_field ''reason'' (fst (handle_incr env kpu command w)) = Some (PStr ''Too many keys'')"
    by (rule i(2))
  show "stored_int (snd (handle_incr env kpu command w)) (count_key (sandbox_id w)) = Some n"
    by (rule i(3))
next
  assume a: "list_all validate_fields (cmds @ [command]) \<and> list_all (dumps_ok env) cmds
      \<and> map command_key cmds = map Some ks \<and> distinct (ks @ [k])
      \<and> list_all (\<lambda>k. redis w (join_hash [''sandboxes'', sandbox_id w, k]) = None) (ks @ [k])
      \<and> stored_int w (count_key (sandbox_id w)) = Some 0 \<and> int (length cmds) = kpu"
  let ?w' = "snd (handle_all (handle_set env kpu) cmds w)"
  from a have p1: "list_all validate_fields cmds" and v: "validate_fields command"
    and p2: "list_all (dumps_ok env) cmds" and p3: "map command_key cmds = map Some ks"
    and p4: "distinct ks" and notin: "k \<notin> set ks"
    and p5: "list_all (\<lambda>k. redis w (join_hash [''sandboxes'', sandbox_id w, k]) = None) ks"
    and fresh: "redis w (join_hash [''sandboxes'', sandbox_id w, k]) = None"
    and p6: "stored_int w (count_key (sandbox_id w)) = Some 0"
    and len: "int (length cmds) = kpu"
    by simp_all
  have p7: "0 + int (length cmds) \<le> kpu" using len by simp
  note run = sets_fill_quota [OF p1 p2 p3 p4 p5 p6 p7]
  from run have sid: "sandbox_id ?w' = sandbox_id w" by blast
  from run have cnt: "stored_int ?w' (count_key (sandbox_id ?w')) = Some kpu"
    using len by (simp add: sid)
  from run notin fresh have f': "redis ?w' (join_hash [''sandboxes'', sandbox_id ?w', k]) = None"
    by (simp add: sid)
  have full: "kpu < kpu + 1" by simp
  note last = handle_set_full [OF assms f' cnt full v]
  from run show "list_all (\<lambda>r. reply_field ''success'' r = Some (PBool True))
          (fst (handle_all (handle_set env kpu) cmds w))"
    by blast
  show "reply_field ''success'' (fst (handle_set env kpu command ?w')) = Some (PBool False)"
    by (rule last(1))
  show "reply_field ''reason'' (fst (handle_set env kpu command ?w')) =
          Some (PStr ''Too many keys'')"
    by (rule last(2))
  show "stored_int (snd (handle_set env kpu command ?w')) (count_key (sandbox_id w)) = Some kpu"
    using last(3) by (simp add: sid)
qed

theorem key_quota_witness:
  "list_all (\<lambda>r. reply_field ''success'' r = Some (PBool True))
     (fst (handle_all (handle_set example_env 2) [example_set ''a'' 1, example_set ''b'' 2]
        example_world))
   \<and> reply_field ''success''
       (fst (handle_set example_env 2 (example_set ''c'' 3)
          (snd (handle_all (handle_set example_env 2) [example_set ''a'' 1, example_set ''b'' 2]
             example_world)))) = Some (PBool False)
   \<and> reply_field ''reason''
       (fst (handle_set example_env 2 (example_set ''c'' 3)
          (snd (handle_all (handle_set example_env 2) [example_set ''a'' 1, example_set ''b'' 2]
             example_world)))) = Some (PStr ''Too many keys'')
   \<and> stored_int
       (snd (handle_set example_env 2 (example_set ''c'' 3)
          (snd (handle_all (handle_set example_env 2) [example_set ''a'' 1, example_set ''b'' 2]
             example_world)))) (count_key ''sandbox1'') = Some 2
   \<and> redis (snd (handle_set example_env 2 (example_set ''a'' 5)
        (example_world\<lparr>redis := [join_hash [''sandboxes'', ''sandbox1'', ''a''] \<mapsto> ''1'',
                                  count_key ''sandbox1'' \<mapsto> ''1'']\<rparr>)))
       (count_key ''sandbox1'') = Some ''1''"
proof -
  let ?cmds = "[example_set ''a'' 1, example_set ''b'' 2]"
  let ?c = "example_set ''c'' 3"
  have sid: "sandbox_id example_world = ''sandbox1''" by (simp add: example_world_def)
  have k: "command_key ?c = Some ''c''" by (simp add: command_key_def example_set_def)
  have h: "list_all validate_fields (?cmds @ [?c]) \<and> list_all (dumps_ok example_env) ?cmds
      \<and> map command_key ?cmds = map Some [''a'', ''b''] \<and> distinct ([''a'', ''b''] @ [''c''])
      \<and> list_all (\<lambda>k. redis example_world
            (join_hash [''sandboxes'', sandbox_id example_world, k]) = None) ([''a'', ''b''] @ [''c''])
      \<and> stored_int example_world (count_key (sandbox_id example_world)) = Some 0
      \<and> int (length ?cmds) = 2"
    by (simp add: validate_fields_def example_set_def dumps_ok_def example_env_def
          example_dumps_def command_get_def command_key_def example_world_def stored_int_def)
  note th0 = key_quota [OF k, of example_world example_env 2 _ ?cmds "[''a'', ''b'']"]
  from th0 h have d: "list_all (\<lambda>r. reply_field ''success'' r = Some (PBool True))
          (fst (handle_all (handle_set example_env 2) ?cmds example_world))
      \<and> reply_field ''success''
          (fst (handle_set example_env 2 ?c (snd (handle_all (handle_set example_env 2) ?cmds example_world)))) =
          Some (PBool False)
      \<and> reply_field ''reason''
          (fst (handle_set example_env 2 ?c (snd (handle_all (handle_set example_env 2) ?cmds example_world)))) =
          Some (PStr ''Too many keys'')
      \<and> stored_int
          (snd (handle_set example_env 2 ?c (snd (handle_all (handle_set example_env 2) ?cmds example_world))))
          (count_key (sandbox_id example_world)) = Some 2"
    by blast
  let ?w = "example_world\<lparr>redis := [join_hash [''sandboxes'', ''sandbox1'', ''a''] \<mapsto> ''1'',
                                  count_key ''sandbox1'' \<mapsto> ''1'']\<rparr>"
  have ka: "command_key (example_set ''a'' 5) = Some ''a''"
    by (simp add: command_key_def example_set_def)
  have ex: "redis ?w (join_hash [''sandboxes'', sandbox_id ?w, ''a'']) \<noteq> None"
    by (simp add: example_world_def)
  from key_quota [OF ka, of ?w example_env 2] ex
  have "redis (snd (handle_set example_env 2 (example_set ''a'' 5) ?w)) (count_key (sandbox_id ?w)) =
        redis ?w (count_key (sandbox_id ?w))"
    by blast
  then have e: "redis (snd (handle_set example_env 2 (example_set ''a'' 5) ?w))
        (count_key ''sandbox1'') = Some ''1''"
    by (simp add: example_world_def)
  from d e show ?thesis by (simp add: sid)
qed

section \<open>The key/value resource: values\<close>

lemma reply_field_return_reply:
  assumes "k \<noteq> ''cmd''" "k \<noteq> ''reply''" "k \<noteq> ''cmd_id''"
  shows "reply_field k (fst (return_reply (reply env command kwargs w))) =
     (if command ''cmd'' \<noteq> None \<and> command ''cmd_id'' \<noteq> None then kwargs k else None)"
proof (cases "command ''cmd''")
  case None
  then show ?thesis by (simp add: return_reply_def reply_def getitem_def)
next
  case (Some c)
  show ?thesis
  proof (cases "command ''cmd_id''")
    case None
    with Some show ?thesis by (simp add: return_reply_def reply_def getitem_def)
  next
    case (Some i)
    with \<open>command ''cmd'' = Some c\<close> assms show ?thesis
      by (simp add: return_reply_def reply_def getitem_def SandboxCommand_def
            process_fields_def setdefault_def)
  qed
qed

lemma check_keys_sandbox_id:
  "sandbox_id (snd (check_keys kpu sid key w)) = sandbox_id w"
  by (auto simp: check_keys_def redis_incr_def split: option.splits)

lemma check_keys_other_key:
  "key' \<noteq> count_key sid \<Longrightarrow> redis (snd (check_keys kpu sid key w)) key' = redis w key'"
  by (auto simp: check_keys_def redis_incr_def split: option.splits)

lemma handle_set_success:
  assumes "command_key command = Some k"
    and "reply_field ''success'' (fst (handle_set env kpu command w)) = Some (PBool True)"
    and "json_dumps env (command_get command ''value'' PNone) = Inr s"
  shows "redis (snd (handle_set env kpu command w)) (join_hash [''sandboxes'', sandbox_id w, k]) =
           Some s"
    and "sandbox_id (snd (handle_set env kpu command w)) = sandbox_id w"
proof -
  let ?key = "join_hash [''sandboxes'', sandbox_id w, k]"
  obtain x w1 where ck: "check_keys kpu (sandbox_id w) ?key w = (x, w1)"
    by (cases "check_keys kpu (sandbox_id w) ?key w") auto
  have sid: "sandbox_id w1 = sandbox_id w"
    using check_keys_sandbox_id [of kpu "sandbox_id w" ?key w] ck by simp
  have passed: "x = Inr True"
  proof (cases x)
    case (Inl e)
    then show ?thesis using assms(2) by (simp add: handle_set_key [OF assms(1)] ck)
  next
    case (Inr b)
    show ?thesis
    proof (cases b)
      case True
      with Inr show ?thesis by simp
    next
      case False
      with Inr assms(2) show ?thesis
        by (simp add: handle_set_key [OF assms(1)] ck too_many_keys_def
              reply_field_return_reply split: if_splits)
    qed
  qed
  show "redis (snd (handle_set env kpu command w)) ?key = Some s"
    by (simp add: handle_set_key [OF assms(1)] ck passed assms(3) return_reply_world
          redis_set_def)
  show "sandbox_id (snd (handle_set env kpu command w)) = sandbox_id w"
    by (simp add: handle_set_key [OF assms(1)] ck passed assms(3) return_reply_world
          redis_set_def sid)
qed

lemma handle_get_key:
  assumes "command_key command = Some k"
  shows "handle_get env command w =
     (case redis w (join_hash [''sandboxes'', sandbox_id w, k]) of
        None \<Rightarrow>
          return_reply (reply env command [''success'' \<mapsto> PBool True, ''value'' \<mapsto> PNone] w)
      | Some raw_value \<Rightarrow>
          (case json_loads env raw_value of
             Inl e \<Rightarrow> (Some (Raised e), w)
           | Inr v \<Rightarrow>
               return_reply
                 (reply env command [''success'' \<mapsto> PBool True, ''value'' \<mapsto> v] w)))"
  using command_key_Some [OF assms]
  by (simp add: handle_get_def sandboxed_key_def command_get_def redis_get_def)

lemma handle_get_missing:
  assumes "command_key command = Some k" and "validate_fields command"
    and "redis w (join_hash [''sandboxes'', sandbox_id w, k]) = None"
  shows "reply_field ''value'' (fst (handle_get env command w)) = Some PNone"
    and "reply_field ''success'' (fst (handle_get env command w)) = Some (PBool True)"
  using assms(3)
  by (simp_all add: handle_get_key [OF assms(1)] return_reply_valid [OF assms(2)])

lemma handle_get_stored:
  assumes "command_key command = Some k" and "validate_fields command"
    and "redis w (join_hash [''sandboxes'', sandbox_id w, k]) = Some s"
    and "json_loads env s = Inr v"
  shows "reply_field ''value'' (fst (handle_get env command w)) = Some v"
    and "reply_field ''success'' (fst (handle_get env command w)) = Some (PBool True)"
  using assms(3,4)
  by (simp_all add: handle_get_key [OF assms(1)] return_reply_valid [OF assms(2)])

lemma handle_delete_removes:
  assumes "command_key command = Some k"
  shows "redis (snd (handle_delete env command w)) (join_hash [''sandboxes'', sandbox_id w, k]) = None"
    and "sandbox_id (snd (handle_delete env command w)) = sandbox_id w"
proof -
  let ?key = "join_hash [''sandboxes'', sandbox_id w, k]"
  let ?w1 = "w\<lparr>redis := (redis w)(?key := None)\<rparr>"
  obtain x w2 where i: "redis_incr (count_key (sandbox_id w)) (PInt (- 1)) ?w1 = (x, w2)"
    by (cases "redis_incr (count_key (sandbox_id w)) (PInt (- 1)) ?w1") auto
  have "redis (snd (redis_incr (count_key (sandbox_id w)) (PInt (- 1)) ?w1)) ?key = redis ?w1 ?key"
    by (rule redis_incr_world) simp
  then have gone: "redis w2 ?key = None" using i by simp
  have "sandbox_id (snd (redis_incr (count_key (sandbox_id w)) (PInt (- 1)) ?w1)) = sandbox_id ?w1"
    by (rule redis_incr_world)
  then have sid: "sandbox_id w2 = sandbox_id w" using i by simp
  have unfold: "handle_delete env command w =
     (if redis w ?key \<noteq> None
      then (case x of
              Inl e \<Rightarrow> (Some (Raised e), w2)
            | Inr m \<Rightarrow>
                return_reply
                  (reply env command
                     [''success'' \<mapsto> PBool True, ''existed'' \<mapsto> PBool True] w2))
      else return_reply
             (reply env command
                [''success'' \<mapsto> PBool True, ''existed'' \<mapsto> PBool False] w))"
    using command_key_Some [OF assms]
    by (simp add: handle_delete_def sandboxed_key_def command_get_def redis_delete_def i)
  show "redis (snd (handle_delete env command w)) ?key = None"
    by (simp add: unfold return_reply_world gone split: sum.splits)
  show "sandbox_id (snd (handle_delete env command w)) = sandbox_id w"
    by (simp add: unfold return_reply_world sid split: sum.splits)
qed

text \<open>
  C6. A \<^verbatim>\<open>get\<close> command for the key \<open>k\<close>, with its mandatory fields:
  \<^item> after a \<^verbatim>\<open>set\<close> of the same key that was accepted (its reply has \<^verbatim>\<open>success\<close> true),
    of a value that the JSON codec encodes and decodes back to itself, the reply carries
    that value;
  \<^item> for a key that is not in the store, the reply carries null;
  \<^item> after a \<^verbatim>\<open>delete\<close> of the same key, the reply carries null.
  A value the command does not give is null (\<^verbatim>\<open>command.get('value')\<close>).
\<close>

theorem set_then_get_round_trip:
  assumes "command_key get_command = Some k" and "validate_fields get_command"
  shows
    "(command_key set_command = Some k
      \<and> reply_field ''success'' (fst (handle_set env kpu set_command w)) = Some (PBool True)
      \<and> json_dumps env (command_get set_command ''value'' PNone) = Inr s
      \<and> json_loads env s = Inr (command_get set_command ''value'' PNone) \<longrightarrow>
        reply_field ''value''
          (fst (handle_get env get_command (snd (handle_set env kpu set_command w)))) =
          Some (command_get set_command ''value'' PNone)
      \<and> reply_field ''success''
          (fst (handle_get env get_command (snd (handle_set env kpu set_command w)))) =
          Some (PBool True))
   \<and> (redis w (join_hash [''sandboxes'', sandbox_id w, k]) = None \<longrightarrow>
        reply_field ''value'' (fst (handle_get env get_command w)) = Some PNone
      \<and> reply_field ''success'' (fst (handle_get env get_command w)) = Some (PBool True))
   \<and> (command_key delete_command = Some k \<longrightarrow>
        reply_field ''value''
          (fst (handle_get env get_command (snd (handle_delete env delete_command w)))) =
          Some PNone
      \<and> reply_field ''success''
          (fst (handle_get env get_command (snd (handle_delete env delete_command w)))) =
          Some (PBool True))"
proof (intro conjI impI)
  assume a: "command_key set_command = Some k
      \<and> reply_field ''success'' (fst (handle_set env kpu set_command w)) = Some (PBool True)
      \<and> json_dumps env (command_get set_command ''value'' PNone) = Inr s
      \<and> json_loads env s = Inr (command_get set_command ''value'' PNone)"
  let ?w' = "snd (handle_set env kpu set_command w)"
  from a have ks: "command_key set_command = Some k"
    and ok: "reply_field ''success'' (fst (handle_set env kpu set_command w)) = Some (PBool True)"
    and d: "json_dumps env (command_get set_command ''value'' PNone) = Inr s"
    and l: "json_loads env s = Inr (command_get set_command ''value'' PNone)"
    by simp_all
  note st = handle_set_success [OF ks ok d]
  have stored: "redis ?w' (join_hash [''sandboxes'', sandbox_id ?w', k]) = Some s"
    using st by simp
  note g = handle_get_stored [OF assms stored l]
  show "reply_field ''value'' (fst (handle_get env get_command ?w')) =
          Some (command_get set_command ''value'' PNone)"
    by (rule g(1))
  show "reply_field ''success'' (fst (handle_get env get_command ?w')) = Some (PBool True)"
    by (rule g(2))
next
  assume "redis w (join_hash [''sandboxes'', sandbox_id w, k]) = None"
  note g = handle_get_missing [OF assms this]
  show "reply_field ''value'' (fst (handle_get env get_command w)) = Some PNone"
    by (rule g(1))
  show "reply_field ''success'' (fst (handle_get env get_command w)) = Some (PBool True)"
    by (rule g(2))
next
  assume kd: "command_key delete_command = Some k"
  let ?w' = "snd (handle_delete env delete_command w)"
  have gone: "redis ?w' (join_hash [''sandboxes'', sandbox_id ?w', k]) = None"
    using handle_delete_removes [OF kd, of env w] by simp
  note g = handle_get_missing [OF assms gone]
  show "reply_field ''value'' (fst (handle_get env get_command ?w')) = Some PNone"
    by (rule g(1))
  show "reply_field ''success'' (fst (handle_get env get_command ?w')) = Some (PBool True)"
    by (rule g(2))
qed

lemma show_int_7: "show_int 7 = ''7''"
  by code_simp

lemma parse_int_7: "parse_int ''7'' = Some 7"
  using parse_int_show_int [of 7] by (simp add: show_int_7)

theorem set_then_get_round_trip_witness:
  "reply_field ''value''
     (fst (handle_get example_env (example_op ''get'' ''a'')
        (snd (handle_set example_env 100 (example_set ''a'' 7) example_world)))) = Some (PInt 7)
   \<and> reply_field ''value'' (fst (handle_get example_env (example_op ''get'' ''a'') example_world)) =
       Some PNone
   \<and> reply_field ''value''
     (fst (handle_get example_env (example_op ''get'' ''a'')
        (snd (handle_delete example_env (example_op ''delete'' ''a'')
           (snd (handle_set example_env 100 (example_set ''a'' 7) example_world)))))) = Some PNone"
proof -
  let ?get = "example_op ''get'' ''a''"
  let ?set = "example_set ''a'' 7"
  let ?del = "example_op ''delete'' ''a''"
  let ?w1 = "snd (handle_set example_env 100 ?set example_world)"
  have kg: "command_key ?get = Some ''a''" and vg: "validate_fields ?get"
    and kd: "command_key ?del = Some ''a''"
    by (simp_all add: command_key_def validate_fields_def example_op_def)
  have ks: "command_key ?set = Some ''a''" and vs: "validate_fields ?set"
    by (simp_all add: command_key_def validate_fields_def example_set_def)
  have val: "command_get ?set ''value'' PNone = PInt 7"
    by (simp add: command_get_def example_set_def)
  have d: "json_dumps example_env (command_get ?set ''value'' PNone) = Inr ''7''"
    by (simp add: val example_env_def example_dumps_def show_int_7)
  have l: "json_loads example_env ''7'' = Inr (command_get ?set ''value'' PNone)"
    by (simp add: val example_env_def example_loads_def parse_int_7)
  have fresh: "redis example_world (join_hash [''sandboxes'', sandbox_id example_world, ''a'']) = None"
    by (simp add: example_world_def)
  have cnt: "stored_int example_world (count_key (sandbox_id example_world)) = Some 0"
    by (simp add: example_world_def stored_int_def)
  have room: "(0::int) + 1 \<le> 100" by simp
  have dok: "dumps_ok example_env ?set" by (simp add: dumps_ok_def d)
  have ok: "reply_field ''success'' (fst (handle_set example_env 100 ?set example_world)) =
      Some (PBool True)"
    by (rule handle_set_new_ok (1) [OF ks fresh cnt room vs dok])
  note th0 = set_then_get_round_trip [OF kg vg, of ?set example_env 100 example_world "''7''" ?del]
  from th0 ks ok d l have a: "reply_field ''value'' (fst (handle_get example_env ?get ?w1)) =
      Some (command_get ?set ''value'' PNone)"
    by blast
  from th0 fresh have b: "reply_field ''value'' (fst (handle_get example_env ?get example_world)) =
      Some PNone"
    by blast
  from set_then_get_round_trip [OF kg vg, of ?set example_env 100 ?w1 "''7''" ?del] kd
  have c: "reply_field ''value''
      (fst (handle_get example_env ?get (snd (handle_delete example_env ?del ?w1)))) = Some PNone"
    by blast
  from a b c show ?thesis by (simp add: val)
qed

section \<open>The key/value resource: incr\<close>





section \<open>The end of a run\<close>

subsection \<open>MultiDeferred in its two states\<close>

lemma md_waiting_iff:
  "md_waiting m = (\<exists>j. m = \<lparr>md_result = None, md_deferreds = [0..<j],
                             md_issued = replicate j [], md_calls = []\<rparr>)"
proof
  assume "md_waiting m"
  then show "\<exists>j. m = \<lparr>md_result = None, md_deferreds = [0..<j],
                             md_issued = replicate j [], md_calls = []\<rparr>"
    unfolding md_waiting_def by (rule exI)
next
  assume "\<exists>j. m = \<lparr>md_result = None, md_deferreds = [0..<j],
                             md_issued = replicate j [], md_calls = []\<rparr>"
  then obtain j where "m = \<lparr>md_result = None, md_deferreds = [0..<j],
                             md_issued = replicate j [], md_calls = []\<rparr>" ..
  then show "md_waiting m" by (simp add: md_waiting_def)
qed

lemma md_delivered_iff:
  "md_delivered r m = (\<exists>j. m = \<lparr>md_result = Some r, md_deferreds = [],
                             md_issued = replicate j [r], md_calls = [r]\<rparr>)"
proof
  assume "md_delivered r m"
  then show "\<exists>j. m = \<lparr>md_result = Some r, md_deferreds = [],
                             md_issued = replicate j [r], md_calls = [r]\<rparr>"
    unfolding md_delivered_def by (rule exI)
next
  assume "\<exists>j. m = \<lparr>md_result = Some r, md_deferreds = [],
                             md_issued = replicate j [r], md_calls = [r]\<rparr>"
  then obtain j where "m = \<lparr>md_result = Some r, md_deferreds = [],
                             md_issued = replicate j [r], md_calls = [r]\<rparr>" ..
  then show "md_delivered r m" by (simp add: md_delivered_def)
qed

lemma md_waiting_init: "md_waiting MultiDeferred_init"
  by (simp add: md_waiting_def MultiDeferred_init_def)

lemma md_waiting_get: "md_waiting m \<Longrightarrow> md_waiting (snd (MultiDeferred_get m))"
proof -
  assume "md_waiting m"
  then obtain j where m: "m = \<lparr>md_result = None, md_deferreds = [0..<j],
           md_issued = replicate j [], md_calls = []\<rparr>"
    by (auto simp: md_waiting_iff)
  have "snd (MultiDeferred_get m) = \<lparr>md_result = None, md_deferreds = [0..<Suc j],
           md_issued = replicate (Suc j) [], md_calls = []\<rparr>"
    by (simp add: m MultiDeferred_get_def replicate_append_same)
  then show ?thesis unfolding md_waiting_iff by (rule exI)
qed

lemma md_delivered_get: "md_delivered r m \<Longrightarrow> md_delivered r (snd (MultiDeferred_get m))"
proof -
  assume "md_delivered r m"
  then obtain j where m: "m = \<lparr>md_result = Some r, md_deferreds = [],
           md_issued = replicate j [r], md_calls = [r]\<rparr>"
    by (auto simp: md_delivered_iff)
  have "snd (MultiDeferred_get m) = \<lparr>md_result = Some r, md_deferreds = [],
           md_issued = replicate (Suc j) [r], md_calls = [r]\<rparr>"
    by (simp add: m MultiDeferred_get_def replicate_append_same)
  then show ?thesis unfolding md_delivered_iff by (rule exI)
qed

lemma md_waiting_callback: "md_waiting m \<Longrightarrow> md_delivered r (MultiDeferred_callback r m)"
proof -
  assume "md_waiting m"
  then obtain j where m: "m = \<lparr>md_result = None, md_deferreds = [0..<j],
           md_issued = replicate j [], md_calls = []\<rparr>"
    by (auto simp: md_waiting_iff)
  have "fold (Deferred_callback r) [0..<j] (replicate j []) =
        replicate j [r] @ drop j (replicate j [])"
    by (rule fold_Deferred_callback) simp_all
  then have f: "fold (Deferred_callback r) [0..<j] (replicate j []) = replicate j [r]"
    by simp
  have "MultiDeferred_callback r m = \<lparr>md_result = Some r, md_deferreds = [],
           md_issued = replicate j [r], md_calls = [r]\<rparr>"
    by (simp add: m MultiDeferred_callback_def f)
  then show ?thesis unfolding md_delivered_iff by (rule exI)
qed

lemma md_waiting_facts:
  assumes "md_waiting m"
  shows "md_calls m = []" "md_result m = None" "\<not> MultiDeferred_fired m"
    "list_all (\<lambda>x. x = []) (md_issued m)"
proof -
  from assms obtain j where m: "m = \<lparr>md_result = None, md_deferreds = [0..<j],
           md_issued = replicate j [], md_calls = []\<rparr>"
    by (auto simp: md_waiting_iff)
  show "md_calls m = []" "md_result m = None" "\<not> MultiDeferred_fired m"
    "list_all (\<lambda>x. x = []) (md_issued m)"
    by (simp_all add: m MultiDeferred_fired_def list_all_iff)
qed

lemma md_delivered_facts:
  assumes "md_delivered r m"
  shows "md_calls m = [r]" "md_result m = Some r" "MultiDeferred_fired m"
    "list_all (\<lambda>x. x = [r]) (md_issued m)"
proof -
  from assms obtain j where m: "m = \<lparr>md_result = Some r, md_deferreds = [],
           md_issued = replicate j [r], md_calls = [r]\<rparr>"
    by (auto simp: md_delivered_iff)
  show "md_calls m = [r]" "md_result m = Some r" "MultiDeferred_fired m"
    "list_all (\<lambda>x. x = [r]) (md_issued m)"
    by (simp_all add: m MultiDeferred_fired_def list_all_iff)
qed

subsection \<open>What each event does to the pending requests and to done\<close>

lemma dispatch_line_appends:
  "\<exists>t. pending_requests (dispatch_line env resources line p) = pending_requests p @ [t]"
  by (simp add: dispatch_line_def split_def Let_def)

lemma fold_dispatch_line_appends:
  "\<exists>ts. pending_requests (fold (dispatch_line env resources) ls p) = pending_requests p @ ts"
proof (induction ls arbitrary: p)
  case Nil
  show ?case by simp
next
  case (Cons l ls)
  obtain t where t: "pending_requests (dispatch_line env resources l p) = pending_requests p @ [t]"
    using dispatch_line_appends by blast
  obtain ts where "pending_requests (fold (dispatch_line env resources) ls
      (dispatch_line env resources l p)) = pending_requests (dispatch_line env resources l p) @ ts"
    using Cons.IH by blast
  then show ?case by (simp add: t)
qed

lemma process_data_fields:
  "pending_requests (snd (process_data env carry data p)) = pending_requests p"
  "p_done (snd (process_data env carry data p)) = p_done p"
  "requests_done (snd (process_data env carry data p)) = requests_done p"
  by (cases "recv_bytes p + int (length data) \<le> recv_limit p";
      simp add: process_data_within process_data_over)+

lemma outReceived_done:
  "p_done (outReceived env resources data p) = p_done p"
  "requests_done (outReceived env resources data p) = requests_done p"
  by (simp_all add: outReceived_def split_def Let_def fold_dispatch_line_fields
        process_data_fields)

lemma outReceived_appends:
  "\<exists>ts. pending_requests (outReceived env resources data p) = pending_requests p @ ts"
  using fold_dispatch_line_appends [of env resources
      "butlast (fst (process_data env (chunk p) data p))" "snd (process_data env (chunk p) data p)"]
  by (simp add: outReceived_def split_def Let_def process_data_fields)

lemma errReceived_done:
  "p_done (errReceived env data p) = p_done p"
  "requests_done (errReceived env data p) = requests_done p"
  "pending_requests (errReceived env data p) = pending_requests p"
  by (simp_all add: errReceived_def split_def Let_def fold_log_line process_data_fields)

lemma outConnectionLost_done:
  "p_done (outConnectionLost env resources p) = p_done p"
  "requests_done (outConnectionLost env resources p) = requests_done p"
  by (simp_all add: outConnectionLost_def dispatch_line_fields)

lemma outConnectionLost_appends:
  "\<exists>ts. pending_requests (outConnectionLost env resources p) = pending_requests p @ ts"
proof (cases "chunk p = []")
  case True
  then show ?thesis by (simp add: outConnectionLost_def)
next
  case False
  obtain t where "pending_requests (dispatch_line env resources (chunk p) (p\<lparr>chunk := []\<rparr>)) =
      pending_requests (p\<lparr>chunk := []\<rparr>) @ [t]"
    using dispatch_line_appends by blast
  with False show ?thesis by (simp add: outConnectionLost_def)
qed

lemma errConnectionLost_done:
  "p_done (errConnectionLost p) = p_done p"
  "requests_done (errConnectionLost p) = requests_done p"
  "pending_requests (errConnectionLost p) = pending_requests p"
  by (simp_all add: errConnectionLost_def log_line_def)

lemma requests_settled_cong:
  "pending_requests p' = pending_requests p \<Longrightarrow> requests_settled n p' = requests_settled n p"
  by (simp add: requests_settled_def)

lemma requests_settled_append:
  "pending_requests p' = pending_requests p @ ts \<Longrightarrow> n \<le> length (pending_requests p) \<Longrightarrow>
   requests_settled n p' = requests_settled n p"
  by (simp add: requests_settled_def)

lemma requests_done_callbacks_fields:
  "pending_requests (requests_done_callbacks n r p) = pending_requests p"
  "requests_done (requests_done_callbacks n r p) = requests_done p"
  "p_done (requests_done_callbacks n r p) = MultiDeferred_callback r (p_done p)"
  by (simp_all add: requests_done_callbacks_def)

subsection \<open>Before the process ends\<close>

lemma resource_fired_running:
  assumes "requests_done p = None"
  shows "requests_done (resource_fired env i result p) = None"
    and "p_done (resource_fired env i result p) = p_done p"
  using assms
  by (simp_all add: resource_fired_def split_def Let_def split: dispatch.splits)

lemma protocol_step_running:
  assumes "running p" and "\<not> is_ProcessEnded e"
  shows "running (protocol_step env resources e p)"
proof -
  from assms(1) have rd: "requests_done p = None" and w: "md_waiting (p_done p)"
    by (simp_all add: running_def)
  show ?thesis
  proof (cases e)
    case ConnectionMade
    then show ?thesis using rd w by (simp add: running_def connectionMade_def)
  next
    case (OutReceived data)
    then show ?thesis using rd w by (simp add: running_def outReceived_done)
  next
    case (ErrReceived data)
    then show ?thesis using rd w by (simp add: running_def errReceived_done)
  next
    case OutConnectionLost
    then show ?thesis using rd w by (simp add: running_def outConnectionLost_done)
  next
    case ErrConnectionLost
    then show ?thesis using rd w by (simp add: running_def errConnectionLost_done)
  next
    case (ResourceFired i result)
    then show ?thesis using rd w by (simp add: running_def resource_fired_running)
  next
    case DoneRequested
    then show ?thesis using rd md_waiting_get [OF w]
      by (simp add: running_def SandboxProtocol_done_def split_def Let_def)
  next
    case TimeoutExpired
    then show ?thesis using rd w by (simp add: running_def)
  next
    case (ProcessEnded reason)
    then show ?thesis using assms(2) by simp
  qed
qed

lemma protocol_run_running:
  assumes "running p" and "list_all (\<lambda>e. \<not> is_ProcessEnded e) events"
  shows "running (protocol_run env resources events p)"
  using assms unfolding protocol_run_def
  by (induction events arbitrary: p) (simp_all add: protocol_step_running)

lemma init_running: "running (SandboxProtocol_init sid limit w)"
  by (simp add: running_def SandboxProtocol_init_def md_waiting_init)

subsection \<open>The process ends\<close>

lemma processEnded_draining:
  assumes "running p"
  shows "draining (length (pending_requests p)) (exit_result reason) (processEnded reason p)"
proof -
  from assms have rd: "requests_done p = None" and w: "md_waiting (p_done p)"
    by (simp_all add: running_def)
  let ?n = "length (pending_requests p)"
  let ?r = "exit_result reason"
  let ?p1 = "if timeout_active p then p\<lparr>timeout_active := False\<rparr> else p"
  let ?p2 = "if \<not> MultiDeferred_fired (p_started ?p1)
             then ?p1\<lparr>p_started := MultiDeferred_callback (StartFailure ''Process failed to start.'')
                                      (p_started ?p1)\<rparr>
             else ?p1"
  let ?p3 = "?p2\<lparr>requests_done := Some (?n, ?r)\<rparr>"
  have pend: "pending_requests ?p3 = pending_requests p" by simp
  have pd: "p_done ?p3 = p_done p" by simp
  have rd3: "requests_done ?p3 = Some (?n, ?r)" by simp
  have unfold: "processEnded reason p =
      (if requests_settled ?n ?p3 then requests_done_callbacks ?n ?r ?p3 else ?p3)"
    by (simp add: processEnded_def Let_def)
  show ?thesis
  proof (cases "requests_settled ?n ?p3")
    case True
    have "requests_settled ?n (requests_done_callbacks ?n ?r ?p3)"
      using True by (simp add: requests_settled_def requests_done_callbacks_fields)
    moreover have "md_delivered ?r (p_done (requests_done_callbacks ?n ?r ?p3))"
      using md_waiting_callback [OF w] by (simp add: requests_done_callbacks_fields)
    ultimately show ?thesis
      unfolding unfold using True
      by (simp add: draining_def requests_done_callbacks_fields)
  next
    case False
    then show ?thesis
      unfolding unfold using w by (simp add: draining_def)
  qed
qed

subsection \<open>After the process ended\<close>

lemma draining_appends:
  assumes "draining n r p"
    and "pending_requests p' = pending_requests p @ ts"
    and "p_done p' = p_done p" and "requests_done p' = requests_done p"
  shows "draining n r p'"
proof -
  from assms(1) have n: "n \<le> length (pending_requests p)" by (simp add: draining_def)
  have "requests_settled n p' = requests_settled n p"
    using assms(2) n by (rule requests_settled_append)
  with assms show ?thesis by (simp add: draining_def)
qed

lemma suspended_not_settled:
  assumes "i < n" and "n \<le> length (pending_requests p)"
    and "task_dispatch (pending_requests p ! i) = Suspended a b c d"
  shows "\<not> requests_settled n p"
proof
  assume "requests_settled n p"
  then have all: "\<forall>t \<in> set (take n (pending_requests p)). settled t"
    by (simp add: requests_settled_def list_all_iff)
  have "take n (pending_requests p) ! i = pending_requests p ! i"
    using assms(1) by simp
  moreover have "i < length (take n (pending_requests p))"
    using assms(1,2) by simp
  ultimately have "pending_requests p ! i \<in> set (take n (pending_requests p))"
    by (metis nth_mem)
  with all have "settled (pending_requests p ! i)" by blast
  with assms(3) show False by simp
qed

lemma resource_fired_draining:
  assumes "draining n r p"
  shows "draining n r (resource_fired env i result p)"
proof (cases "i < length (pending_requests p)")
  case False
  then show ?thesis using assms by (simp add: resource_fired_def)
next
  case len: True
  show ?thesis
  proof (cases "task_dispatch (pending_requests p ! i)")
    case (Settled out)
    then show ?thesis using assms len by (simp add: resource_fired_def)
  next
    case (Suspended a b c d)
    from assms have rd: "requests_done p = Some (n, r)"
      and n: "n \<le> length (pending_requests p)"
      and st: "if requests_settled n p then md_delivered r (p_done p) else md_waiting (p_done p)"
      by (simp_all add: draining_def)
    let ?out = "fst (dispatch_resume env a b c d result (wld p))"
    let ?w1 = "snd (dispatch_resume env a b c d result (wld p))"
    let ?ts = "(pending_requests p)[i := (pending_requests p ! i)\<lparr>task_dispatch := Settled ?out\<rparr>]"
    let ?p1 = "p\<lparr>wld := ?w1, pending_requests := ?ts\<rparr>"
    have unfold: "resource_fired env i result p =
        (if i < n \<and> requests_settled n ?p1 then requests_done_callbacks n r ?p1 else ?p1)"
      using len Suspended rd by (simp add: resource_fired_def split_def Let_def)
    have rd1: "requests_done ?p1 = Some (n, r)" using rd by simp
    have n1: "n \<le> length (pending_requests ?p1)" using n by simp
    have pd1: "p_done ?p1 = p_done p" by simp
    show ?thesis
    proof (cases "i < n")
      case True
      have "\<not> requests_settled n p"
        using True n Suspended by (rule suspended_not_settled)
      with st have w: "md_waiting (p_done p)" by simp
      show ?thesis
      proof (cases "requests_settled n ?p1")
        case s: True
        have "requests_settled n (requests_done_callbacks n r ?p1)"
          using s by (simp add: requests_settled_def requests_done_callbacks_fields)
        moreover have "md_delivered r (p_done (requests_done_callbacks n r ?p1))"
          using md_waiting_callback [OF w] by (simp add: requests_done_callbacks_fields)
        ultimately show ?thesis
          unfolding unfold using True s rd n
          by (simp add: draining_def requests_done_callbacks_fields)
      next
        case s: False
        show ?thesis
          unfolding unfold using s w rd n by (simp add: draining_def)
      qed
    next
      case False
      then have "take n ?ts = take n (pending_requests p)" by simp
      then have same: "requests_settled n ?p1 = requests_settled n p"
        by (simp add: requests_settled_def)
      show ?thesis
        unfolding unfold using False st rd n same by (simp add: draining_def)
    qed
  qed
qed

lemma protocol_step_draining:
  assumes "draining n r p" and "\<not> is_ProcessEnded e"
  shows "draining n r (protocol_step env resources e p)"
proof (cases e)
  case ConnectionMade
  then show ?thesis using assms(1)
    by (simp add: draining_def connectionMade_def requests_settled_def)
next
  case (OutReceived data)
  obtain ts where "pending_requests (outReceived env resources data p) = pending_requests p @ ts"
    using outReceived_appends by blast
  then show ?thesis using OutReceived assms(1)
    by (simp add: draining_appends outReceived_done)
next
  case (ErrReceived data)
  have "pending_requests (errReceived env data p) = pending_requests p @ []"
    by (simp add: errReceived_done)
  then show ?thesis using ErrReceived assms(1)
    by (simp add: draining_appends errReceived_done)
next
  case OutConnectionLost
  obtain ts where "pending_requests (outConnectionLost env resources p) = pending_requests p @ ts"
    using outConnectionLost_appends by blast
  then show ?thesis using OutConnectionLost assms(1)
    by (simp add: draining_appends outConnectionLost_done)
next
  case ErrConnectionLost
  have "pending_requests (errConnectionLost p) = pending_requests p @ []"
    by (simp add: errConnectionLost_done)
  then show ?thesis using ErrConnectionLost assms(1)
    by (simp add: draining_appends errConnectionLost_done)
next
  case (ResourceFired i result)
  then show ?thesis using assms(1) by (simp add: resource_fired_draining)
next
  case DoneRequested
  let ?p' = "p\<lparr>p_done := snd (MultiDeferred_get (p_done p))\<rparr>"
  have s: "snd (SandboxProtocol_done p) = ?p'"
    by (simp add: SandboxProtocol_done_def split_def Let_def)
  have "requests_settled n ?p' = requests_settled n p" by (simp add: requests_settled_def)
  then have "draining n r ?p'"
    using assms(1) md_waiting_get [of "p_done p"] md_delivered_get [of r "p_done p"]
    by (auto simp: draining_def split: if_splits)
  then show ?thesis using DoneRequested by (simp add: s)
next
  case TimeoutExpired
  then show ?thesis using assms(1) by (simp add: draining_def requests_settled_def)
next
  case (ProcessEnded reason)
  then show ?thesis using assms(2) by simp
qed

lemma protocol_run_draining:
  assumes "draining n r p" and "list_all (\<lambda>e. \<not> is_ProcessEnded e) events"
  shows "draining n r (protocol_run env resources events p)"
  using assms unfolding protocol_run_def
  by (induction events arbitrary: p) (simp_all add: protocol_step_draining)

lemma draining_facts:
  assumes "draining n r p"
  shows "md_calls (p_done p) = (if requests_settled n p then [r] else [])"
    and "MultiDeferred_fired (p_done p) = requests_settled n p"
    and "md_result (p_done p) = (if requests_settled n p then Some r else None)"
    and "list_all (\<lambda>x. x = (if requests_settled n p then [r] else [])) (md_issued (p_done p))"
proof -
  from assms have st: "if requests_settled n p then md_delivered r (p_done p)
      else md_waiting (p_done p)"
    by (simp add: draining_def)
  show "md_calls (p_done p) = (if requests_settled n p then [r] else [])"
    using st md_delivered_facts(1) [of r "p_done p"] md_waiting_facts(1) [of "p_done p"]
    by (simp split: if_splits)
  show "MultiDeferred_fired (p_done p) = requests_settled n p"
    using st md_delivered_facts(3) [of r "p_done p"] md_waiting_facts(3) [of "p_done p"]
    by (simp split: if_splits)
  show "md_result (p_done p) = (if requests_settled n p then Some r else None)"
    using st md_delivered_facts(2) [of r "p_done p"] md_waiting_facts(2) [of "p_done p"]
    by (simp split: if_splits)
  show "list_all (\<lambda>x. x = (if requests_settled n p then [r] else [])) (md_issued (p_done p))"
    using st md_delivered_facts(4) [of r "p_done p"] md_waiting_facts(4) [of "p_done p"]
    by (simp split: if_splits)
qed

lemma protocol_run_append:
  "protocol_run env resources (xs @ ys) p =
   protocol_run env resources ys (protocol_run env resources xs p)"
  by (simp add: protocol_run_def)

text \<open>
  C2. A run is a new protocol object to which events happen: some events \<open>before\<close>, the
  end of the process with \<open>reason\<close>, some events \<open>after\<close>, the end of the process
  occurring once. Let \<open>n\<close> be the number of requests in the pending list when the
  process ends. In the state the run reaches (so at every moment after the end, \<open>after\<close>
  being any continuation):
  \<^item> \<^verbatim>\<open>_done.callback\<close> has been called exactly once if these \<open>n\<close> requests have all
    settled, and not at all if one of them has not; its argument was the result of the
    run;
  \<^item> \<^verbatim>\<open>done\<close> is fired exactly when these \<open>n\<close> requests have all settled;
  \<^item> every Deferred that \<^verbatim>\<open>done()\<close> handed out, before or after, has then received that
    result once, and nothing before;
  \<^item> the result is the exit status for \<^verbatim>\<open>ProcessDone\<close> and the failure reason otherwise.
\<close>

theorem done_fires_once_after_drain:
  assumes "list_all (\<lambda>e. \<not> is_ProcessEnded e) before"
    and "list_all (\<lambda>e. \<not> is_ProcessEnded e) after"
  shows
    "md_calls (p_done (protocol_run env resources (before @ [ProcessEnded reason] @ after)
                        (SandboxProtocol_init sid limit w))) =
       (if requests_settled
             (length (pending_requests (protocol_run env resources before
                                          (SandboxProtocol_init sid limit w))))
             (protocol_run env resources (before @ [ProcessEnded reason] @ after)
                (SandboxProtocol_init sid limit w))
        then [exit_result reason] else [])
   \<and> MultiDeferred_fired (p_done (protocol_run env resources
         (before @ [ProcessEnded reason] @ after) (SandboxProtocol_init sid limit w))) =
       requests_settled
         (length (pending_requests (protocol_run env resources before
                                      (SandboxProtocol_init sid limit w))))
         (protocol_run env resources (before @ [ProcessEnded reason] @ after)
            (SandboxProtocol_init sid limit w))
   \<and> list_all
       (\<lambda>x. x = (if requests_settled
                      (length (pending_requests (protocol_run env resources before
                                                   (SandboxProtocol_init sid limit w))))
                      (protocol_run env resources (before @ [ProcessEnded reason] @ after)
                         (SandboxProtocol_init sid limit w))
                 then [exit_result reason] else []))
       (md_issued (p_done (protocol_run env resources (before @ [ProcessEnded reason] @ after)
                             (SandboxProtocol_init sid limit w))))
   \<and> exit_result (ProcessDone status) = ExitStatus status
   \<and> exit_result (ProcessTerminated code sig) = FailureReason (ProcessTerminated code sig)"
proof -
  let ?p1 = "protocol_run env resources before (SandboxProtocol_init sid limit w)"
  let ?n = "length (pending_requests ?p1)"
  let ?pf = "protocol_run env resources (before @ [ProcessEnded reason] @ after)
               (SandboxProtocol_init sid limit w)"
  have r1: "running ?p1"
    using init_running assms(1) by (rule protocol_run_running)
  have "draining ?n (exit_result reason) (processEnded reason ?p1)"
    using r1 by (rule processEnded_draining)
  then have "draining ?n (exit_result reason)
      (protocol_run env resources after (processEnded reason ?p1))"
    using assms(2) by (rule protocol_run_draining)
  moreover have "?pf = protocol_run env resources after (processEnded reason ?p1)"
    by (simp add: protocol_run_def)
  ultimately have d: "draining ?n (exit_result reason) ?pf" by simp
  note f = draining_facts [OF d]
  have e1: "exit_result (ProcessDone status) = ExitStatus status"
    and e2: "exit_result (ProcessTerminated code sig) = FailureReason (ProcessTerminated code sig)"
    by (simp_all add: exit_result_def)
  from f(1) f(2) f(4) e1 e2 show ?thesis by blast
qed

subsection \<open>A run with a slow request\<close>

lemma example_line_no_newline: "CHR 0x0A \<notin> set example_line"
  by (simp add: example_line_def dq_def)

lemma example_line_length: "length example_line \<le> 100"
  by (simp add: example_line_def dq_def)

lemma split_nl_line:
  "CHR 0x0A \<notin> set l \<Longrightarrow> split_nl (l @ [CHR 0x0A]) = [l, []]"
  by (induction l) auto

lemma example_dispatch:
  "dispatch_request example_env [''kv'' \<mapsto> example_slow_resource] example_command w =
     (Suspended ''kv'' ''.'' ''get'' (example_command(''cmd'' \<mapsto> PStr ''get'')), w)"
  by (simp add: dispatch_request_def getitem_def example_command_def split_cmd_def
        partition_dot_def get_resource_def SandboxResource_dispatch_request_def
        example_slow_resource_def)

lemma example_dispatch_line:
  "dispatch_line example_env [''kv'' \<mapsto> example_slow_resource] example_line p =
     p\<lparr>pending_requests := pending_requests p @
          [\<lparr>task_line = example_line,
            task_dispatch = Suspended ''kv'' ''.'' ''get'' (example_command(''cmd'' \<mapsto> PStr ''get''))\<rparr>]\<rparr>"
proof -
  have "from_json example_env example_line = Inr example_command"
    by (simp add: example_env_def)
  then show ?thesis
    by (simp add: dispatch_line_def parse_command_def example_dispatch)
qed

lemma example_outReceived:
  assumes "chunk p = []" and "recv_bytes p + 101 \<le> recv_limit p"
  shows "outReceived example_env [''kv'' \<mapsto> example_slow_resource]
           (example_line @ [CHR 0x0A]) p =
     p\<lparr>recv_bytes := recv_bytes p + int (length (example_line @ [CHR 0x0A])),
       pending_requests := pending_requests p @
          [\<lparr>task_line = example_line,
            task_dispatch = Suspended ''kv'' ''.'' ''get'' (example_command(''cmd'' \<mapsto> PStr ''get''))\<rparr>],
       chunk := []\<rparr>"
proof -
  have within: "recv_bytes p + int (length (example_line @ [CHR 0x0A])) \<le> recv_limit p"
    using assms(2) example_line_length by simp
  have nonl: "CHR 0x0A \<notin> set (chunk p)" using assms(1) by simp
  have lines: "demux_lines (chunk p) (example_line @ [CHR 0x0A]) = [example_line]"
    and carry: "demux_carry (chunk p) (example_line @ [CHR 0x0A]) = []"
    using assms(1) by (simp_all add: demux_lines_def demux_carry_def
        split_nl_line [OF example_line_no_newline])
  show ?thesis
    by (simp only: outReceived_within [OF within nonl] lines carry)
       (simp add: example_dispatch_line)
qed

lemma processEnded_pending:
  "pending_requests (processEnded reason p) = pending_requests p"
  by (simp add: processEnded_def Let_def requests_done_callbacks_fields)

lemma resource_fired_pending:
  assumes "i < length (pending_requests p)"
    and "task_dispatch (pending_requests p ! i) = Suspended a b c d"
  shows "pending_requests (resource_fired env i result p) =
     (pending_requests p)
       [i := (pending_requests p ! i)
               \<lparr>task_dispatch := Settled (fst (dispatch_resume env a b c d result (wld p)))\<rparr>]"
  using assms
  by (simp add: resource_fired_def split_def Let_def requests_done_callbacks_fields
        split: option.splits)

theorem done_fires_once_after_drain_witness:
  "md_calls (p_done (protocol_run example_env [''kv'' \<mapsto> example_slow_resource]
      ([DoneRequested, OutReceived (example_line @ [CHR 0x0A])] @
       [ProcessEnded (ProcessDone 0)] @ [])
      (SandboxProtocol_init ''sandbox1'' 1024 example_world))) = []
   \<and> md_calls (p_done (protocol_run example_env [''kv'' \<mapsto> example_slow_resource]
      ([DoneRequested, OutReceived (example_line @ [CHR 0x0A])] @
       [ProcessEnded (ProcessDone 0)] @ [ResourceFired 0 (Returned None)])
      (SandboxProtocol_init ''sandbox1'' 1024 example_world))) = [ExitStatus 0]
   \<and> list_all (\<lambda>x. x = [ExitStatus 0])
       (md_issued (p_done (protocol_run example_env [''kv'' \<mapsto> example_slow_resource]
          ([DoneRequested, OutReceived (example_line @ [CHR 0x0A])] @
           [ProcessEnded (ProcessDone 0)] @ [ResourceFired 0 (Returned None)])
          (SandboxProtocol_init ''sandbox1'' 1024 example_world))))"
proof -
  let ?R = "[''kv'' \<mapsto> example_slow_resource]"
  let ?init = "SandboxProtocol_init ''sandbox1'' 1024 example_world"
  let ?before = "[DoneRequested, OutReceived (example_line @ [CHR 0x0A])]"
  let ?end = "[ProcessEnded (ProcessDone 0)]"
  let ?fire = "[ResourceFired 0 (Returned None)]"
  let ?task = "\<lparr>task_line = example_line,
      task_dispatch = Suspended ''kv'' ''.'' ''get'' (example_command(''cmd'' \<mapsto> PStr ''get''))\<rparr>"
  let ?p0 = "snd (SandboxProtocol_done ?init)"
  let ?p1 = "protocol_run example_env ?R ?before ?init"
  let ?pf1 = "protocol_run example_env ?R (?before @ ?end @ []) ?init"
  let ?pf2 = "protocol_run example_env ?R (?before @ ?end @ ?fire) ?init"
  have b1: "list_all (\<lambda>e. \<not> is_ProcessEnded e) ?before"
    and b2: "list_all (\<lambda>e. \<not> is_ProcessEnded e) []"
    and b3: "list_all (\<lambda>e. \<not> is_ProcessEnded e) ?fire"
    by simp_all
  have c0: "chunk ?p0 = []" and r0: "recv_bytes ?p0 + 101 \<le> recv_limit ?p0"
    and e0: "pending_requests ?p0 = []"
    by (simp_all add: SandboxProtocol_done_def SandboxProtocol_init_def split_def Let_def)
  have p1: "?p1 = outReceived example_env ?R (example_line @ [CHR 0x0A]) ?p0"
    by (simp add: protocol_run_def)
  have pend1: "pending_requests ?p1 = [?task]"
    by (simp only: p1 example_outReceived [OF c0 r0]) (simp add: e0)
  have pf1: "?pf1 = processEnded (ProcessDone 0) ?p1"
    by (simp add: protocol_run_def)
  have pendf1: "pending_requests ?pf1 = [?task]"
    by (simp only: pf1 processEnded_pending pend1)
  have pendf1': "pending_requests (protocol_run example_env ?R
      [DoneRequested, OutReceived (example_line @ [CHR 0x0A]), ProcessEnded (ProcessDone 0)]
      ?init) = [?task]"
    using pendf1 by simp
  have pf2: "?pf2 = resource_fired example_env 0 (Returned None) ?pf1"
    by (simp add: protocol_run_def)
  have pendf2: "pending_requests ?pf2 = [?task\<lparr>task_dispatch := Settled Succeeded\<rparr>]"
    unfolding pf2
    by (subst resource_fired_pending [where a = "''kv''" and b = "''.''" and c = "''get''"
          and d = "example_command(''cmd'' \<mapsto> PStr ''get'')"])
       (simp_all add: pendf1' dispatch_resume_def)
  have pendf2': "pending_requests (protocol_run example_env ?R
      [DoneRequested, OutReceived (example_line @ [CHR 0x0A]), ProcessEnded (ProcessDone 0),
       ResourceFired 0 (Returned None)] ?init) = [?task\<lparr>task_dispatch := Settled Succeeded\<rparr>]"
    using pendf2 by simp
  have s1: "\<not> requests_settled (length (pending_requests ?p1)) ?pf1"
    by (simp add: requests_settled_def pendf1' pend1)
  have s2: "requests_settled (length (pending_requests ?p1)) ?pf2"
    by (simp add: requests_settled_def pendf2' pend1)
  note th1 = done_fires_once_after_drain [OF b1 b2, of example_env ?R "ProcessDone 0"
      "''sandbox1''" 1024 example_world]
  note th2 = done_fires_once_after_drain [OF b1 b3, of example_env ?R "ProcessDone 0"
      "''sandbox1''" 1024 example_world]
  from th1 have c1: "md_calls (p_done ?pf1) =
      (if requests_settled (length (pending_requests ?p1)) ?pf1
       then [exit_result (ProcessDone 0)] else [])"
    by blast
  from th2 have c2: "md_calls (p_done ?pf2) =
      (if requests_settled (length (pending_requests ?p1)) ?pf2
       then [exit_result (ProcessDone 0)] else [])"
    and c3: "list_all (\<lambda>x. x = (if requests_settled (length (pending_requests ?p1)) ?pf2
       then [exit_result (ProcessDone 0)] else [])) (md_issued (p_done ?pf2))"
    and c4: "exit_result (ProcessDone 0) = ExitStatus 0"
    by blast+
  from c1 s1 have d1: "md_calls (p_done ?pf1) = []" by simp
  from c2 s2 c4 have d2: "md_calls (p_done ?pf2) = [ExitStatus 0]" by simp
  from c3 s2 c4 have d3: "list_all (\<lambda>x. x = [ExitStatus 0]) (md_issued (p_done ?pf2))" by simp
  from d1 d2 d3 show ?thesis by blast
qed

section \<open>Stream demultiplexing\<close>

lemma takeWhile_not_dot:
  "CHR ''.'' \<notin> set name \<Longrightarrow>
   takeWhile (\<lambda>c. c \<noteq> CHR ''.'') (name @ CHR ''.'' # op) = name"
  by (induction name) auto

lemma dropWhile_not_dot:
  "CHR ''.'' \<notin> set name \<Longrightarrow>
   dropWhile (\<lambda>c. c \<noteq> CHR ''.'') (name @ CHR ''.'' # op) = CHR ''.'' # op"
  by (induction name) auto

lemma split_cmd_dotted:
  "CHR ''.'' \<notin> set name \<Longrightarrow> split_cmd (name @ CHR ''.'' # op) = (name, ''.'', op)"
  by (simp add: split_cmd_def partition_dot_def takeWhile_not_dot dropWhile_not_dot)

text \<open>
  C8. For a chunk within the budget, on a stream whose carry holds no newline (which
  holds in every state a run reaches from a new protocol object, last conjunct):
  \<^item> stdout: the lines of \<open>demux_lines\<close> (carry prepended, split at newline, all
    pieces but the last) go through the loop body in order, and the last piece is the
    new carry;
  \<^item> the loop body parses the line with \<^verbatim>\<open>from_json\<close> (a line it rejects becomes the
    \<^verbatim>\<open>unknown\<close> command carrying the line and the error), hands the command to
    \<^verbatim>\<open>api.dispatch_request\<close> and appends the Deferred to the pending requests;
  \<^item> dispatching a command named \<^verbatim>\<open><resource>.<op>\<close> for which the resource has a
    handler calls that handler on the command with \<^verbatim>\<open>cmd\<close> cut down to \<^verbatim>\<open><op>\<close>; a
    reply it returns is written to the child with the full name restored, and a handler
    that has not finished leaves the request suspended;
  \<^item> stderr: each of these lines is logged through the sandbox API at ERROR level (40),
    and the last piece is the new carry;
  \<^item> on stream close a non-empty carry goes through the loop body (stdout) or is logged
    (stderr) as one final line, and the carry is empty afterwards.
\<close>

theorem in_budget_chunk_demultiplexed:
  assumes "recv_bytes p + int (length data) \<le> recv_limit p"
    and "CHR 0x0A \<notin> set (chunk p)" and "CHR 0x0A \<notin> set (error_chunk p)"
  shows "outReceived env resources data p =
           (fold (dispatch_line env resources) (demux_lines (chunk p) data)
              (p\<lparr>recv_bytes := recv_bytes p + int (length data)\<rparr>))
           \<lparr>chunk := demux_carry (chunk p) data\<rparr>
       \<and> (\<forall>line q. dispatch_line env resources line q =
            (case from_json env line of
               Inr command \<Rightarrow>
                 q\<lparr>wld := snd (dispatch_request env resources command (wld q)),
                   pending_requests := pending_requests q @
                     [\<lparr>task_line = line,
                       task_dispatch = fst (dispatch_request env resources command (wld q))\<rparr>]\<rparr>
             | Inl e \<Rightarrow>
                 q\<lparr>wld := snd (dispatch_request env resources
                            [''cmd'' \<mapsto> PStr ''unknown'', ''line'' \<mapsto> PStr line,
                             ''exception'' \<mapsto> PExc e,
                             ''cmd_id'' \<mapsto> PStr (uuid4_hex env (uuid_draws (wld q))),
                             ''reply'' \<mapsto> PBool False]
                            ((wld q)\<lparr>uuid_draws := Suc (uuid_draws (wld q))\<rparr>)),
                   pending_requests := pending_requests q @
                     [\<lparr>task_line = line,
                       task_dispatch = fst (dispatch_request env resources
                            [''cmd'' \<mapsto> PStr ''unknown'', ''line'' \<mapsto> PStr line,
                             ''exception'' \<mapsto> PExc e,
                             ''cmd_id'' \<mapsto> PStr (uuid4_hex env (uuid_draws (wld q))),
                             ''reply'' \<mapsto> PBool False]
                            ((wld q)\<lparr>uuid_draws := Suc (uuid_draws (wld q))\<rparr>))\<rparr>]\<rparr>))
       \<and> (\<forall>command name op res h w.
            command ''cmd'' = Some (PStr (name @ ''.'' @ op)) \<and> CHR ''.'' \<notin> set name \<and>
            resources name = Some res \<and> res_handlers res op = Some h \<longrightarrow>
            dispatch_request env resources command w =
              (case h (command(''cmd'' \<mapsto> PStr op)) w of
                 (None, w1) \<Rightarrow> (Suspended name ''.'' op (command(''cmd'' \<mapsto> PStr op)), w1)
               | (Some (Returned None), w1) \<Rightarrow> (Settled Succeeded, w1)
               | (Some (Returned (Some r)), w1) \<Rightarrow>
                   (Settled Succeeded,
                    w1\<lparr>trace := trace w1 @
                         [TransportWrite (r(''cmd'' \<mapsto> PStr (name @ ''.'' @ op)))]\<rparr>)
               | (Some (Raised e), w1) \<Rightarrow>
                   (Settled (fst (dispatch_resume env name ''.'' op
                                    (command(''cmd'' \<mapsto> PStr op)) (Raised e) w1)),
                    snd (dispatch_resume env name ''.'' op
                           (command(''cmd'' \<mapsto> PStr op)) (Raised e) w1))))
       \<and> errReceived env data p =
           p\<lparr>recv_bytes := recv_bytes p + int (length data),
             wld := (wld p)\<lparr>trace := trace (wld p) @
                      map (\<lambda>l. LogMsg l 40) (demux_lines (error_chunk p) data)\<rparr>,
             error_chunk := demux_carry (error_chunk p) data\<rparr>
       \<and> outConnectionLost env resources p =
           (if chunk p = [] then p
            else dispatch_line env resources (chunk p) (p\<lparr>chunk := []\<rparr>))
       \<and> errConnectionLost p =
           (if error_chunk p = [] then p
            else p\<lparr>wld := (wld p)\<lparr>trace := trace (wld p) @ [LogMsg (error_chunk p) 40]\<rparr>,
                   error_chunk := []\<rparr>)
       \<and> carries_ok (protocol_run env resources events (SandboxProtocol_init sid limit w0))"
proof -
  have pd: "process_data env carry data p =
      ((carry @ hd (split_nl data)) # tl (split_nl data),
       p\<lparr>recv_bytes := recv_bytes p + int (length data)\<rparr>)" for carry
    using assms(1)
    by (cases "split_nl data") (simp_all add: process_data_def check_recv_def Let_def)
  have o: "outReceived env resources data p =
           (fold (dispatch_line env resources) (demux_lines (chunk p) data)
              (p\<lparr>recv_bytes := recv_bytes p + int (length data)\<rparr>))
           \<lparr>chunk := demux_carry (chunk p) data\<rparr>"
    using assms(2)
    by (simp add: outReceived_def pd demux_lines_def demux_carry_def split_nl_carry)
  have parse: "dispatch_line env resources line q =
            (case from_json env line of
               Inr command \<Rightarrow>
                 q\<lparr>wld := snd (dispatch_request env resources command (wld q)),
                   pending_requests := pending_requests q @
                     [\<lparr>task_line = line,
                       task_dispatch = fst (dispatch_request env resources command (wld q))\<rparr>]\<rparr>
             | Inl e \<Rightarrow>
                 q\<lparr>wld := snd (dispatch_request env resources
                            [''cmd'' \<mapsto> PStr ''unknown'', ''line'' \<mapsto> PStr line,
                             ''exception'' \<mapsto> PExc e,
                             ''cmd_id'' \<mapsto> PStr (uuid4_hex env (uuid_draws (wld q))),
                             ''reply'' \<mapsto> PBool False]
                            ((wld q)\<lparr>uuid_draws := Suc (uuid_draws (wld q))\<rparr>)),
                   pending_requests := pending_requests q @
                     [\<lparr>task_line = line,
                       task_dispatch = fst (dispatch_request env resources
                            [''cmd'' \<mapsto> PStr ''unknown'', ''line'' \<mapsto> PStr line,
                             ''exception'' \<mapsto> PExc e,
                             ''cmd_id'' \<mapsto> PStr (uuid4_hex env (uuid_draws (wld q))),
                             ''reply'' \<mapsto> PBool False]
                            ((wld q)\<lparr>uuid_draws := Suc (uuid_draws (wld q))\<rparr>))\<rparr>]\<rparr>)"
    for line q
    by (cases "from_json env line")
       (simp_all add: dispatch_line_def parse_command_def SandboxCommand_def process_fields_def
          setdefault_def split_def Let_def)
  have registered: "dispatch_request env resources command w =
              (case h (command(''cmd'' \<mapsto> PStr op)) w of
                 (None, w1) \<Rightarrow> (Suspended name ''.'' op (command(''cmd'' \<mapsto> PStr op)), w1)
               | (Some (Returned None), w1) \<Rightarrow> (Settled Succeeded, w1)
               | (Some (Returned (Some r)), w1) \<Rightarrow>
                   (Settled Succeeded,
                    w1\<lparr>trace := trace w1 @
                         [TransportWrite (r(''cmd'' \<mapsto> PStr (name @ ''.'' @ op)))]\<rparr>)
               | (Some (Raised e), w1) \<Rightarrow>
                   (Settled (fst (dispatch_resume env name ''.'' op
                                    (command(''cmd'' \<mapsto> PStr op)) (Raised e) w1)),
                    snd (dispatch_resume env name ''.'' op
                           (command(''cmd'' \<mapsto> PStr op)) (Raised e) w1)))"
    if cmd: "command ''cmd'' = Some (PStr (name @ ''.'' @ op))" and nd: "CHR ''.'' \<notin> set name"
      and res: "resources name = Some res" and h: "res_handlers res op = Some h"
    for command :: command and name op res h w
  proof -
    have d: "SandboxResource_dispatch_request env (get_resource resources name)
        (command(''cmd'' \<mapsto> PStr op)) w = h (command(''cmd'' \<mapsto> PStr op)) w"
      using res h
      by (simp add: SandboxResource_dispatch_request_def get_resource_def getitem_def)
    obtain result w1 where hr: "h (command(''cmd'' \<mapsto> PStr op)) w = (result, w1)"
      by (cases "h (command(''cmd'' \<mapsto> PStr op)) w")
    have unfold: "dispatch_request env resources command w =
        (case result of
           None \<Rightarrow> (Suspended name ''.'' op (command(''cmd'' \<mapsto> PStr op)), w1)
         | Some r \<Rightarrow>
             (Settled (fst (dispatch_resume env name ''.'' op
                              (command(''cmd'' \<mapsto> PStr op)) r w1)),
              snd (dispatch_resume env name ''.'' op (command(''cmd'' \<mapsto> PStr op)) r w1)))"
      using cmd nd
      by (simp add: dispatch_request_def getitem_def split_cmd_dotted d hr split_def Let_def
            split: option.splits)
    show ?thesis
    proof (cases result)
      case None
      then show ?thesis by (simp add: unfold hr)
    next
      case (Some r)
      show ?thesis
      proof (cases r)
        case (Raised e)
        with Some show ?thesis by (simp add: unfold hr)
      next
        case (Returned ro)
        with Some show ?thesis
          by (cases ro) (simp_all add: unfold hr dispatch_resume_def send_def emit_def)
      qed
    qed
  qed
  have ll: "log_line l q = q\<lparr>wld := (wld q)\<lparr>trace := trace (wld q) @ [LogMsg l 40]\<rparr>\<rparr>"
    for l q
    by (simp add: log_line_def api_log_def LoggingResource_log_def emit_def logging_ERROR_def
          split: option.splits)
  have fl: "fold log_line ls q =
      q\<lparr>wld := (wld q)\<lparr>trace := trace (wld q) @ map (\<lambda>l. LogMsg l 40) ls\<rparr>\<rparr>" for ls q
    by (induction ls arbitrary: q) (simp_all add: ll)
  have e: "errReceived env data p =
           p\<lparr>recv_bytes := recv_bytes p + int (length data),
             wld := (wld p)\<lparr>trace := trace (wld p) @
                      map (\<lambda>l. LogMsg l 40) (demux_lines (error_chunk p) data)\<rparr>,
             error_chunk := demux_carry (error_chunk p) data\<rparr>"
    using assms(3)
    by (simp add: errReceived_def pd fl demux_lines_def demux_carry_def split_nl_carry)
  have oc: "outConnectionLost env resources p =
           (if chunk p = [] then p
            else dispatch_line env resources (chunk p) (p\<lparr>chunk := []\<rparr>))"
    by (simp add: outConnectionLost_def)
  have ec: "errConnectionLost p =
           (if error_chunk p = [] then p
            else p\<lparr>wld := (wld p)\<lparr>trace := trace (wld p) @ [LogMsg (error_chunk p) 40]\<rparr>,
                   error_chunk := []\<rparr>)"
    by (simp add: errConnectionLost_def ll)
  have inv: "carries_ok (protocol_run env resources events (SandboxProtocol_init sid limit w0))"
    by (rule protocol_run_carries_ok [OF init_carries_ok])
  from o e oc ec inv parse registered [of _ _ _ _ _ ]
  show ?thesis by (intro conjI allI impI) (simp_all (no_asm_simp))
qed


lemma example_handle_get:
  assumes "redis w = Map.empty"
  shows "handle_get example_env (example_command(''cmd'' \<mapsto> PStr ''get'')) w =
     (Some (Returned (Some
        [''success'' \<mapsto> PBool True, ''value'' \<mapsto> PNone, ''cmd'' \<mapsto> PStr ''get'',
         ''reply'' \<mapsto> PBool True, ''cmd_id'' \<mapsto> PStr ''A''])),
      w\<lparr>uuid_draws := Suc (uuid_draws w)\<rparr>)"
  using assms
  by (simp add: handle_get_def sandboxed_key_def command_get_def example_command_def
        redis_get_def reply_def getitem_def SandboxCommand_def process_fields_def
        setdefault_def return_reply_def)

lemma example_reply_cmd:
  "[''success'' \<mapsto> PBool True, ''value'' \<mapsto> PNone, ''cmd'' \<mapsto> PStr ''get'',
    ''reply'' \<mapsto> PBool True, ''cmd_id'' \<mapsto> PStr ''A''](''cmd'' \<mapsto> PStr ''kv.get'') =
   [''success'' \<mapsto> PBool True, ''value'' \<mapsto> PNone, ''reply'' \<mapsto> PBool True,
    ''cmd_id'' \<mapsto> PStr ''A'', ''cmd'' \<mapsto> PStr ''kv.get'']"
  by (rule ext) simp

lemma split_nl_append_line:
  "CHR 0x0A \<notin> set l \<Longrightarrow> split_nl (l @ CHR 0x0A # rest) = l # split_nl rest"
  by (induction l) (auto split: list.splits)

lemma example_line_length_60: "length example_line = 60"
  by (simp add: example_line_def dq_def)

lemma example_unknown_request_msg:
  "unknown_request_msg example_env ''fallback'' (PStr ''unknown'') ''sandbox1'' command =
     ''Resource fallback received unknown command u'' @ [CHR 0x27] @ ''unknown'' @ [CHR 0x27] @
     '' from sandbox u'' @ [CHR 0x27] @ ''sandbox1'' @ [CHR 0x27] @
     ''. Killing sandbox. [Full command: <Message>]''"
  by (simp add: unknown_request_msg_def example_env_def example_repr_def quote_def)

theorem in_budget_chunk_demultiplexed_witness:
  "outReceived example_env [''kv'' \<mapsto> RedisResource example_env ''kv'' 100]
      (example_line @ [CHR 0x0A] @ ''not json'' @ [CHR 0x0A] @ ''ef'')
      (SandboxProtocol_init ''sandbox1'' 1024 example_world) =
     (SandboxProtocol_init ''sandbox1'' 1024 example_world)
       \<lparr>recv_bytes := 72, chunk := ''ef'',
        pending_requests :=
          [\<lparr>task_line = example_line, task_dispatch = Settled Succeeded\<rparr>,
           \<lparr>task_line = ''not json'', task_dispatch = Settled Succeeded\<rparr>],
        wld := example_world
          \<lparr>uuid_draws := 2,
           trace :=
             [TransportWrite
                [''success'' \<mapsto> PBool True, ''value'' \<mapsto> PNone, ''reply'' \<mapsto> PBool True,
                 ''cmd_id'' \<mapsto> PStr ''A'', ''cmd'' \<mapsto> PStr ''kv.get''],
              LogMsg (''Resource fallback received unknown command u'' @ [CHR 0x27] @
                      ''unknown'' @ [CHR 0x27] @ '' from sandbox u'' @ [CHR 0x27] @
                      ''sandbox1'' @ [CHR 0x27] @
                      ''. Killing sandbox. [Full command: <Message>]'') 40,
              SignalProcess ''KILL'']\<rparr>\<rparr>
   \<and> outConnectionLost example_env [''kv'' \<mapsto> RedisResource example_env ''kv'' 100]
      ((SandboxProtocol_init ''sandbox1'' 1024 example_world)\<lparr>chunk := example_line\<rparr>) =
     (SandboxProtocol_init ''sandbox1'' 1024 example_world)
       \<lparr>pending_requests :=
          [\<lparr>task_line = example_line, task_dispatch = Settled Succeeded\<rparr>],
        wld := example_world
          \<lparr>uuid_draws := 1,
           trace :=
             [TransportWrite
                [''success'' \<mapsto> PBool True, ''value'' \<mapsto> PNone, ''reply'' \<mapsto> PBool True,
                 ''cmd_id'' \<mapsto> PStr ''A'', ''cmd'' \<mapsto> PStr ''kv.get'']]\<rparr>\<rparr>
   \<and> errReceived example_env (''ab'' @ [CHR 0x0A] @ ''cd'' @ [CHR 0x0A] @ ''ef'')
      (SandboxProtocol_init ''sandbox1'' 1024 example_world) =
     (SandboxProtocol_init ''sandbox1'' 1024 example_world)
       \<lparr>recv_bytes := 8, error_chunk := ''ef'',
        wld := example_world\<lparr>trace := [LogMsg ''ab'' 40, LogMsg ''cd'' 40]\<rparr>\<rparr>
   \<and> errConnectionLost
      ((SandboxProtocol_init ''sandbox1'' 1024 example_world)\<lparr>error_chunk := ''ef''\<rparr>) =
     (SandboxProtocol_init ''sandbox1'' 1024 example_world)
       \<lparr>wld := example_world\<lparr>trace := [LogMsg ''ef'' 40]\<rparr>\<rparr>"
proof -
  let ?p = "SandboxProtocol_init ''sandbox1'' 1024 example_world"
  let ?res = "[''kv'' \<mapsto> RedisResource example_env ''kv'' 100]"
  let ?data = "example_line @ [CHR 0x0A] @ ''not json'' @ [CHR 0x0A] @ ''ef''"
  let ?edata = "''ab'' @ [CHR 0x0A] @ ''cd'' @ [CHR 0x0A] @ ''ef''"
  let ?reply = "[''success'' \<mapsto> PBool True, ''value'' \<mapsto> PNone, ''reply'' \<mapsto> PBool True,
      ''cmd_id'' \<mapsto> PStr ''A'', ''cmd'' \<mapsto> PStr ''kv.get'']"
  have within: "recv_bytes ?p + int (length ?data) \<le> recv_limit ?p"
    by (simp add: SandboxProtocol_init_def example_line_length_60)
  have c1: "CHR 0x0A \<notin> set (chunk ?p)" and c2: "CHR 0x0A \<notin> set (error_chunk ?p)"
    by (simp_all add: SandboxProtocol_init_def)
  note th0 = in_budget_chunk_demultiplexed [OF within c1 c2, of example_env ?res]
  have ewithin: "recv_bytes ?p + int (length ?edata) \<le> recv_limit ?p"
    by (simp add: SandboxProtocol_init_def)
  note th1 = in_budget_chunk_demultiplexed [OF ewithin c1 c2, of example_env ?res]
  have w2: "recv_bytes (?p\<lparr>chunk := example_line\<rparr>) + int (length ([] :: string)) \<le>
      recv_limit (?p\<lparr>chunk := example_line\<rparr>)"
    by (simp add: SandboxProtocol_init_def)
  have c3: "CHR 0x0A \<notin> set (chunk (?p\<lparr>chunk := example_line\<rparr>))"
    and c4: "CHR 0x0A \<notin> set (error_chunk (?p\<lparr>chunk := example_line\<rparr>))"
    by (simp_all add: SandboxProtocol_init_def example_line_no_newline)
  note th2 = in_budget_chunk_demultiplexed [OF w2 c3 c4, of example_env ?res]
  have w3: "recv_bytes (?p\<lparr>error_chunk := ''ef''\<rparr>) + int (length ([] :: string)) \<le>
      recv_limit (?p\<lparr>error_chunk := ''ef''\<rparr>)"
    by (simp add: SandboxProtocol_init_def)
  have c5: "CHR 0x0A \<notin> set (chunk (?p\<lparr>error_chunk := ''ef''\<rparr>))"
    and c6: "CHR 0x0A \<notin> set (error_chunk (?p\<lparr>error_chunk := ''ef''\<rparr>))"
    by (simp_all add: SandboxProtocol_init_def)
  note th3 = in_budget_chunk_demultiplexed [OF w3 c5 c6, of example_env ?res]
  from th0 have line: "\<And>line q. dispatch_line example_env ?res line q =
      (case from_json example_env line of
         Inr command \<Rightarrow>
           q\<lparr>wld := snd (dispatch_request example_env ?res command (wld q)),
             pending_requests := pending_requests q @
               [\<lparr>task_line = line,
                 task_dispatch = fst (dispatch_request example_env ?res command (wld q))\<rparr>]\<rparr>
       | Inl e \<Rightarrow>
           q\<lparr>wld := snd (dispatch_request example_env ?res
                      [''cmd'' \<mapsto> PStr ''unknown'', ''line'' \<mapsto> PStr line,
                       ''exception'' \<mapsto> PExc e,
                       ''cmd_id'' \<mapsto> PStr (uuid4_hex example_env (uuid_draws (wld q))),
                       ''reply'' \<mapsto> PBool False]
                      ((wld q)\<lparr>uuid_draws := Suc (uuid_draws (wld q))\<rparr>)),
             pending_requests := pending_requests q @
               [\<lparr>task_line = line,
                 task_dispatch = fst (dispatch_request example_env ?res
                      [''cmd'' \<mapsto> PStr ''unknown'', ''line'' \<mapsto> PStr line,
                       ''exception'' \<mapsto> PExc e,
                       ''cmd_id'' \<mapsto> PStr (uuid4_hex example_env (uuid_draws (wld q))),
                       ''reply'' \<mapsto> PBool False]
                      ((wld q)\<lparr>uuid_draws := Suc (uuid_draws (wld q))\<rparr>))\<rparr>]\<rparr>)"
    by blast
  have registered: "dispatch_request example_env ?res command w =
        (case handle_get example_env (command(''cmd'' \<mapsto> PStr ''get'')) w of
           (None, w1) \<Rightarrow> (Suspended ''kv'' ''.'' ''get'' (command(''cmd'' \<mapsto> PStr ''get'')), w1)
         | (Some (Returned None), w1) \<Rightarrow> (Settled Succeeded, w1)
         | (Some (Returned (Some r)), w1) \<Rightarrow>
             (Settled Succeeded,
              w1\<lparr>trace := trace w1 @
                   [TransportWrite (r(''cmd'' \<mapsto> PStr (''kv'' @ ''.'' @ ''get'')))]\<rparr>)
         | (Some (Raised e), w1) \<Rightarrow>
             (Settled (fst (dispatch_resume example_env ''kv'' ''.'' ''get''
                              (command(''cmd'' \<mapsto> PStr ''get'')) (Raised e) w1)),
              snd (dispatch_resume example_env ''kv'' ''.'' ''get''
                     (command(''cmd'' \<mapsto> PStr ''get'')) (Raised e) w1)))"
    if cmd: "command ''cmd'' = Some (PStr (''kv'' @ ''.'' @ ''get''))" for command :: command and w
  proof -
    have nd: "CHR ''.'' \<notin> set ''kv''" by simp
    have r: "?res ''kv'' = Some (RedisResource example_env ''kv'' 100)" by simp
    have h: "res_handlers (RedisResource example_env ''kv'' 100) ''get'' =
        Some (handle_get example_env)"
      by (simp add: RedisResource_def)
    from th0 cmd nd r h show ?thesis by blast
  qed
  have cmd: "example_command ''cmd'' = Some (PStr (''kv'' @ ''.'' @ ''get''))"
    by (simp add: example_command_def)
  have get: "dispatch_request example_env ?res example_command w =
        (Settled Succeeded,
         w\<lparr>uuid_draws := Suc (uuid_draws w), trace := trace w @ [TransportWrite ?reply]\<rparr>)"
    if "redis w = Map.empty" for w
    using that by (simp add: registered [of example_command, OF cmd] example_handle_get example_reply_cmd)
  have pj: "from_json example_env example_line = Inr example_command"
    by (simp add: example_env_def)
  have good: "dispatch_line example_env ?res example_line q =
        q\<lparr>wld := (wld q)\<lparr>uuid_draws := Suc (uuid_draws (wld q)),
                          trace := trace (wld q) @ [TransportWrite ?reply]\<rparr>,
          pending_requests := pending_requests q @
            [\<lparr>task_line = example_line, task_dispatch = Settled Succeeded\<rparr>]\<rparr>"
    if "redis (wld q) = Map.empty" for q
    using that by (simp add: line pj get)
  have nj: "from_json example_env ''not json'' =
      Inl (PyException ''No JSON object could be decoded'')"
    by (simp add: example_env_def example_line_def dq_def)
  have nores: "?res [] = None" by simp
  have fb: "dispatch_request example_env ?res command w =
      (Settled Succeeded,
       kill (api_log (unknown_request_msg example_env ''fallback'' (PStr ''unknown'')
                        (sandbox_id w) command) logging_ERROR w))"
    if "command ''cmd'' = Some (PStr ''unknown'')" for command :: command and w
    using that nores by (intro dispatch_request_fallback) simp_all
  have bad: "dispatch_line example_env ?res ''not json'' q =
        q\<lparr>wld := (wld q)\<lparr>uuid_draws := Suc (uuid_draws (wld q)),
                          trace := trace (wld q) @
                            [LogMsg (''Resource fallback received unknown command u'' @
                                     [CHR 0x27] @ ''unknown'' @ [CHR 0x27] @
                                     '' from sandbox u'' @ [CHR 0x27] @ ''sandbox1'' @
                                     [CHR 0x27] @
                                     ''. Killing sandbox. [Full command: <Message>]'') 40,
                             SignalProcess ''KILL'']\<rparr>,
          pending_requests := pending_requests q @
            [\<lparr>task_line = ''not json'', task_dispatch = Settled Succeeded\<rparr>]\<rparr>"
    if "sandbox_id (wld q) = ''sandbox1''" and "transport_pid (wld q) \<noteq> None"
      and "logging_resource (wld q) = None" for q
    using that
    by (simp add: line nj fb example_unknown_request_msg kill_def api_log_def emit_def
          logging_ERROR_def)
  from th0 have a: "outReceived example_env ?res ?data ?p =
      (fold (dispatch_line example_env ?res) (demux_lines (chunk ?p) ?data)
         (?p\<lparr>recv_bytes := recv_bytes ?p + int (length ?data)\<rparr>))
      \<lparr>chunk := demux_carry (chunk ?p) ?data\<rparr>"
    by blast
  have dl: "demux_lines (chunk ?p) ?data = [example_line, ''not json'']"
    and dc: "demux_carry (chunk ?p) ?data = ''ef''"
    by (simp_all add: demux_lines_def demux_carry_def SandboxProtocol_init_def
          split_nl_append_line example_line_no_newline)
  have out: "outReceived example_env ?res ?data ?p =
      ?p\<lparr>recv_bytes := 72, chunk := ''ef'',
         pending_requests :=
           [\<lparr>task_line = example_line, task_dispatch = Settled Succeeded\<rparr>,
            \<lparr>task_line = ''not json'', task_dispatch = Settled Succeeded\<rparr>],
         wld := example_world
           \<lparr>uuid_draws := 2,
            trace :=
              [TransportWrite ?reply,
               LogMsg (''Resource fallback received unknown command u'' @ [CHR 0x27] @
                       ''unknown'' @ [CHR 0x27] @ '' from sandbox u'' @ [CHR 0x27] @
                       ''sandbox1'' @ [CHR 0x27] @
                       ''. Killing sandbox. [Full command: <Message>]'') 40,
               SignalProcess ''KILL'']\<rparr>\<rparr>"
    unfolding a dl dc
    by (simp add: good bad SandboxProtocol_init_def example_world_def example_line_length_60)
  from th2 have b: "outConnectionLost example_env ?res (?p\<lparr>chunk := example_line\<rparr>) =
      (if chunk (?p\<lparr>chunk := example_line\<rparr>) = [] then ?p\<lparr>chunk := example_line\<rparr>
       else dispatch_line example_env ?res (chunk (?p\<lparr>chunk := example_line\<rparr>))
              (?p\<lparr>chunk := example_line, chunk := []\<rparr>))"
    by blast
  have ne: "example_line \<noteq> []"
    using example_line_length_60 by auto
  have close: "outConnectionLost example_env ?res (?p\<lparr>chunk := example_line\<rparr>) =
      ?p\<lparr>pending_requests :=
           [\<lparr>task_line = example_line, task_dispatch = Settled Succeeded\<rparr>],
         wld := example_world
           \<lparr>uuid_draws := 1, trace := [TransportWrite ?reply]\<rparr>\<rparr>"
    unfolding b
    by (simp add: ne good SandboxProtocol_init_def example_world_def)
  from th1 have c: "errReceived example_env ?edata ?p =
      ?p\<lparr>recv_bytes := recv_bytes ?p + int (length ?edata),
         wld := (wld ?p)\<lparr>trace := trace (wld ?p) @
                  map (\<lambda>l. LogMsg l 40) (demux_lines (error_chunk ?p) ?edata)\<rparr>,
         error_chunk := demux_carry (error_chunk ?p) ?edata\<rparr>"
    by blast
  have err: "errReceived example_env ?edata ?p =
      ?p\<lparr>recv_bytes := 8, error_chunk := ''ef'',
         wld := example_world\<lparr>trace := [LogMsg ''ab'' 40, LogMsg ''cd'' 40]\<rparr>\<rparr>"
    unfolding c
    by (simp add: demux_lines_def demux_carry_def SandboxProtocol_init_def example_world_def)
  from th3 have d: "errConnectionLost (?p\<lparr>error_chunk := ''ef''\<rparr>) =
      (if error_chunk (?p\<lparr>error_chunk := ''ef''\<rparr>) = [] then ?p\<lparr>error_chunk := ''ef''\<rparr>
       else (?p\<lparr>error_chunk := ''ef''\<rparr>)
              \<lparr>wld := (wld (?p\<lparr>error_chunk := ''ef''\<rparr>))
                        \<lparr>trace := trace (wld (?p\<lparr>error_chunk := ''ef''\<rparr>)) @
                           [LogMsg (error_chunk (?p\<lparr>error_chunk := ''ef''\<rparr>)) 40]\<rparr>,
               error_chunk := []\<rparr>)"
    by blast
  have eclose: "errConnectionLost (?p\<lparr>error_chunk := ''ef''\<rparr>) =
      ?p\<lparr>wld := example_world\<lparr>trace := [LogMsg ''ef'' 40]\<rparr>\<rparr>"
    unfolding d
    by (simp add: SandboxProtocol_init_def example_world_def)
  from out close err eclose show ?thesis by (simp only: simp_thms)
qed

end
